theory Spec2Isabelle
  imports Main "HOL-Library.Word" "HOL-Library.Monad_Syntax"
begin

unbundle bit_operations_syntax

section \<open>The netlist dialog of eeschema (eeschema/dialogs/dialog_netlist.cpp)\<close>

text \<open>
  The dialog is a notebook with four fixed netlist formats (Pcbnew, OrcadPCB2, CadStar,
  Spice) and up to \<open>CUSTOMPANEL_COUNTMAX\<close> pages for external converters ("plugins").
  The development below embeds the member functions of \<open>NETLIST_PAGE_DIALOG\<close>,
  \<open>NETLIST_DIALOG\<close>, \<open>NETLIST_DIALOG_ADD_GENERATOR\<close> and \<open>InvokeDialogNetList\<close> as
  functions on explicit state. A dereference of a null pointer is the result \<open>None\<close>.
\<close>

subsection \<open>Constants and declarations\<close>

definition CUSTOMPANEL_COUNTMAX :: nat where
  "CUSTOMPANEL_COUNTMAX = 8"

text \<open>\<open>enum panel_netlist_index\<close>: the notebook page identifiers.\<close>

definition PANELPCBNEW :: nat where "PANELPCBNEW = 0"
definition PANELORCADPCB2 :: nat where "PANELORCADPCB2 = 1"
definition PANELCADSTAR :: nat where "PANELCADSTAR = 2"
definition PANELSPICE :: nat where "PANELSPICE = 3"
definition PANELCUSTOMBASE :: nat where "PANELCUSTOMBASE = 4"

text \<open>The configuration keywords.\<close>

definition CUSTOM_NETLIST_TITLE :: string where
  "CUSTOM_NETLIST_TITLE = ''CustomNetlistTitle''"

definition CUSTOM_NETLIST_COMMAND :: string where
  "CUSTOM_NETLIST_COMMAND = ''CustomNetlistCommand''"

text \<open>
  The declarations this file takes from headers that are not part of it
  (\<open>netlist.h\<close>, \<open>wildcards_and_files_ext.h\<close>): the values of \<open>enum NETLIST_TYPE_ID\<close>
  (a C++ enumeration, so integers), the option bit \<open>NET_ADJUST_PASSIVE_VALS\<close>, the
  standard netlist extension and the wildcard strings. They are parameters of the model.
\<close>

type_synonym NETLIST_TYPE_ID = int

record decls =
  NET_TYPE_PCBNEW :: NETLIST_TYPE_ID
  NET_TYPE_ORCADPCB2 :: NETLIST_TYPE_ID
  NET_TYPE_CADSTAR :: NETLIST_TYPE_ID
  NET_TYPE_SPICE :: NETLIST_TYPE_ID
  NET_TYPE_CUSTOM1 :: NETLIST_TYPE_ID
  NET_ADJUST_PASSIVE_VALS :: "32 word"
  NetlistFileExtension :: string
  SpiceNetlistFileWildcard :: string
  CadstarNetlistFileWildcard :: string
  NetlistFileWildcard :: string
  AllFilesWildcard :: string

text \<open>
  The labels of one \<open>switch\<close> are pairwise different, or the file would not compile.
\<close>

definition builtin_ids_distinct :: "decls \<Rightarrow> bool" where
  "builtin_ids_distinct x =
     distinct [NET_TYPE_SPICE x, NET_TYPE_CADSTAR x, NET_TYPE_PCBNEW x, NET_TYPE_ORCADPCB2 x]"

text \<open>The type ids that fall into the \<open>default:\<close> branch of the two switches.\<close>

definition is_custom_id :: "decls \<Rightarrow> NETLIST_TYPE_ID \<Rightarrow> bool" where
  "is_custom_id x i =
     (i \<noteq> NET_TYPE_SPICE x \<and> i \<noteq> NET_TYPE_CADSTAR x \<and>
      i \<noteq> NET_TYPE_PCBNEW x \<and> i \<noteq> NET_TYPE_ORCADPCB2 x)"

subsection \<open>FilenamePrms\<close>

text \<open>
  \<open>bool FilenamePrms( NETLIST_TYPE_ID aNetTypeId, wxString* aExt, wxString* aWildCard )\<close>.
  The two out-parameters are pointers that may be null: \<open>None\<close> is the null pointer,
  \<open>Some s\<close> a pointer to a string holding \<open>s\<close>. The result is the returned flag and
  the two pointers after the call.
\<close>

definition FilenamePrms ::
  "decls \<Rightarrow> NETLIST_TYPE_ID \<Rightarrow> string option \<Rightarrow> string option \<Rightarrow>
     bool \<times> string option \<times> string option" where
  "FilenamePrms x aNetTypeId aExt aWildCard =
     (let (fileExt, fileWildcard, ret) =
        (if aNetTypeId = NET_TYPE_SPICE x then
           (''cir'', SpiceNetlistFileWildcard x, True)
         else if aNetTypeId = NET_TYPE_CADSTAR x then
           (''frp'', CadstarNetlistFileWildcard x, True)
         else if aNetTypeId = NET_TYPE_PCBNEW x \<or> aNetTypeId = NET_TYPE_ORCADPCB2 x then
           (NetlistFileExtension x, NetlistFileWildcard x, True)
         else
           ([], AllFilesWildcard x, False))
      in (ret,
          (case aExt of None \<Rightarrow> None | Some _ \<Rightarrow> Some fileExt),
          (case aWildCard of None \<Rightarrow> None | Some _ \<Rightarrow> Some fileWildcard)))"

subsection \<open>Strings, configuration, file names\<close>

text \<open>
  \<open>msg << jj + 1\<close> appends the decimal digits of an integer to a \<open>wxString\<close>.
\<close>

function dec :: "nat \<Rightarrow> string" where
  "dec n = (if n < 10 then [char_of (48 + n)] else dec (n div 10) @ [char_of (48 + n mod 10)])"
  by pat_completeness auto
termination
  by (relation "measure id") auto

declare dec.simps [simp del]

definition key :: "string \<Rightarrow> nat \<Rightarrow> string" where
  "key keyword n = keyword @ dec n"

text \<open>
  The configuration (\<open>wxConfigBase\<close>) is a store of strings by key.
  \<open>Read( key )\<close> returns the empty string for a key that is not there.
\<close>

type_synonym config = "string \<rightharpoonup> string"

definition Read :: "config \<Rightarrow> string \<Rightarrow> string" where
  "Read cfg k = (case cfg k of None \<Rightarrow> [] | Some v \<Rightarrow> v)"

text \<open>
  \<open>wxString::Trim\<close>, \<open>BeforeFirst\<close> and \<open>AfterFirst\<close>: \<open>Trim( false )\<close> removes white
  space at the left, \<open>Trim( true )\<close> at the right; \<open>BeforeFirst( ch )\<close> is the whole
  string and \<open>AfterFirst( ch )\<close> the empty string when \<open>ch\<close> does not occur.
\<close>

definition wxIsspace :: "char \<Rightarrow> bool" where
  "wxIsspace c = (c \<in> set [CHR 0x20, CHR 0x09, CHR 0x0A, CHR 0x0B, CHR 0x0C, CHR 0x0D])"

definition Trim :: "bool \<Rightarrow> string \<Rightarrow> string" where
  "Trim bFromRight s =
     (if bFromRight then rev (dropWhile wxIsspace (rev s)) else dropWhile wxIsspace s)"

definition BeforeFirst :: "char \<Rightarrow> string \<Rightarrow> string" where
  "BeforeFirst ch s = takeWhile (\<lambda>c. c \<noteq> ch) s"

definition AfterFirst :: "char \<Rightarrow> string \<Rightarrow> string" where
  "AfterFirst ch s = drop 1 (dropWhile (\<lambda>c. c \<noteq> ch) s)"

text \<open>
  \<open>wxFileName\<close>, as far as this file uses it: a directory, a name and an extension
  (\<open>m_hasExt\<close> tells a name with an empty extension from a name with none).
  Paths are rendered in the Unix format.
\<close>

record wxFileName =
  fn_path :: string
  fn_name :: string
  fn_ext :: string
  fn_hasExt :: bool

definition SetExt :: "string \<Rightarrow> wxFileName \<Rightarrow> wxFileName" where
  "SetExt ext fn = fn\<lparr>fn_ext := ext, fn_hasExt := (ext \<noteq> [])\<rparr>"

definition SetPath :: "string \<Rightarrow> wxFileName \<Rightarrow> wxFileName" where
  "SetPath path fn = fn\<lparr>fn_path := path\<rparr>"

definition GetPath :: "wxFileName \<Rightarrow> string" where
  "GetPath fn = fn_path fn"

definition GetFullName :: "wxFileName \<Rightarrow> string" where
  "GetFullName fn = fn_name fn @ (if fn_hasExt fn then ''.'' @ fn_ext fn else [])"

definition GetFullPath :: "wxFileName \<Rightarrow> string" where
  "GetFullPath fn = (if fn_path fn = [] then [] else fn_path fn @ ''/'') @ GetFullName fn"

definition dquote :: char where
  "dquote = CHR 0x22"

subsection \<open>The regular expression of GenNetlist\<close>

text \<open>
  \<open>wxRegEx\<close> is a library class; the model below is a backtracking matcher for the
  fragment of the syntax that the pattern of \<open>GenNetlist\<close> uses: single characters,
  \<open>.\<close>, \<open>[[:alnum:]]\<close>, the postfix operators \<open>?\<close> and \<open>*\<close> on them, and one
  parenthesised group. Operators are greedy, so the group that is reported is the one
  the library reports for this pattern (every operator of the pattern takes the longest
  string that lets the rest match, from left to right). Characters are bytes and
  \<open>[[:alnum:]]\<close> is its ASCII meaning.
\<close>

datatype atom = AnyChar | Lit char | Alnum

datatype piece = One atom | Opt atom | Star atom | Open | Close

definition isalnum :: "char \<Rightarrow> bool" where
  "isalnum c =
     (let n = (of_char c :: nat)
      in (48 \<le> n \<and> n \<le> 57) \<or> (65 \<le> n \<and> n \<le> 90) \<or> (97 \<le> n \<and> n \<le> 122))"

fun atom_ok :: "atom \<Rightarrow> char \<Rightarrow> bool" where
  "atom_ok AnyChar c = True"
| "atom_ok (Lit l) c = (c = l)"
| "atom_ok Alnum c = isalnum c"

text \<open>
  \<open>bt ps s g cap\<close> matches the pieces \<open>ps\<close> at the start of \<open>s\<close>; \<open>g\<close> tells whether
  the group is open and \<open>cap\<close> is the text of the group so far. The result is the text of
  the group of the first match in backtracking order, \<open>None\<close> when there is no match.
\<close>

fun bt :: "piece list \<Rightarrow> string \<Rightarrow> bool \<Rightarrow> string \<Rightarrow> string option" where
  "bt [] s g cap = Some cap"
| "bt (Open # ps) s g cap = bt ps s True []"
| "bt (Close # ps) s g cap = bt ps s False cap"
| "bt (One a # ps) [] g cap = None"
| "bt (One a # ps) (c # s) g cap =
     (if atom_ok a c then bt ps s g (if g then cap @ [c] else cap) else None)"
| "bt (Opt a # ps) [] g cap = bt ps [] g cap"
| "bt (Opt a # ps) (c # s) g cap =
     (if atom_ok a c then
        (case bt ps s g (if g then cap @ [c] else cap) of
           Some r \<Rightarrow> Some r
         | None \<Rightarrow> bt ps (c # s) g cap)
      else bt ps (c # s) g cap)"
| "bt (Star a # ps) [] g cap = bt ps [] g cap"
| "bt (Star a # ps) (c # s) g cap =
     (if atom_ok a c then
        (case bt (Star a # ps) s g (if g then cap @ [c] else cap) of
           Some r \<Rightarrow> Some r
         | None \<Rightarrow> bt ps (c # s) g cap)
      else bt ps (c # s) g cap)"

text \<open>
  \<open>wxRegEx::Matches\<close> looks for a match that starts anywhere in the text, leftmost first;
  \<open>GetMatch( text, 1 )\<close> is the text of the first group of that match.
\<close>

fun Matches :: "piece list \<Rightarrow> string \<Rightarrow> string option" where
  "Matches ps [] = bt ps [] False []"
| "Matches ps (c # s) =
     (case bt ps (c # s) False [] of Some r \<Rightarrow> Some r | None \<Rightarrow> Matches ps s)"

text \<open>
  The pattern \<^verbatim>\<open>.*\.([[:alnum:]][[:alnum:]][[:alnum:]][[:alnum:]]?)\.xslt?".*\<close>
\<close>

definition extRE :: "piece list" where
  "extRE =
     [Star AnyChar, One (Lit CHR ''.''),
      Open, One Alnum, One Alnum, One Alnum, Opt Alnum, Close,
      One (Lit CHR ''.''), One (Lit CHR ''x''), One (Lit CHR ''s''), One (Lit CHR ''l''),
      Opt (Lit CHR ''t''), One (Lit dquote), Star AnyChar]"

subsection \<open>The state\<close>

text \<open>
  The codes a modal dialog ends with, and the calls this file makes to the rest of the
  application and to the user interface, in the order they are made. The netlist that
  \<open>CreateNetlist\<close> returns is a pointer; the model keeps a handle for it.
\<close>

datatype modal_code = wxID_OK | wxID_CANCEL | NET_PLUGIN_CHANGE

datatype call =
    MessageBox string
  | FileDialog string string string string
  | ClearMsgPanel
  | CreateNetlist
  | WriteNetListFile "nat option" NETLIST_TYPE_ID string "32 word"
  | ExecuteFile string string
  | SaveProjectSettings
  | EndModal modal_code

text \<open>The parent frame (\<open>SCH_EDIT_FRAME\<close>): the settings this file gets and sets.\<close>

record SCH_EDIT_FRAME =
  NetListFormatName :: string
  SimulatorCommand :: string
  SpiceAjustPassiveValues :: bool
  NetListerCommand :: string

text \<open>
  A notebook page. A widget pointer that the constructor leaves null is \<open>None\<close>; a
  widget that exists is \<open>Some\<close> of its value. \<open>m_IsCurrentFormat\<close> is created by the
  constructor of every page, so it is its value.
\<close>

record NETLIST_PAGE_DIALOG =
  m_IdNetType :: NETLIST_TYPE_ID
  m_IsCurrentFormat :: bool
  m_SpiceAjustPassiveValues :: "bool option"
  m_CommandStringCtrl :: "string option"
  m_TitleStringCtrl :: "string option"
  m_pageNetFmtName :: string

text \<open>
  The dialog. The pages live in the notebook, in the order they were added; a pointer
  to a page is its position there, and \<open>m_PanelNetType\<close> is the array of such
  pointers (\<open>None\<close> is the null pointer). \<open>m_Parent\<close> and \<open>m_config\<close> point to objects
  that only the dialog changes while it is open, so the record holds their state.
  \<open>index\<close> is the static counter of \<open>UserNetlistTypeName\<close>, and \<open>calls\<close> the calls that
  the handlers of \<open>NETLIST_DIALOG\<close> have made so far.
\<close>

record NETLIST_DIALOG =
  m_Parent :: SCH_EDIT_FRAME
  m_DefaultNetFmtName :: string
  m_PanelNetType :: "nat \<Rightarrow> nat option"
  m_asFormatSelected :: bool
  m_config :: config
  m_NoteBook :: "NETLIST_PAGE_DIALOG list"
  m_NoteBook_selection :: "nat option"
  m_buttonDelGenerator :: bool
  index :: nat
  calls :: "call list"

text \<open>What the rest of the application and the user answer during one handler.\<close>

record env =
  RootFileName :: wxFileName
  ProjectPath :: string
  FileDialog_result :: "string option"
  CreateNetlist_result :: "nat option"
  WriteNetListFile_result :: bool

definition page_at :: "NETLIST_DIALOG \<Rightarrow> nat \<Rightarrow> NETLIST_PAGE_DIALOG option" where
  "page_at d p = (if p < length (m_NoteBook d) then Some (m_NoteBook d ! p) else None)"

definition upd_page ::
  "nat \<Rightarrow> (NETLIST_PAGE_DIALOG \<Rightarrow> NETLIST_PAGE_DIALOG) \<Rightarrow> NETLIST_DIALOG \<Rightarrow> NETLIST_DIALOG option" where
  "upd_page p f d =
     (if p < length (m_NoteBook d)
      then Some (d\<lparr>m_NoteBook := (m_NoteBook d)[p := f (m_NoteBook d ! p)]\<rparr>)
      else None)"

definition set_panel :: "nat \<Rightarrow> nat option \<Rightarrow> NETLIST_DIALOG \<Rightarrow> NETLIST_DIALOG" where
  "set_panel ii p d = d\<lparr>m_PanelNetType := (m_PanelNetType d)(ii := p)\<rparr>"

definition do_call :: "call \<Rightarrow> NETLIST_DIALOG \<Rightarrow> NETLIST_DIALOG" where
  "do_call c d = d\<lparr>calls := calls d @ [c]\<rparr>"

definition cfg_Write :: "string \<Rightarrow> string \<Rightarrow> NETLIST_DIALOG \<Rightarrow> NETLIST_DIALOG" where
  "cfg_Write k v d = d\<lparr>m_config := (m_config d)(k \<mapsto> v)\<rparr>"

definition SetNetListFormatName :: "string \<Rightarrow> NETLIST_DIALOG \<Rightarrow> NETLIST_DIALOG" where
  "SetNetListFormatName s d = d\<lparr>m_Parent := (m_Parent d)\<lparr>NetListFormatName := s\<rparr>\<rparr>"

definition SetSimulatorCommand :: "string \<Rightarrow> NETLIST_DIALOG \<Rightarrow> NETLIST_DIALOG" where
  "SetSimulatorCommand s d = d\<lparr>m_Parent := (m_Parent d)\<lparr>SimulatorCommand := s\<rparr>\<rparr>"

definition SetSpiceAjustPassiveValues :: "bool \<Rightarrow> NETLIST_DIALOG \<Rightarrow> NETLIST_DIALOG" where
  "SetSpiceAjustPassiveValues b d = d\<lparr>m_Parent := (m_Parent d)\<lparr>SpiceAjustPassiveValues := b\<rparr>\<rparr>"

definition SetNetListerCommand :: "string \<Rightarrow> NETLIST_DIALOG \<Rightarrow> NETLIST_DIALOG" where
  "SetNetListerCommand s d = d\<lparr>m_Parent := (m_Parent d)\<lparr>NetListerCommand := s\<rparr>\<rparr>"

text \<open>
  The notebook (\<open>wxNotebook\<close>): \<open>AddPage\<close> appends a page and selects it when asked to,
  or when it is the first page; \<open>GetCurrentPage\<close> is null when no page is selected.
\<close>

definition AddPage :: "NETLIST_PAGE_DIALOG \<Rightarrow> bool \<Rightarrow> NETLIST_DIALOG \<Rightarrow> NETLIST_DIALOG" where
  "AddPage page bSelect d =
     d\<lparr>m_NoteBook := m_NoteBook d @ [page],
       m_NoteBook_selection :=
         (if bSelect \<or> m_NoteBook_selection d = None then Some (length (m_NoteBook d))
          else m_NoteBook_selection d)\<rparr>"

definition SetSelection :: "nat \<Rightarrow> NETLIST_DIALOG \<Rightarrow> NETLIST_DIALOG" where
  "SetSelection n d =
     (if n < length (m_NoteBook d) then d\<lparr>m_NoteBook_selection := Some n\<rparr> else d)"

definition GetCurrentPage :: "NETLIST_DIALOG \<Rightarrow> nat option" where
  "GetCurrentPage d =
     (case m_NoteBook_selection d of
        None \<Rightarrow> None
      | Some p \<Rightarrow> if p < length (m_NoteBook d) then Some p else None)"

subsection \<open>Construction of the pages and of the dialog\<close>

text \<open>
  The constructor of \<open>NETLIST_PAGE_DIALOG\<close>; the result is the pointer to the new page
  and the dialog with the page in its notebook.
\<close>

definition NETLIST_PAGE_DIALOG_ctor ::
  "string \<Rightarrow> NETLIST_TYPE_ID \<Rightarrow> NETLIST_DIALOG \<Rightarrow> nat \<times> NETLIST_DIALOG" where
  "NETLIST_PAGE_DIALOG_ctor title id_NetType d =
     (let netfmtName = m_DefaultNetFmtName d;
          selected = (title = netfmtName);
          this = length (m_NoteBook d);
          page = \<lparr>m_IdNetType = id_NetType, m_IsCurrentFormat = selected,
                  m_SpiceAjustPassiveValues = None, m_CommandStringCtrl = None,
                  m_TitleStringCtrl = None, m_pageNetFmtName = title\<rparr>;
          d1 = AddPage page selected d
      in (this, if selected then d1\<lparr>m_asFormatSelected := True\<rparr> else d1))"

definition UserNetlistTypeName :: "bool \<Rightarrow> NETLIST_DIALOG \<Rightarrow> string \<times> NETLIST_DIALOG" where
  "UserNetlistTypeName first_item d =
     (let d1 = d\<lparr>index := (if first_item then 0 else index d + 1)\<rparr>;
          msg = key CUSTOM_NETLIST_TITLE (index d1 + 1)
      in (Read (m_config d1) msg, d1))"

definition InstallPageSpice :: "decls \<Rightarrow> NETLIST_DIALOG \<Rightarrow> NETLIST_DIALOG option" where
  "InstallPageSpice x d =
     (let (page, d1) = NETLIST_PAGE_DIALOG_ctor ''Spice'' (NET_TYPE_SPICE x) d;
          d2 = set_panel PANELSPICE (Some page) d1
      in do {
        d3 \<leftarrow> upd_page page
                (m_SpiceAjustPassiveValues_update
                   (\<lambda>_. Some (SpiceAjustPassiveValues (m_Parent d2)))) d2;
        upd_page page
          (m_CommandStringCtrl_update (\<lambda>_. Some (SimulatorCommand (m_Parent d3)))) d3
      })"

definition AddOneCustomPage ::
  "string \<Rightarrow> string \<Rightarrow> NETLIST_TYPE_ID \<Rightarrow> NETLIST_DIALOG \<Rightarrow> (nat \<times> NETLIST_DIALOG) option" where
  "AddOneCustomPage aTitle aCommandString aNetTypeId d =
     (let (currPage, d1) = NETLIST_PAGE_DIALOG_ctor aTitle aNetTypeId d
      in do {
        d2 \<leftarrow> upd_page currPage (m_CommandStringCtrl_update (\<lambda>_. Some aCommandString)) d1;
        d3 \<leftarrow> upd_page currPage (m_TitleStringCtrl_update (\<lambda>_. Some aTitle)) d2;
        Some (currPage, d3)
      })"

text \<open>The loop of \<open>InstallCustomPages\<close>, from the value \<open>ii\<close> of its counter on.\<close>

function InstallCustomPages_from :: "decls \<Rightarrow> nat \<Rightarrow> NETLIST_DIALOG \<Rightarrow> NETLIST_DIALOG option" where
  "InstallCustomPages_from x ii d =
     (if ii < CUSTOMPANEL_COUNTMAX then
        (let (title, d1) = UserNetlistTypeName (ii = 0) d
         in if title = [] then Some d1
            else
              (let msg = key CUSTOM_NETLIST_COMMAND (ii + 1);
                   command = Read (m_config d1) msg
               in case AddOneCustomPage title command (NET_TYPE_CUSTOM1 x + int ii) d1 of
                    None \<Rightarrow> None
                  | Some (currPage, d2) \<Rightarrow>
                      InstallCustomPages_from x (ii + 1)
                        (set_panel (PANELCUSTOMBASE + ii) (Some currPage) d2)))
      else Some d)"
  by pat_completeness auto
termination
  by (relation "measure (\<lambda>(x, ii, d). CUSTOMPANEL_COUNTMAX - ii)") auto

declare InstallCustomPages_from.simps [simp del]

definition InstallCustomPages :: "decls \<Rightarrow> NETLIST_DIALOG \<Rightarrow> NETLIST_DIALOG option" where
  "InstallCustomPages x d = InstallCustomPages_from x 0 d"

definition OnNetlistTypeSelection :: "decls \<Rightarrow> NETLIST_DIALOG \<Rightarrow> NETLIST_DIALOG option" where
  "OnNetlistTypeSelection x d =
     (case GetCurrentPage d of
        None \<Rightarrow> Some d
      | Some currPage \<Rightarrow> do {
          page \<leftarrow> page_at d currPage;
          Some (d\<lparr>m_buttonDelGenerator := (m_IdNetType page \<ge> NET_TYPE_CUSTOM1 x)\<rparr>)
        })"

text \<open>
  The constructor of \<open>NETLIST_DIALOG\<close>, from the parent frame, the configuration and
  the value of the static counter. (It also reads \<open>NetlistUseDefaultNetname\<close> from the
  configuration into a local variable that is not used.)
\<close>

definition NETLIST_DIALOG_ctor ::
  "decls \<Rightarrow> SCH_EDIT_FRAME \<Rightarrow> config \<Rightarrow> nat \<Rightarrow> NETLIST_DIALOG option" where
  "NETLIST_DIALOG_ctor x parent cfg idx =
     (let d0 = \<lparr>m_Parent = parent, m_DefaultNetFmtName = NetListFormatName parent,
                m_PanelNetType = (\<lambda>ii. None), m_asFormatSelected = False,
                m_config = cfg, m_NoteBook = [], m_NoteBook_selection = None,
                m_buttonDelGenerator = True, index = idx, calls = []\<rparr>;
          (p0, d1) = NETLIST_PAGE_DIALOG_ctor ''Pcbnew'' (NET_TYPE_PCBNEW x) d0;
          d2 = set_panel PANELPCBNEW (Some p0) d1;
          (p1, d3) = NETLIST_PAGE_DIALOG_ctor ''OrcadPCB2'' (NET_TYPE_ORCADPCB2 x) d2;
          d4 = set_panel PANELORCADPCB2 (Some p1) d3;
          (p2, d5) = NETLIST_PAGE_DIALOG_ctor ''CadStar'' (NET_TYPE_CADSTAR x) d4;
          d6 = set_panel PANELCADSTAR (Some p2) d5
      in do {
        d7 \<leftarrow> InstallPageSpice x d6;
        d8 \<leftarrow> InstallCustomPages x d7;
        if \<not> m_asFormatSelected d8 then do {
          pcbnew \<leftarrow> m_PanelNetType d8 PANELPCBNEW;
          d9 \<leftarrow> upd_page pcbnew (m_IsCurrentFormat_update (\<lambda>_. True)) d8;
          let d10 = SetSelection PANELPCBNEW d9;
          page \<leftarrow> page_at d10 pcbnew;
          let d11 = d10\<lparr>m_DefaultNetFmtName := m_pageNetFmtName page\<rparr>;
          OnNetlistTypeSelection x d11
        } else Some d8
      })"

subsection \<open>The handlers\<close>

text \<open>The loop of \<open>SelectDefaultNetlistType\<close>: it skips the null entries.\<close>

function SelectDefaultNetlistType_from :: "nat \<Rightarrow> NETLIST_DIALOG \<Rightarrow> NETLIST_DIALOG option" where
  "SelectDefaultNetlistType_from ii d =
     (if ii < PANELCUSTOMBASE + CUSTOMPANEL_COUNTMAX then
        (case m_PanelNetType d ii of
           None \<Rightarrow> SelectDefaultNetlistType_from (ii + 1) d
         | Some p \<Rightarrow>
             (case upd_page p (m_IsCurrentFormat_update (\<lambda>_. False)) d of
                None \<Rightarrow> None
              | Some d1 \<Rightarrow> SelectDefaultNetlistType_from (ii + 1) d1))
      else Some d)"
  by pat_completeness auto
termination
  by (relation "measure (\<lambda>(ii, d). PANELCUSTOMBASE + CUSTOMPANEL_COUNTMAX - ii)") auto

declare SelectDefaultNetlistType_from.simps [simp del]

definition SelectDefaultNetlistType :: "NETLIST_DIALOG \<Rightarrow> NETLIST_DIALOG option" where
  "SelectDefaultNetlistType d = do {
     d1 \<leftarrow> SelectDefaultNetlistType_from 0 d;
     case GetCurrentPage d1 of
       None \<Rightarrow> Some d1
     | Some currPage \<Rightarrow> do {
         page \<leftarrow> page_at d1 currPage;
         let d2 = d1\<lparr>m_DefaultNetFmtName := m_pageNetFmtName page\<rparr>;
         let d3 = SetNetListFormatName (m_DefaultNetFmtName d2) d2;
         upd_page currPage (m_IsCurrentFormat_update (\<lambda>_. True)) d3
       }
   }"

text \<open>The loop of \<open>NetlistUpdateOpt\<close>: it stops at the first null entry.\<close>

function NetlistUpdateOpt_from :: "nat \<Rightarrow> NETLIST_DIALOG \<Rightarrow> NETLIST_DIALOG option" where
  "NetlistUpdateOpt_from ii d =
     (if ii < PANELCUSTOMBASE + CUSTOMPANEL_COUNTMAX then
        (case m_PanelNetType d ii of
           None \<Rightarrow> Some d
         | Some p \<Rightarrow>
             (case page_at d p of
                None \<Rightarrow> None
              | Some page \<Rightarrow>
                  NetlistUpdateOpt_from (ii + 1)
                    (if m_IsCurrentFormat page = True
                     then SetNetListFormatName (m_pageNetFmtName page) d else d)))
      else Some d)"
  by pat_completeness auto
termination
  by (relation "measure (\<lambda>(ii, d). PANELCUSTOMBASE + CUSTOMPANEL_COUNTMAX - ii)") auto

declare NetlistUpdateOpt_from.simps [simp del]

definition NetlistUpdateOpt :: "NETLIST_DIALOG \<Rightarrow> NETLIST_DIALOG option" where
  "NetlistUpdateOpt d = do {
     spice \<leftarrow> m_PanelNetType d PANELSPICE;
     page \<leftarrow> page_at d spice;
     adjust \<leftarrow> m_SpiceAjustPassiveValues page;
     let d1 = SetSpiceAjustPassiveValues adjust d;
     command \<leftarrow> m_CommandStringCtrl page;
     let d2 = SetSimulatorCommand command d1;
     let d3 = SetNetListFormatName [] d2;
     NetlistUpdateOpt_from 0 d3
   }"

text \<open>
  The two loops of \<open>WriteCurrentNetlistSetup\<close>. The first one returns the value of
  \<open>jj\<close> it ends with.
\<close>

function WriteCurrentNetlistSetup_pages ::
  "nat \<Rightarrow> nat \<Rightarrow> NETLIST_DIALOG \<Rightarrow> (nat \<times> NETLIST_DIALOG) option" where
  "WriteCurrentNetlistSetup_pages ii jj d =
     (if ii < CUSTOMPANEL_COUNTMAX then
        (case m_PanelNetType d (ii + PANELCUSTOMBASE) of
           None \<Rightarrow> Some (jj, d)
         | Some currPage \<Rightarrow>
             (case page_at d currPage of
                None \<Rightarrow> None
              | Some page \<Rightarrow>
                  (case m_TitleStringCtrl page of
                     None \<Rightarrow> None
                   | Some title \<Rightarrow>
                       if title = [] then WriteCurrentNetlistSetup_pages (ii + 1) jj d
                       else
                         (case m_CommandStringCtrl page of
                            None \<Rightarrow> None
                          | Some Command \<Rightarrow>
                              WriteCurrentNetlistSetup_pages (ii + 1) (jj + 1)
                                (cfg_Write (key CUSTOM_NETLIST_COMMAND (jj + 1)) Command
                                   (cfg_Write (key CUSTOM_NETLIST_TITLE (jj + 1)) title d))))))
      else Some (jj, d))"
  by pat_completeness auto
termination
  by (relation "measure (\<lambda>(ii, jj, d). CUSTOMPANEL_COUNTMAX - ii)") auto

declare WriteCurrentNetlistSetup_pages.simps [simp del]

function WriteCurrentNetlistSetup_void :: "nat \<Rightarrow> NETLIST_DIALOG \<Rightarrow> NETLIST_DIALOG" where
  "WriteCurrentNetlistSetup_void jj d =
     (if jj < CUSTOMPANEL_COUNTMAX then
        WriteCurrentNetlistSetup_void (jj + 1)
          (cfg_Write (key CUSTOM_NETLIST_COMMAND (jj + 1)) []
             (cfg_Write (key CUSTOM_NETLIST_TITLE (jj + 1)) [] d))
      else d)"
  by pat_completeness auto
termination
  by (relation "measure (\<lambda>(jj, d). CUSTOMPANEL_COUNTMAX - jj)") auto

declare WriteCurrentNetlistSetup_void.simps [simp del]

definition WriteCurrentNetlistSetup :: "NETLIST_DIALOG \<Rightarrow> NETLIST_DIALOG option" where
  "WriteCurrentNetlistSetup d = do {
     d1 \<leftarrow> NetlistUpdateOpt d;
     (jj, d2) \<leftarrow> WriteCurrentNetlistSetup_pages 0 0 d1;
     Some (WriteCurrentNetlistSetup_void jj d2)
   }"

text \<open>
  The \<open>switch\<close> of \<open>GenNetlist\<close>: the netlist options, the extension and the title of the
  file dialog for the current page.
\<close>

definition GenNetlist_switch ::
  "decls \<Rightarrow> NETLIST_PAGE_DIALOG \<Rightarrow> string \<Rightarrow> string \<Rightarrow> (32 word \<times> string \<times> string) option" where
  "GenNetlist_switch x currPage fileExt title =
     (if m_IdNetType currPage = NET_TYPE_SPICE x then do {
        adjust \<leftarrow> m_SpiceAjustPassiveValues currPage;
        Some (if adjust then 0 OR NET_ADJUST_PASSIVE_VALS x else 0, fileExt, title)
      }
      else if m_IdNetType currPage = NET_TYPE_CADSTAR x then Some (0, fileExt, title)
      else if m_IdNetType currPage = NET_TYPE_PCBNEW x then Some (0, fileExt, title)
      else if m_IdNetType currPage = NET_TYPE_ORCADPCB2 x then Some (0, fileExt, title)
      else do {
        command \<leftarrow> m_CommandStringCtrl currPage;
        let fileExt1 = (case Matches extRE command of Some m \<Rightarrow> m | None \<Rightarrow> fileExt);
        titleString \<leftarrow> m_TitleStringCtrl currPage;
        Some (0, fileExt1, titleString @ '' Export'')
      })"

definition GenNetlist :: "decls \<Rightarrow> env \<Rightarrow> NETLIST_DIALOG \<Rightarrow> NETLIST_DIALOG option" where
  "GenNetlist x e d = do {
     d1 \<leftarrow> NetlistUpdateOpt d;
     currPage \<leftarrow> GetCurrentPage d1;
     page \<leftarrow> page_at d1 currPage;
     let fn = RootFileName e;
     let (ret, aExt, aWildCard) = FilenamePrms x (m_IdNetType page) (Some []) (Some []);
     let fileExt0 = (case aExt of Some v \<Rightarrow> v | None \<Rightarrow> []);
     let fileWildcard = (case aWildCard of Some v \<Rightarrow> v | None \<Rightarrow> []);
     (netlist_opt, fileExt, title) \<leftarrow> GenNetlist_switch x page fileExt0 ''Save Netlist File'';
     let fn1 = SetExt fileExt fn;
     let fn2 = (if GetPath fn1 = [] then SetPath (ProjectPath e) fn1 else fn1);
     let fullname = GetFullName fn2;
     let path = GetPath fn2;
     let d2 = do_call (FileDialog title path fullname fileWildcard) d1;
     case FileDialog_result e of
       None \<Rightarrow> Some d2
     | Some fullpath \<Rightarrow> do {
         let d3 = do_call ClearMsgPanel d2;
         let d4 = (case m_CommandStringCtrl page of
                     Some v \<Rightarrow> SetNetListerCommand v d3
                   | None \<Rightarrow> SetNetListerCommand [] d3);
         let d5 = do_call CreateNetlist d4;
         let d6 = (case CreateNetlist_result e of
                     None \<Rightarrow> do_call (MessageBox ''Schematic netlist not available'') d5
                   | Some netlist \<Rightarrow>
                       do_call (WriteNetListFile (Some netlist) (m_IdNetType page)
                                  fullpath netlist_opt) d5);
         d7 \<leftarrow> WriteCurrentNetlistSetup d6;
         Some (do_call (EndModal wxID_OK) d7)
       }
   }"

definition RunSimulator :: "decls \<Rightarrow> env \<Rightarrow> NETLIST_DIALOG \<Rightarrow> NETLIST_DIALOG option" where
  "RunSimulator x e d = do {
     d1 \<leftarrow> NetlistUpdateOpt d;
     spice \<leftarrow> m_PanelNetType d1 PANELSPICE;
     spicePage \<leftarrow> page_at d1 spice;
     tmp0 \<leftarrow> m_CommandStringCtrl spicePage;
     let tmp = Trim True (Trim False tmp0);
     let d2 = SetSimulatorCommand tmp d1;
     let ExecFile = BeforeFirst CHR '' '' tmp;
     let CommandLine0 = AfterFirst CHR '' '' tmp;
     let fn = SetExt ''cir'' (RootFileName e);
     let CommandLine = CommandLine0 @ ('' '' @ [dquote]) @ GetFullPath fn @ [dquote];
     currPage \<leftarrow> GetCurrentPage d2;
     page \<leftarrow> page_at d2 currPage;
     let netlist_opt =
       (if (case m_SpiceAjustPassiveValues page of None \<Rightarrow> False | Some v \<Rightarrow> v)
        then 0 OR NET_ADJUST_PASSIVE_VALS x else 0);
     let d3 = do_call CreateNetlist d2;
     let d4 = do_call (WriteNetListFile (CreateNetlist_result e) (m_IdNetType page)
                         (GetFullPath fn) netlist_opt) d3;
     if \<not> WriteNetListFile_result e then Some d4
     else Some (do_call (ExecuteFile ExecFile CommandLine) d4)
   }"

definition OnDelGenerator :: "NETLIST_DIALOG \<Rightarrow> NETLIST_DIALOG option" where
  "OnDelGenerator d = do {
     currPage \<leftarrow> GetCurrentPage d;
     page \<leftarrow> page_at d currPage;
     _ \<leftarrow> m_CommandStringCtrl page;
     d1 \<leftarrow> upd_page currPage (m_CommandStringCtrl_update (\<lambda>_. Some [])) d;
     _ \<leftarrow> m_TitleStringCtrl page;
     d2 \<leftarrow> upd_page currPage (m_TitleStringCtrl_update (\<lambda>_. Some [])) d1;
     d4 \<leftarrow> (if m_IsCurrentFormat page then do {
              d3 \<leftarrow> upd_page currPage (m_IsCurrentFormat_update (\<lambda>_. False)) d2;
              pcbnew \<leftarrow> m_PanelNetType d3 PANELPCBNEW;
              upd_page pcbnew (m_IsCurrentFormat_update (\<lambda>_. True)) d3
            } else Some d2);
     d5 \<leftarrow> WriteCurrentNetlistSetup d4;
     Some (do_call (EndModal NET_PLUGIN_CHANGE) d5)
   }"

subsection \<open>Adding a generator\<close>

text \<open>
  The dialog \<open>NETLIST_DIALOG_ADD_GENERATOR\<close>: its two text fields. \<open>OnOKClick\<close> returns
  the calls it makes.
\<close>

record NETLIST_DIALOG_ADD_GENERATOR =
  m_textCtrlName :: string
  m_textCtrlCommand :: string

definition GetGeneratorTitle :: "NETLIST_DIALOG_ADD_GENERATOR \<Rightarrow> string" where
  "GetGeneratorTitle g = m_textCtrlName g"

definition GetGeneratorTCommandLine :: "NETLIST_DIALOG_ADD_GENERATOR \<Rightarrow> string" where
  "GetGeneratorTCommandLine g = m_textCtrlCommand g"

definition OnOKClick :: "NETLIST_DIALOG_ADD_GENERATOR \<Rightarrow> call list" where
  "OnOKClick g =
     (if m_textCtrlCommand g = [] then [MessageBox ''Error. You must provide a command String'']
      else if m_textCtrlName g = [] then [MessageBox ''Error. You must provide a Title'']
      else [EndModal wxID_OK])"

text \<open>
  What the user does in that dialog: typing into a field (the Browse button,
  \<open>OnBrowseGenerators\<close>, also sets the command field), the OK button, and the Cancel
  button, which ends the dialog with \<open>wxID_CANCEL\<close> without a handler of this file.
  \<open>ShowModal\<close> runs the handlers until one of them ends the dialog; a user who has
  nothing more to do dismisses it. The result is the code the dialog ended with, the
  dialog, and the calls made.
\<close>

datatype add_generator_event =
    TypeName string
  | TypeCommand string
  | ClickOK
  | ClickCancel

fun ADD_GENERATOR_ShowModal ::
  "add_generator_event list \<Rightarrow> NETLIST_DIALOG_ADD_GENERATOR \<Rightarrow>
     modal_code \<times> NETLIST_DIALOG_ADD_GENERATOR \<times> call list" where
  "ADD_GENERATOR_ShowModal [] g = (wxID_CANCEL, g, [])"
| "ADD_GENERATOR_ShowModal (TypeName s # evs) g =
     ADD_GENERATOR_ShowModal evs (g\<lparr>m_textCtrlName := s\<rparr>)"
| "ADD_GENERATOR_ShowModal (TypeCommand s # evs) g =
     ADD_GENERATOR_ShowModal evs (g\<lparr>m_textCtrlCommand := s\<rparr>)"
| "ADD_GENERATOR_ShowModal (ClickCancel # evs) g = (wxID_CANCEL, g, [EndModal wxID_CANCEL])"
| "ADD_GENERATOR_ShowModal (ClickOK # evs) g =
     (let cs = OnOKClick g
      in if EndModal wxID_OK \<in> set cs then (wxID_OK, g, cs)
         else (case ADD_GENERATOR_ShowModal evs g of (r, g1, cs1) \<Rightarrow> (r, g1, cs @ cs1)))"

text \<open>
  The loop of \<open>OnAddGenerator\<close> that looks for the title among the custom pages: the
  result is \<open>Inl ()\<close> when the title is there, otherwise \<open>Inr\<close> of the value of
  \<open>netTypeId\<close>.
\<close>

function OnAddGenerator_from ::
  "string \<Rightarrow> nat \<Rightarrow> nat \<Rightarrow> NETLIST_DIALOG \<Rightarrow> (unit + nat) option" where
  "OnAddGenerator_from title ii netTypeId d =
     (if ii < CUSTOMPANEL_COUNTMAX then
        (case m_PanelNetType d (ii + PANELCUSTOMBASE) of
           None \<Rightarrow> Some (Inr (PANELCUSTOMBASE + ii))
         | Some currPage \<Rightarrow>
             (case page_at d currPage of
                None \<Rightarrow> None
              | Some page \<Rightarrow>
                  if m_pageNetFmtName page = title then Some (Inl ())
                  else OnAddGenerator_from title (ii + 1) (PANELCUSTOMBASE + ii) d))
      else Some (Inr netTypeId))"
  by pat_completeness auto
termination
  by (relation "measure (\<lambda>(title, ii, netTypeId, d). CUSTOMPANEL_COUNTMAX - ii)") auto

declare OnAddGenerator_from.simps [simp del]

definition OnAddGenerator ::
  "add_generator_event list \<Rightarrow> NETLIST_DIALOG \<Rightarrow> NETLIST_DIALOG option" where
  "OnAddGenerator evs d =
     (let (ret, dlg, cs) =
            ADD_GENERATOR_ShowModal evs \<lparr>m_textCtrlName = [], m_textCtrlCommand = []\<rparr>;
          d1 = d
      in if ret \<noteq> wxID_OK then Some d1
         else
           (let title = GetGeneratorTitle dlg
            in case OnAddGenerator_from title 0 PANELCUSTOMBASE d1 of
                 None \<Rightarrow> None
               | Some (Inl _) \<Rightarrow>
                   Some (do_call (MessageBox ''This plugin already exists. Abort'') d1)
               | Some (Inr netTypeId) \<Rightarrow> do {
                   let cmd = GetGeneratorTCommandLine dlg;
                   (currPage, d2) \<leftarrow> AddOneCustomPage title cmd (int netTypeId) d1;
                   let d3 = set_panel netTypeId (Some currPage) d2;
                   d4 \<leftarrow> WriteCurrentNetlistSetup d3;
                   Some (do_call (EndModal NET_PLUGIN_CHANGE) d4)
                 }))"

subsection \<open>InvokeDialogNetList\<close>

text \<open>
  \<open>dlg.ShowModal()\<close> runs the handlers above on what the user does, until one of them
  ends the dialog. Which handlers run is up to the user, so the behaviour of
  \<open>ShowModal\<close> is a parameter: a function from the dialog as constructed to the code it
  ends with and the dialog at that moment (\<open>None\<close> when a handler dereferences a null
  pointer). \<open>aCaller\<close> is the frame the dialog has as \<open>m_Parent\<close>. The result is the
  returned code, the frame and the configuration afterwards, and the calls made.
\<close>

definition InvokeDialogNetList ::
  "decls \<Rightarrow> (NETLIST_DIALOG \<Rightarrow> (modal_code \<times> NETLIST_DIALOG) option) \<Rightarrow>
     SCH_EDIT_FRAME \<Rightarrow> config \<Rightarrow> nat \<Rightarrow>
     (modal_code \<times> SCH_EDIT_FRAME \<times> config \<times> call list) option" where
  "InvokeDialogNetList x ShowModal aCaller cfg idx = do {
     dlg \<leftarrow> NETLIST_DIALOG_ctor x aCaller cfg idx;
     let curr_default_netformat = NetListFormatName (m_Parent dlg);
     (ret, dlg1) \<leftarrow> ShowModal dlg;
     let dlg2 = SetNetListFormatName (m_DefaultNetFmtName dlg1) dlg1;
     let dlg3 = (if curr_default_netformat \<noteq> m_DefaultNetFmtName dlg2
                 then do_call SaveProjectSettings dlg2 else dlg2);
     Some (ret, m_Parent dlg3, m_config dlg3, calls dlg3)
   }"

subsection \<open>Vocabulary of the properties\<close>

text \<open>
  The title and the command line stored for the custom slot \<open>i\<close> (counted from 0), the
  page the dialog makes of them, and the number of slots from \<open>ii\<close> on that come before
  the first one with an empty title.
\<close>

definition stored_title :: "config \<Rightarrow> nat \<Rightarrow> string" where
  "stored_title cfg i = Read cfg (key CUSTOM_NETLIST_TITLE (i + 1))"

definition stored_command :: "config \<Rightarrow> nat \<Rightarrow> string" where
  "stored_command cfg i = Read cfg (key CUSTOM_NETLIST_COMMAND (i + 1))"

definition custom_page :: "decls \<Rightarrow> string \<Rightarrow> config \<Rightarrow> nat \<Rightarrow> NETLIST_PAGE_DIALOG" where
  "custom_page x deflt cfg i =
     \<lparr>m_IdNetType = NET_TYPE_CUSTOM1 x + int i,
      m_IsCurrentFormat = (stored_title cfg i = deflt),
      m_SpiceAjustPassiveValues = None,
      m_CommandStringCtrl = Some (stored_command cfg i),
      m_TitleStringCtrl = Some (stored_title cfg i),
      m_pageNetFmtName = stored_title cfg i\<rparr>"

definition titles_from :: "config \<Rightarrow> nat \<Rightarrow> nat" where
  "titles_from cfg ii =
     length (takeWhile (\<lambda>i. stored_title cfg i \<noteq> []) [ii..<CUSTOMPANEL_COUNTMAX])"

text \<open>
  The four pages of the fixed formats as the constructor makes them, a page right after
  the constructor of \<open>NETLIST_PAGE_DIALOG\<close>, and all pages of a new dialog.
\<close>

definition builtin_pages :: "decls \<Rightarrow> SCH_EDIT_FRAME \<Rightarrow> NETLIST_PAGE_DIALOG list" where
  "builtin_pages x parent =
     (let deflt = NetListFormatName parent in
      [\<lparr>m_IdNetType = NET_TYPE_PCBNEW x, m_IsCurrentFormat = (''Pcbnew'' = deflt),
        m_SpiceAjustPassiveValues = None, m_CommandStringCtrl = None,
        m_TitleStringCtrl = None, m_pageNetFmtName = ''Pcbnew''\<rparr>,
       \<lparr>m_IdNetType = NET_TYPE_ORCADPCB2 x, m_IsCurrentFormat = (''OrcadPCB2'' = deflt),
        m_SpiceAjustPassiveValues = None, m_CommandStringCtrl = None,
        m_TitleStringCtrl = None, m_pageNetFmtName = ''OrcadPCB2''\<rparr>,
       \<lparr>m_IdNetType = NET_TYPE_CADSTAR x, m_IsCurrentFormat = (''CadStar'' = deflt),
        m_SpiceAjustPassiveValues = None, m_CommandStringCtrl = None,
        m_TitleStringCtrl = None, m_pageNetFmtName = ''CadStar''\<rparr>,
       \<lparr>m_IdNetType = NET_TYPE_SPICE x, m_IsCurrentFormat = (''Spice'' = deflt),
        m_SpiceAjustPassiveValues = Some (SpiceAjustPassiveValues parent),
        m_CommandStringCtrl = Some (SimulatorCommand parent),
        m_TitleStringCtrl = None, m_pageNetFmtName = ''Spice''\<rparr>])"

definition new_page :: "string \<Rightarrow> NETLIST_TYPE_ID \<Rightarrow> string \<Rightarrow> NETLIST_PAGE_DIALOG" where
  "new_page title i deflt =
     \<lparr>m_IdNetType = i, m_IsCurrentFormat = (title = deflt),
      m_SpiceAjustPassiveValues = None, m_CommandStringCtrl = None,
      m_TitleStringCtrl = None, m_pageNetFmtName = title\<rparr>"

definition ctor_pages :: "decls \<Rightarrow> SCH_EDIT_FRAME \<Rightarrow> config \<Rightarrow> NETLIST_PAGE_DIALOG list" where
  "ctor_pages x parent cfg =
     builtin_pages x parent @
     map (custom_page x (NetListFormatName parent) cfg) [0..<titles_from cfg 0]"

text \<open>
  The type ids of the custom pages fall into the \<open>default:\<close> branches ("custom,
  \<open>NET_TYPE_CUSTOM1\<close> and greater").
\<close>

definition decls_ok :: "decls \<Rightarrow> bool" where
  "decls_ok x =
     (builtin_ids_distinct x \<and>
      list_all (\<lambda>i. is_custom_id x (NET_TYPE_CUSTOM1 x + int i)) [0..<CUSTOMPANEL_COUNTMAX])"

text \<open>
  The shape of a dialog while it is open: the entries of \<open>m_PanelNetType\<close> point to
  pages of the notebook, every page of the notebook is in \<open>m_PanelNetType\<close>, the custom
  entries are filled from \<open>PANELCUSTOMBASE\<close> on without a gap, a custom page has its
  two text fields, the Spice page its check box and its text field, and the Pcbnew page
  exists.
\<close>

definition panels_valid :: "NETLIST_DIALOG \<Rightarrow> bool" where
  "panels_valid d =
     list_all (\<lambda>ii. case m_PanelNetType d ii of None \<Rightarrow> True
                    | Some p \<Rightarrow> p < length (m_NoteBook d))
       [0..<PANELCUSTOMBASE + CUSTOMPANEL_COUNTMAX]"

definition pages_listed :: "NETLIST_DIALOG \<Rightarrow> bool" where
  "pages_listed d =
     list_all (\<lambda>q. list_ex (\<lambda>ii. m_PanelNetType d ii = Some q)
                      [0..<PANELCUSTOMBASE + CUSTOMPANEL_COUNTMAX])
       [0..<length (m_NoteBook d)]"

definition contiguous :: "NETLIST_DIALOG \<Rightarrow> bool" where
  "contiguous d =
     list_all (\<lambda>ii. m_PanelNetType d (PANELCUSTOMBASE + ii) = None \<longrightarrow>
                 list_all (\<lambda>jj. m_PanelNetType d (PANELCUSTOMBASE + jj) = None)
                   [ii..<CUSTOMPANEL_COUNTMAX])
       [0..<CUSTOMPANEL_COUNTMAX]"

definition custom_ctrls :: "NETLIST_DIALOG \<Rightarrow> bool" where
  "custom_ctrls d =
     list_all (\<lambda>ii. case m_PanelNetType d (PANELCUSTOMBASE + ii) of None \<Rightarrow> True
                    | Some p \<Rightarrow> m_TitleStringCtrl (m_NoteBook d ! p) \<noteq> None
                             \<and> m_CommandStringCtrl (m_NoteBook d ! p) \<noteq> None)
       [0..<CUSTOMPANEL_COUNTMAX]"

definition spice_ctrls :: "NETLIST_DIALOG \<Rightarrow> bool" where
  "spice_ctrls d =
     (case m_PanelNetType d PANELSPICE of None \<Rightarrow> False
      | Some p \<Rightarrow> m_SpiceAjustPassiveValues (m_NoteBook d ! p) \<noteq> None
               \<and> m_CommandStringCtrl (m_NoteBook d ! p) \<noteq> None)"

definition typed_pages :: "decls \<Rightarrow> NETLIST_DIALOG \<Rightarrow> bool" where
  "typed_pages x d =
     list_all (\<lambda>pg. (m_IdNetType pg = NET_TYPE_SPICE x \<longrightarrow> m_SpiceAjustPassiveValues pg \<noteq> None)
                  \<and> (is_custom_id x (m_IdNetType pg) \<longrightarrow>
                       m_TitleStringCtrl pg \<noteq> None \<and> m_CommandStringCtrl pg \<noteq> None))
       (m_NoteBook d)"

definition dialog_ok :: "decls \<Rightarrow> NETLIST_DIALOG \<Rightarrow> bool" where
  "dialog_ok x d =
     (panels_valid d \<and> pages_listed d \<and> contiguous d \<and> custom_ctrls d \<and> spice_ctrls d
      \<and> m_PanelNetType d PANELPCBNEW \<noteq> None \<and> typed_pages x d)"

text \<open>
  The text of a field, the custom pages installed from slot \<open>ii\<close> on in page order,
  those of them that have a title, and the configuration after their titles and command
  lines have been written under the keys \<open>jj + 1\<close>, \<open>jj + 2\<close>, ...
\<close>

definition ctrl_text :: "string option \<Rightarrow> string" where
  "ctrl_text c = (case c of None \<Rightarrow> [] | Some s \<Rightarrow> s)"

definition installed_custom :: "NETLIST_DIALOG \<Rightarrow> nat \<Rightarrow> NETLIST_PAGE_DIALOG list" where
  "installed_custom d ii =
     map (\<lambda>p. m_NoteBook d ! p)
       (List.map_filter (\<lambda>jj. m_PanelNetType d (PANELCUSTOMBASE + jj)) [ii..<CUSTOMPANEL_COUNTMAX])"

definition titled_custom :: "NETLIST_DIALOG \<Rightarrow> nat \<Rightarrow> NETLIST_PAGE_DIALOG list" where
  "titled_custom d ii =
     filter (\<lambda>pg. ctrl_text (m_TitleStringCtrl pg) \<noteq> []) (installed_custom d ii)"

fun write_pages :: "config \<Rightarrow> nat \<Rightarrow> NETLIST_PAGE_DIALOG list \<Rightarrow> config" where
  "write_pages c jj [] = c"
| "write_pages c jj (pg # ps) =
     write_pages
       (c(key CUSTOM_NETLIST_TITLE (jj + 1) \<mapsto> ctrl_text (m_TitleStringCtrl pg),
          key CUSTOM_NETLIST_COMMAND (jj + 1) \<mapsto> ctrl_text (m_CommandStringCtrl pg)))
       (jj + 1) ps"

text \<open>
  What the pattern of \<open>GenNetlist\<close> says, in words of lists: the text contains a dot, a
  group \<open>g\<close> of three or four alphanumeric characters, \<open>.xsl\<close> or \<open>.xslt\<close>, and a
  double quote.
\<close>

definition pattern_form :: "string \<Rightarrow> string \<Rightarrow> bool" where
  "pattern_form s g =
     (\<exists>pre t post. s = pre @ ''.'' @ g @ ''.xsl'' @ t @ [dquote] @ post
        \<and> (length g = 3 \<or> length g = 4) \<and> list_all isalnum g \<and> (t = [] \<or> t = ''t''))"

text \<open>
  The pages that the loop of \<open>NetlistUpdateOpt\<close> visits from the entry \<open>ii\<close> on: those of
  the entries of \<open>m_PanelNetType\<close> before the first null one. The name that the loop
  leaves in the frame is that of the last visited page whose check box is set, and the
  empty name when there is none.
\<close>

definition listed_from :: "NETLIST_DIALOG \<Rightarrow> nat \<Rightarrow> NETLIST_PAGE_DIALOG list" where
  "listed_from d ii =
     map (\<lambda>p. m_NoteBook d ! p)
       (List.map_filter id
          (takeWhile (\<lambda>e. e \<noteq> None)
             (map (m_PanelNetType d) [ii..<PANELCUSTOMBASE + CUSTOMPANEL_COUNTMAX])))"

definition marked_name :: "NETLIST_DIALOG \<Rightarrow> string" where
  "marked_name d =
     (let ms = filter m_IsCurrentFormat (listed_from d 0)
      in if ms = [] then [] else m_pageNetFmtName (last ms))"

text \<open>
  The positions in the notebook of the installed custom pages, in the order of their
  slots, and those of them that keep a stored slot when the page \<open>p\<close> is deleted: the
  ones other than \<open>p\<close> that have a title.
\<close>

definition custom_slots :: "NETLIST_DIALOG \<Rightarrow> nat list" where
  "custom_slots d =
     List.map_filter (\<lambda>jj. m_PanelNetType d (PANELCUSTOMBASE + jj)) [0..<CUSTOMPANEL_COUNTMAX]"

definition kept_slots :: "NETLIST_DIALOG \<Rightarrow> nat \<Rightarrow> nat list" where
  "kept_slots d p =
     filter (\<lambda>q. q \<noteq> p \<and> ctrl_text (m_TitleStringCtrl (m_NoteBook d ! q)) \<noteq> [])
       (custom_slots d)"

text \<open>A sample of the absent declarations, for the evaluations below.\<close>

definition sample_decls :: decls where
  "sample_decls =
     \<lparr>NET_TYPE_PCBNEW = 1, NET_TYPE_ORCADPCB2 = 2, NET_TYPE_CADSTAR = 3,
      NET_TYPE_SPICE = 4, NET_TYPE_CUSTOM1 = 5, NET_ADJUST_PASSIVE_VALS = 1,
      NetlistFileExtension = ''net'',
      SpiceNetlistFileWildcard = ''*.cir'', CadstarNetlistFileWildcard = ''*.frp'',
      NetlistFileWildcard = ''*.net'', AllFilesWildcard = ''*''\<rparr>"

definition sample_config :: config where
  "sample_config =
     [''CustomNetlistTitle1'' \<mapsto> ''PADS'',
      ''CustomNetlistCommand1'' \<mapsto> ''xsltproc \"p/pads.asc.xsl\"'',
      ''CustomNetlistTitle3'' \<mapsto> ''Stale'']"

definition sample_frame :: SCH_EDIT_FRAME where
  "sample_frame =
     \<lparr>NetListFormatName = ''PADS'', SimulatorCommand = '' ngspice -b '',
      SpiceAjustPassiveValues = True, NetListerCommand = []\<rparr>"

definition sample_empty :: NETLIST_DIALOG where
  "sample_empty =
     \<lparr>m_Parent = sample_frame, m_DefaultNetFmtName = ''PADS'',
      m_PanelNetType = (\<lambda>ii. None), m_asFormatSelected = False,
      m_config = sample_config, m_NoteBook = [], m_NoteBook_selection = None,
      m_buttonDelGenerator = True, index = 0, calls = []\<rparr>"

definition sample_dialog :: NETLIST_DIALOG where
  "sample_dialog =
     \<lparr>m_Parent = sample_frame, m_DefaultNetFmtName = ''PADS'',
      m_PanelNetType = (\<lambda>ii. if ii < 5 then Some ii else None), m_asFormatSelected = True,
      m_config = sample_config,
      m_NoteBook =
        [\<lparr>m_IdNetType = 1, m_IsCurrentFormat = False, m_SpiceAjustPassiveValues = None,
          m_CommandStringCtrl = None, m_TitleStringCtrl = None, m_pageNetFmtName = ''Pcbnew''\<rparr>,
         \<lparr>m_IdNetType = 2, m_IsCurrentFormat = False, m_SpiceAjustPassiveValues = None,
          m_CommandStringCtrl = None, m_TitleStringCtrl = None, m_pageNetFmtName = ''OrcadPCB2''\<rparr>,
         \<lparr>m_IdNetType = 3, m_IsCurrentFormat = False, m_SpiceAjustPassiveValues = None,
          m_CommandStringCtrl = None, m_TitleStringCtrl = None, m_pageNetFmtName = ''CadStar''\<rparr>,
         \<lparr>m_IdNetType = 4, m_IsCurrentFormat = False, m_SpiceAjustPassiveValues = Some True,
          m_CommandStringCtrl = Some '' ngspice -b '', m_TitleStringCtrl = None,
          m_pageNetFmtName = ''Spice''\<rparr>,
         \<lparr>m_IdNetType = 5, m_IsCurrentFormat = True, m_SpiceAjustPassiveValues = None,
          m_CommandStringCtrl = Some ''xsltproc \"p/pads.asc.xsl\"'',
          m_TitleStringCtrl = Some ''PADS'', m_pageNetFmtName = ''PADS''\<rparr>],
      m_NoteBook_selection = Some 4,
      m_buttonDelGenerator = True, index = 1, calls = []\<rparr>"


definition sample_env :: env where
  "sample_env =
     \<lparr>RootFileName = \<lparr>fn_path = ''/proj'', fn_name = ''board'', fn_ext = ''sch'', fn_hasExt = True\<rparr>,
      ProjectPath = ''/proj'', FileDialog_result = Some ''/proj/board.asc'',
      CreateNetlist_result = None, WriteNetListFile_result = True\<rparr>"

definition sample_pair :: NETLIST_DIALOG where
  "sample_pair =
     sample_dialog
       \<lparr>m_PanelNetType := (\<lambda>ii. if ii < 6 then Some ii else None),
        m_NoteBook :=
          m_NoteBook sample_dialog @
          [\<lparr>m_IdNetType = 6, m_IsCurrentFormat = False, m_SpiceAjustPassiveValues = None,
            m_CommandStringCtrl = Some ''python bom.py'', m_TitleStringCtrl = Some ''BOM'',
            m_pageNetFmtName = ''BOM''\<rparr>]\<rparr>"

section \<open>Auxiliary lemmas\<close>

subsection \<open>The pages and the dialog as constructed\<close>

lemma titles_from_step:
  "ii < CUSTOMPANEL_COUNTMAX \<Longrightarrow>
   titles_from cfg ii = (if stored_title cfg ii = [] then 0 else Suc (titles_from cfg (Suc ii)))"
  by (simp add: titles_from_def upt_conv_Cons)

lemma titles_from_end: "\<not> ii < CUSTOMPANEL_COUNTMAX \<Longrightarrow> titles_from cfg ii = 0"
  by (simp add: titles_from_def)

lemma AddOneCustomPage_eq:
  "AddOneCustomPage t c i d =
     Some (length (m_NoteBook d),
           d\<lparr>m_NoteBook := m_NoteBook d @
                [\<lparr>m_IdNetType = i, m_IsCurrentFormat = (t = m_DefaultNetFmtName d),
                  m_SpiceAjustPassiveValues = None, m_CommandStringCtrl = Some c,
                  m_TitleStringCtrl = Some t, m_pageNetFmtName = t\<rparr>],
             m_NoteBook_selection :=
               (if t = m_DefaultNetFmtName d \<or> m_NoteBook_selection d = None
                then Some (length (m_NoteBook d)) else m_NoteBook_selection d),
             m_asFormatSelected := (t = m_DefaultNetFmtName d \<or> m_asFormatSelected d)\<rparr>)"
  by (simp add: AddOneCustomPage_def NETLIST_PAGE_DIALOG_ctor_def AddPage_def upd_page_def Let_def)

lemma InstallCustomPages_from_result:
  "ii = 0 \<or> index d + 1 = ii \<Longrightarrow>
   \<exists>d'. InstallCustomPages_from x ii d = Some d'
      \<and> m_NoteBook d' = m_NoteBook d @
           map (custom_page x (m_DefaultNetFmtName d) (m_config d)) [ii..<ii + titles_from (m_config d) ii]
      \<and> m_PanelNetType d' =
           (\<lambda>j. if PANELCUSTOMBASE + ii \<le> j \<and> j < PANELCUSTOMBASE + ii + titles_from (m_config d) ii
                then Some (length (m_NoteBook d) + (j - (PANELCUSTOMBASE + ii)))
                else m_PanelNetType d j)
      \<and> m_config d' = m_config d \<and> m_DefaultNetFmtName d' = m_DefaultNetFmtName d
      \<and> m_Parent d' = m_Parent d \<and> calls d' = calls d
      \<and> m_asFormatSelected d' =
           (m_asFormatSelected d \<or>
            (\<exists>i \<in> {ii..<ii + titles_from (m_config d) ii}.
               stored_title (m_config d) i = m_DefaultNetFmtName d))
      \<and> (m_NoteBook_selection d \<noteq> None \<longrightarrow> m_NoteBook_selection d' \<noteq> None)"
proof (induction x ii d rule: InstallCustomPages_from.induct)
  case (1 x ii d)
  show ?case
  proof (cases "ii < CUSTOMPANEL_COUNTMAX")
    case False
    then show ?thesis
      by (auto simp add: InstallCustomPages_from.simps [of x ii d] titles_from_end fun_eq_iff)
  next
    case lt: True
    have rd: "UserNetlistTypeName (ii = 0) d =
                (stored_title (m_config d) ii, d\<lparr>index := ii\<rparr>)"
      using "1.prems" by (auto simp: UserNetlistTypeName_def stored_title_def Let_def)
    show ?thesis
    proof (cases "stored_title (m_config d) ii = []")
      case True
      then show ?thesis using lt
        by (auto simp add: InstallCustomPages_from.simps [of x ii d] rd titles_from_step fun_eq_iff)
    next
      case ne: False
      let ?t = "stored_title (m_config d) ii"
      let ?c = "stored_command (m_config d) ii"
      let ?d1 = "d\<lparr>index := ii\<rparr>"
      obtain cp d2 where a:
        "AddOneCustomPage ?t (Read (m_config ?d1) (key CUSTOM_NETLIST_COMMAND (ii + 1)))
           (NET_TYPE_CUSTOM1 x + int ii) ?d1 = Some (cp, d2)"
        by (simp add: AddOneCustomPage_eq)
      let ?d3 = "set_panel (PANELCUSTOMBASE + ii) (Some cp) d2"
      have cpd2: "cp = length (m_NoteBook d)"
        "m_NoteBook d2 = m_NoteBook d @ [custom_page x (m_DefaultNetFmtName d) (m_config d) ii]"
        "m_config d2 = m_config d" "m_DefaultNetFmtName d2 = m_DefaultNetFmtName d"
        "m_Parent d2 = m_Parent d" "calls d2 = calls d" "index d2 = ii"
        "m_PanelNetType d2 = m_PanelNetType d"
        "m_asFormatSelected d2 = (?t = m_DefaultNetFmtName d \<or> m_asFormatSelected d)"
        "m_NoteBook_selection d \<noteq> None \<longrightarrow> m_NoteBook_selection d2 \<noteq> None"
        using a by (auto simp: AddOneCustomPage_eq custom_page_def stored_command_def)
      have "ii + 1 = 0 \<or> index ?d3 + 1 = ii + 1"
        by (simp add: set_panel_def cpd2)
      from "1.IH" [OF lt refl rd [symmetric] ne refl refl a refl this]
      obtain d' where ih:
        "InstallCustomPages_from x (ii + 1) ?d3 = Some d'"
        "m_NoteBook d' = m_NoteBook ?d3 @
           map (custom_page x (m_DefaultNetFmtName ?d3) (m_config ?d3))
             [ii + 1..<ii + 1 + titles_from (m_config ?d3) (ii + 1)]"
        "m_PanelNetType d' =
           (\<lambda>j. if PANELCUSTOMBASE + (ii + 1) \<le> j \<and>
                    j < PANELCUSTOMBASE + (ii + 1) + titles_from (m_config ?d3) (ii + 1)
                then Some (length (m_NoteBook ?d3) + (j - (PANELCUSTOMBASE + (ii + 1))))
                else m_PanelNetType ?d3 j)"
        "m_config d' = m_config ?d3" "m_DefaultNetFmtName d' = m_DefaultNetFmtName ?d3"
        "m_Parent d' = m_Parent ?d3" "calls d' = calls ?d3"
        "m_asFormatSelected d' =
           (m_asFormatSelected ?d3 \<or>
            (\<exists>i \<in> {ii + 1..<ii + 1 + titles_from (m_config ?d3) (ii + 1)}.
               stored_title (m_config ?d3) i = m_DefaultNetFmtName ?d3))"
        "m_NoteBook_selection ?d3 \<noteq> None \<longrightarrow> m_NoteBook_selection d' \<noteq> None"
        by blast
      have run: "InstallCustomPages_from x ii d = Some d'"
        using lt ne a ih(1)
        by (simp add: InstallCustomPages_from.simps [of x ii d] rd)
      have k: "titles_from (m_config d) ii = Suc (titles_from (m_config d) (Suc ii))"
        using lt ne by (simp add: titles_from_step)
      have iv: "[ii..<ii + titles_from (m_config d) ii] =
                  ii # [ii + 1..<ii + 1 + titles_from (m_config d) (Suc ii)]"
        unfolding k by (simp add: upt_conv_Cons del: upt_Suc)
      have nb: "m_NoteBook d' = m_NoteBook d @
           map (custom_page x (m_DefaultNetFmtName d) (m_config d)) [ii..<ii + titles_from (m_config d) ii]"
        unfolding iv using ih(2) by (simp add: set_panel_def cpd2 del: upt_Suc)
      have pn: "m_PanelNetType d' =
           (\<lambda>j. if PANELCUSTOMBASE + ii \<le> j \<and> j < PANELCUSTOMBASE + ii + titles_from (m_config d) ii
                then Some (length (m_NoteBook d) + (j - (PANELCUSTOMBASE + ii)))
                else m_PanelNetType d j)"
        unfolding ih(3) by (rule ext) (auto simp: set_panel_def cpd2 k)
      have sel: "m_asFormatSelected d' =
           (m_asFormatSelected d \<or>
            (\<exists>i \<in> {ii..<ii + titles_from (m_config d) ii}.
               stored_title (m_config d) i = m_DefaultNetFmtName d))"
      proof -
        have "{ii..<ii + titles_from (m_config d) ii} =
                insert ii {ii + 1..<ii + 1 + titles_from (m_config d) (Suc ii)}"
          by (auto simp: k)
        then show ?thesis
          unfolding ih(8) by (auto simp: set_panel_def cpd2)
      qed
      show ?thesis
        using run nb pn sel ih(4-7,9) cpd2
        by (simp add: set_panel_def)
    qed
  qed
qed

lemma page_ctor_fields:
  "fst (NETLIST_PAGE_DIALOG_ctor t i d) = length (m_NoteBook d)"
  "m_NoteBook (snd (NETLIST_PAGE_DIALOG_ctor t i d)) =
     m_NoteBook d @ [new_page t i (m_DefaultNetFmtName d)]"
  "m_PanelNetType (snd (NETLIST_PAGE_DIALOG_ctor t i d)) = m_PanelNetType d"
  "m_Parent (snd (NETLIST_PAGE_DIALOG_ctor t i d)) = m_Parent d"
  "m_config (snd (NETLIST_PAGE_DIALOG_ctor t i d)) = m_config d"
  "calls (snd (NETLIST_PAGE_DIALOG_ctor t i d)) = calls d"
  "m_DefaultNetFmtName (snd (NETLIST_PAGE_DIALOG_ctor t i d)) = m_DefaultNetFmtName d"
  "m_asFormatSelected (snd (NETLIST_PAGE_DIALOG_ctor t i d)) =
     (t = m_DefaultNetFmtName d \<or> m_asFormatSelected d)"
  "m_NoteBook_selection (snd (NETLIST_PAGE_DIALOG_ctor t i d)) \<noteq> None"
  by (simp_all add: NETLIST_PAGE_DIALOG_ctor_def AddPage_def Let_def new_page_def)

lemma set_panel_fields:
  "m_NoteBook (set_panel ii p d) = m_NoteBook d"
  "m_PanelNetType (set_panel ii p d) = (m_PanelNetType d)(ii := p)"
  "m_Parent (set_panel ii p d) = m_Parent d"
  "m_config (set_panel ii p d) = m_config d"
  "calls (set_panel ii p d) = calls d"
  "m_DefaultNetFmtName (set_panel ii p d) = m_DefaultNetFmtName d"
  "m_asFormatSelected (set_panel ii p d) = m_asFormatSelected d"
  "m_NoteBook_selection (set_panel ii p d) = m_NoteBook_selection d"
  "index (set_panel ii p d) = index d"
  by (simp_all add: set_panel_def)

lemma upd_page_Some:
  "p < length (m_NoteBook d) \<Longrightarrow>
   upd_page p f d = Some (d\<lparr>m_NoteBook := (m_NoteBook d)[p := f (m_NoteBook d ! p)]\<rparr>)"
  by (simp add: upd_page_def)

lemma InstallPageSpice_result:
  "\<exists>d'. InstallPageSpice x d = Some d'
     \<and> m_NoteBook d' = m_NoteBook d @
          [(new_page ''Spice'' (NET_TYPE_SPICE x) (m_DefaultNetFmtName d))
             \<lparr>m_SpiceAjustPassiveValues := Some (SpiceAjustPassiveValues (m_Parent d)),
               m_CommandStringCtrl := Some (SimulatorCommand (m_Parent d))\<rparr>]
     \<and> m_PanelNetType d' = (m_PanelNetType d)(PANELSPICE := Some (length (m_NoteBook d)))
     \<and> m_Parent d' = m_Parent d \<and> m_config d' = m_config d \<and> calls d' = calls d
     \<and> m_DefaultNetFmtName d' = m_DefaultNetFmtName d
     \<and> m_asFormatSelected d' = (''Spice'' = m_DefaultNetFmtName d \<or> m_asFormatSelected d)
     \<and> m_NoteBook_selection d' \<noteq> None"
  by (simp add: InstallPageSpice_def NETLIST_PAGE_DIALOG_ctor_def AddPage_def Let_def
      new_page_def upd_page_def set_panel_def)

lemma length_builtin_pages [simp]: "length (builtin_pages x parent) = 4"
  by (simp add: builtin_pages_def Let_def)

lemma ctor_result:
  "\<exists>d. NETLIST_DIALOG_ctor x parent cfg idx = Some d
     \<and> m_NoteBook d =
         (if \<exists>pg \<in> set (ctor_pages x parent cfg). m_IsCurrentFormat pg
          then ctor_pages x parent cfg
          else (ctor_pages x parent cfg)
                 [0 := (ctor_pages x parent cfg ! 0)\<lparr>m_IsCurrentFormat := True\<rparr>])
     \<and> m_PanelNetType d = (\<lambda>j. if j < 4 + titles_from cfg 0 then Some j else None)
     \<and> m_DefaultNetFmtName d =
         (if \<exists>pg \<in> set (ctor_pages x parent cfg). m_IsCurrentFormat pg
          then NetListFormatName parent else ''Pcbnew'')
     \<and> m_Parent d = parent \<and> m_config d = cfg \<and> calls d = []
     \<and> m_NoteBook_selection d \<noteq> None"
proof -
  let ?d0 = "\<lparr>m_Parent = parent, m_DefaultNetFmtName = NetListFormatName parent,
                m_PanelNetType = (\<lambda>ii. None), m_asFormatSelected = False,
                m_config = cfg, m_NoteBook = [], m_NoteBook_selection = None,
                m_buttonDelGenerator = True, index = idx, calls = []\<rparr>"
  let ?r1 = "NETLIST_PAGE_DIALOG_ctor ''Pcbnew'' (NET_TYPE_PCBNEW x) ?d0"
  let ?d2 = "set_panel PANELPCBNEW (Some (fst ?r1)) (snd ?r1)"
  let ?r3 = "NETLIST_PAGE_DIALOG_ctor ''OrcadPCB2'' (NET_TYPE_ORCADPCB2 x) ?d2"
  let ?d4 = "set_panel PANELORCADPCB2 (Some (fst ?r3)) (snd ?r3)"
  let ?r5 = "NETLIST_PAGE_DIALOG_ctor ''CadStar'' (NET_TYPE_CADSTAR x) ?d4"
  let ?d6 = "set_panel PANELCADSTAR (Some (fst ?r5)) (snd ?r5)"
  let ?deflt = "NetListFormatName parent"
  let ?n = "titles_from cfg 0"
  let ?P = "ctor_pages x parent cfg"
  obtain d7 where d7: "InstallPageSpice x ?d6 = Some d7"
    and d7f: "m_NoteBook d7 = m_NoteBook ?d6 @
          [(new_page ''Spice'' (NET_TYPE_SPICE x) (m_DefaultNetFmtName ?d6))
             \<lparr>m_SpiceAjustPassiveValues := Some (SpiceAjustPassiveValues (m_Parent ?d6)),
               m_CommandStringCtrl := Some (SimulatorCommand (m_Parent ?d6))\<rparr>]"
      "m_PanelNetType d7 = (m_PanelNetType ?d6)(PANELSPICE := Some (length (m_NoteBook ?d6)))"
      "m_Parent d7 = m_Parent ?d6" "m_config d7 = m_config ?d6" "calls d7 = calls ?d6"
      "m_DefaultNetFmtName d7 = m_DefaultNetFmtName ?d6"
      "m_asFormatSelected d7 = (''Spice'' = m_DefaultNetFmtName ?d6 \<or> m_asFormatSelected ?d6)"
      "m_NoteBook_selection d7 \<noteq> None"
    using InstallPageSpice_result [of x ?d6] by blast
  have d7s: "m_NoteBook d7 = builtin_pages x parent"
      "m_PanelNetType d7 = (\<lambda>j. if j < 4 then Some j else None)"
      "m_Parent d7 = parent" "m_config d7 = cfg" "calls d7 = []"
      "m_DefaultNetFmtName d7 = ?deflt"
      "m_asFormatSelected d7 = (\<exists>pg \<in> set (builtin_pages x parent). m_IsCurrentFormat pg)"
    unfolding d7f
    by (auto simp add: page_ctor_fields set_panel_fields builtin_pages_def new_page_def Let_def
        PANELPCBNEW_def PANELORCADPCB2_def PANELCADSTAR_def PANELSPICE_def fun_eq_iff)
  obtain d8 where d8: "InstallCustomPages x d7 = Some d8"
    and d8f: "m_NoteBook d8 = m_NoteBook d7 @
           map (custom_page x (m_DefaultNetFmtName d7) (m_config d7)) [0..<0 + titles_from (m_config d7) 0]"
      "m_PanelNetType d8 =
           (\<lambda>j. if PANELCUSTOMBASE + 0 \<le> j \<and> j < PANELCUSTOMBASE + 0 + titles_from (m_config d7) 0
                then Some (length (m_NoteBook d7) + (j - (PANELCUSTOMBASE + 0)))
                else m_PanelNetType d7 j)"
      "m_config d8 = m_config d7" "m_DefaultNetFmtName d8 = m_DefaultNetFmtName d7"
      "m_Parent d8 = m_Parent d7" "calls d8 = calls d7"
      "m_asFormatSelected d8 =
           (m_asFormatSelected d7 \<or>
            (\<exists>i \<in> {0..<0 + titles_from (m_config d7) 0}.
               stored_title (m_config d7) i = m_DefaultNetFmtName d7))"
      "m_NoteBook_selection d7 \<noteq> None \<longrightarrow> m_NoteBook_selection d8 \<noteq> None"
    unfolding InstallCustomPages_def
    using InstallCustomPages_from_result [of 0 d7 x] by blast
  have d8s: "m_NoteBook d8 = ?P"
      "m_PanelNetType d8 = (\<lambda>j. if j < 4 + ?n then Some j else None)"
      "m_Parent d8 = parent" "m_config d8 = cfg" "calls d8 = []"
      "m_DefaultNetFmtName d8 = ?deflt"
      "m_NoteBook_selection d8 \<noteq> None"
    using d8f(8) d7f(8) unfolding d8f d7s
    by (auto simp add: ctor_pages_def PANELCUSTOMBASE_def fun_eq_iff)
  have d8sel: "m_asFormatSelected d8 = (\<exists>pg \<in> set ?P. m_IsCurrentFormat pg)"
  proof -
    have "(\<exists>pg \<in> set (map (custom_page x ?deflt cfg) [0..<?n]). m_IsCurrentFormat pg) =
          (\<exists>i \<in> {0..<?n}. stored_title cfg i = ?deflt)"
      by (simp add: custom_page_def)
    then show ?thesis
      unfolding d8f d7s by (simp add: ctor_pages_def bex_Un)
  qed
  have unf: "NETLIST_DIALOG_ctor x parent cfg idx =
       (if \<not> m_asFormatSelected d8 then do {
          pcbnew \<leftarrow> m_PanelNetType d8 PANELPCBNEW;
          d9 \<leftarrow> upd_page pcbnew (m_IsCurrentFormat_update (\<lambda>_. True)) d8;
          page \<leftarrow> page_at (SetSelection PANELPCBNEW d9) pcbnew;
          OnNetlistTypeSelection x ((SetSelection PANELPCBNEW d9)\<lparr>m_DefaultNetFmtName := m_pageNetFmtName page\<rparr>)
        } else Some d8)"
    by (simp add: NETLIST_DIALOG_ctor_def Let_def case_prod_beta d7 d8)
  show ?thesis
  proof (cases "m_asFormatSelected d8")
    case True
    then show ?thesis
      using d8s d8sel by (simp add: unf)
  next
    case False
    have len: "0 < length ?P" by (simp add: ctor_pages_def)
    have p0: "m_pageNetFmtName (?P ! 0) = ''Pcbnew''"
      by (simp add: ctor_pages_def builtin_pages_def Let_def)
    show ?thesis
      using False d8s d8sel len p0
      by (simp add: unf PANELPCBNEW_def upd_page_def SetSelection_def page_at_def
          OnNetlistTypeSelection_def GetCurrentPage_def)
  qed
qed

lemma panels_validD:
  "panels_valid d \<Longrightarrow> ii < 12 \<Longrightarrow> m_PanelNetType d ii = Some p \<Longrightarrow> p < length (m_NoteBook d)"
  by (auto simp: panels_valid_def list_all_iff PANELCUSTOMBASE_def CUSTOMPANEL_COUNTMAX_def
      split: option.splits)

lemma contiguousD:
  "contiguous d \<Longrightarrow> m_PanelNetType d (PANELCUSTOMBASE + ii) = None \<Longrightarrow> ii \<le> jj \<Longrightarrow> jj < 8 \<Longrightarrow>
   m_PanelNetType d (PANELCUSTOMBASE + jj) = None"
proof -
  assume a: "contiguous d" "m_PanelNetType d (PANELCUSTOMBASE + ii) = None" "ii \<le> jj" "jj < 8"
  then have "ii \<in> set [0..<CUSTOMPANEL_COUNTMAX]" "jj \<in> set [ii..<CUSTOMPANEL_COUNTMAX]"
    by (simp_all add: CUSTOMPANEL_COUNTMAX_def)
  with a(1,2) show ?thesis
    unfolding contiguous_def list_all_iff by blast
qed

lemma custom_ctrlsD:
  "custom_ctrls d \<Longrightarrow> ii < 8 \<Longrightarrow> m_PanelNetType d (PANELCUSTOMBASE + ii) = Some p \<Longrightarrow>
   \<exists>t c. m_TitleStringCtrl (m_NoteBook d ! p) = Some t \<and> m_CommandStringCtrl (m_NoteBook d ! p) = Some c"
  by (auto simp: custom_ctrls_def list_all_iff CUSTOMPANEL_COUNTMAX_def split: option.splits)

lemma titles_from_le: "ii + titles_from cfg ii \<le> max ii CUSTOMPANEL_COUNTMAX"
proof -
  have "titles_from cfg ii \<le> length [ii..<CUSTOMPANEL_COUNTMAX]"
    unfolding titles_from_def by (rule length_takeWhile_le)
  then show ?thesis by simp
qed

lemma ctor_pages_nth:
  "j < 4 + titles_from cfg 0 \<Longrightarrow>
   ctor_pages x parent cfg ! j =
     (if j < 4 then builtin_pages x parent ! j
      else custom_page x (NetListFormatName parent) cfg (j - 4))"
  by (simp add: ctor_pages_def nth_append)

lemma length_ctor_pages [simp]: "length (ctor_pages x parent cfg) = 4 + titles_from cfg 0"
  by (simp add: ctor_pages_def)

lemma ctor_dialog_ok:
  assumes ok: "decls_ok x" and c: "NETLIST_DIALOG_ctor x parent cfg idx = Some d"
  shows "dialog_ok x d"
proof -
  let ?P = "ctor_pages x parent cfg"
  let ?n = "titles_from cfg 0"
  from ctor_result [of x parent cfg idx] c
  have nb: "m_NoteBook d = ?P \<or> m_NoteBook d = ?P[0 := (?P ! 0)\<lparr>m_IsCurrentFormat := True\<rparr>]"
    and pn: "m_PanelNetType d = (\<lambda>j. if j < 4 + ?n then Some j else None)"
    by (auto split: if_splits)
  have n8: "?n \<le> 8"
    using titles_from_le [of 0 cfg] by (simp add: CUSTOMPANEL_COUNTMAX_def)
  have len: "length (m_NoteBook d) = 4 + ?n"
    using nb by auto
  have ctl: "\<And>j. j < 4 + ?n \<Longrightarrow>
       m_TitleStringCtrl (m_NoteBook d ! j) = m_TitleStringCtrl (?P ! j)
     \<and> m_CommandStringCtrl (m_NoteBook d ! j) = m_CommandStringCtrl (?P ! j)
     \<and> m_SpiceAjustPassiveValues (m_NoteBook d ! j) = m_SpiceAjustPassiveValues (?P ! j)
     \<and> m_IdNetType (m_NoteBook d ! j) = m_IdNetType (?P ! j)"
    using nb by (auto simp: nth_list_update)
  have 1: "panels_valid d"
    by (auto simp: panels_valid_def list_all_iff pn len)
  have 2: "pages_listed d"
    unfolding pages_listed_def list_all_iff list_ex_iff
  proof
    fix q assume "q \<in> set [0..<length (m_NoteBook d)]"
    then have "q < 4 + ?n" by (simp add: len)
    then have "q \<in> set [0..<PANELCUSTOMBASE + CUSTOMPANEL_COUNTMAX]" "m_PanelNetType d q = Some q"
      using n8 by (simp_all add: pn PANELCUSTOMBASE_def CUSTOMPANEL_COUNTMAX_def)
    then show "\<exists>ii \<in> set [0..<PANELCUSTOMBASE + CUSTOMPANEL_COUNTMAX]. m_PanelNetType d ii = Some q"
      by blast
  qed
  have 3: "contiguous d"
    by (auto simp: contiguous_def list_all_iff pn PANELCUSTOMBASE_def)
  have 4: "custom_ctrls d"
    by (auto simp: custom_ctrls_def list_all_iff pn PANELCUSTOMBASE_def ctl ctor_pages_nth
        custom_page_def)
  have 5: "spice_ctrls d"
    by (simp add: spice_ctrls_def pn PANELSPICE_def ctl ctor_pages_nth builtin_pages_def Let_def)
  have 6: "m_PanelNetType d PANELPCBNEW \<noteq> None"
    by (simp add: pn PANELPCBNEW_def)
  have cust: "\<And>i. i < ?n \<Longrightarrow> is_custom_id x (NET_TYPE_CUSTOM1 x + int i)"
    using ok n8 by (auto simp: decls_ok_def list_all_iff CUSTOMPANEL_COUNTMAX_def)
  have 7: "typed_pages x d"
    unfolding typed_pages_def list_all_length
  proof (intro allI impI)
    fix j assume "j < length (m_NoteBook d)"
    then have j: "j < 4 + ?n" by (simp add: len)
    consider "j = 0" | "j = 1" | "j = 2" | "j = 3" | "4 \<le> j" by linarith
    then show "(m_IdNetType (m_NoteBook d ! j) = NET_TYPE_SPICE x \<longrightarrow>
                  m_SpiceAjustPassiveValues (m_NoteBook d ! j) \<noteq> None)
             \<and> (is_custom_id x (m_IdNetType (m_NoteBook d ! j)) \<longrightarrow>
                  m_TitleStringCtrl (m_NoteBook d ! j) \<noteq> None
                \<and> m_CommandStringCtrl (m_NoteBook d ! j) \<noteq> None)"
    proof cases
      case 5
      then have "j - 4 < ?n" using j by simp
      from cust [OF this] 5 j show ?thesis
        by (simp add: ctl ctor_pages_nth custom_page_def is_custom_id_def)
    qed (use ok j in \<open>simp_all add: ctl ctor_pages_nth builtin_pages_def Let_def is_custom_id_def
          decls_ok_def builtin_ids_distinct_def\<close>)
  qed
  show ?thesis
    using 1 2 3 4 5 6 7 by (simp add: dialog_ok_def)
qed

subsection \<open>Samples\<close>

lemma dec_digit: "n < 10 \<Longrightarrow> dec n = [char_of (48 + n)]"
  by (simp add: dec.simps)

lemma sample_titles:
  "stored_title sample_config 0 = ''PADS''"
  "stored_title sample_config (Suc 0) = []"
  "stored_command sample_config 0 = ''xsltproc \"p/pads.asc.xsl\"''"
  by (simp_all add: stored_title_def stored_command_def Read_def key_def sample_config_def
      dec_digit CUSTOM_NETLIST_TITLE_def CUSTOM_NETLIST_COMMAND_def char_of_eq_iff)

lemma sample_titles_from: "titles_from sample_config 0 = 1"
  by (simp add: titles_from_step CUSTOMPANEL_COUNTMAX_def sample_titles)

lemma sample_ctor_pages:
  "ctor_pages sample_decls sample_frame sample_config = m_NoteBook sample_dialog"
  by (simp add: ctor_pages_def builtin_pages_def custom_page_def sample_titles_from sample_titles
      sample_dialog_def sample_frame_def sample_decls_def Let_def)

lemma sample_dialog_ctor:
  "\<exists>d. NETLIST_DIALOG_ctor sample_decls sample_frame sample_config 0 = Some d
     \<and> m_NoteBook d = m_NoteBook sample_dialog
     \<and> m_PanelNetType d = m_PanelNetType sample_dialog
     \<and> m_DefaultNetFmtName d = m_DefaultNetFmtName sample_dialog
     \<and> m_Parent d = m_Parent sample_dialog
     \<and> m_config d = m_config sample_dialog
     \<and> calls d = calls sample_dialog"
proof -
  have sel: "\<exists>pg \<in> set (m_NoteBook sample_dialog). m_IsCurrentFormat pg"
    by (simp add: sample_dialog_def)
  from ctor_result [of sample_decls sample_frame sample_config 0] sel show ?thesis
    unfolding sample_ctor_pages
    by (auto simp add: sample_titles_from sample_dialog_def sample_frame_def fun_eq_iff)
qed

lemma upt_12: "[0..<12] = [0, 1, 2, 3, 4, 5, 6, 7, 8, 9, 10, 11]"
  by (simp add: upt_rec)

lemma upt_8: "[0..<8] = [0, 1, 2, 3, 4, 5, 6, 7]"
  by (simp add: upt_rec)

lemma sample_dialog_ok: "dialog_ok sample_decls sample_dialog"
  by (auto simp add: dialog_ok_def panels_valid_def pages_listed_def contiguous_def custom_ctrls_def
      spice_ctrls_def typed_pages_def sample_dialog_def PANELCUSTOMBASE_def
      CUSTOMPANEL_COUNTMAX_def PANELSPICE_def PANELPCBNEW_def upt_12 upt_8 upt_rec [of _ 8]
      upt_rec [of 0 5] upt_rec [of 1 5] upt_rec [of 2 5] upt_rec [of 3 5] upt_rec [of 4 5]
      is_custom_id_def sample_decls_def)

subsection \<open>SelectDefaultNetlistType\<close>

lemma panels_valid_iff:
  "panels_valid d \<longleftrightarrow>
     (\<forall>ii < 12. \<forall>p. m_PanelNetType d ii = Some p \<longrightarrow> p < length (m_NoteBook d))"
  by (auto simp: panels_valid_def list_all_iff PANELCUSTOMBASE_def CUSTOMPANEL_COUNTMAX_def
      split: option.splits)

lemma SelectDefaultNetlistType_from_result:
  "panels_valid d \<Longrightarrow>
   \<exists>N. SelectDefaultNetlistType_from ii d = Some (d\<lparr>m_NoteBook := N\<rparr>)
     \<and> length N = length (m_NoteBook d)
     \<and> (\<forall>q < length N.
          N ! q = (if \<exists>jj. ii \<le> jj \<and> jj < 12 \<and> m_PanelNetType d jj = Some q
                   then (m_NoteBook d ! q)\<lparr>m_IsCurrentFormat := False\<rparr>
                   else m_NoteBook d ! q))"
proof (induction ii d rule: SelectDefaultNetlistType_from.induct)
  case (1 ii d)
  show ?case
  proof (cases "ii < PANELCUSTOMBASE + CUSTOMPANEL_COUNTMAX")
    case False
    then have "\<not> ii < 12" by (simp add: PANELCUSTOMBASE_def CUSTOMPANEL_COUNTMAX_def)
    then have no: "\<And>q. (\<exists>jj. ii \<le> jj \<and> jj < 12 \<and> m_PanelNetType d jj = Some q) = False" by auto
    from False show ?thesis
      unfolding no
      by (intro exI [of _ "m_NoteBook d"])
         (simp add: SelectDefaultNetlistType_from.simps [of ii d])
  next
    case lt: True
    then have lt12: "ii < 12" by (simp add: PANELCUSTOMBASE_def CUSTOMPANEL_COUNTMAX_def)
    show ?thesis
    proof (cases "m_PanelNetType d ii")
      case None
      from "1.IH"(1) [OF lt None "1.prems"]
      obtain N where N: "SelectDefaultNetlistType_from (ii + 1) d = Some (d\<lparr>m_NoteBook := N\<rparr>)"
        "length N = length (m_NoteBook d)"
        "\<forall>q < length N.
          N ! q = (if \<exists>jj. ii + 1 \<le> jj \<and> jj < 12 \<and> m_PanelNetType d jj = Some q
                   then (m_NoteBook d ! q)\<lparr>m_IsCurrentFormat := False\<rparr>
                   else m_NoteBook d ! q)"
        by blast
      have eq: "\<And>q. (\<exists>jj. ii \<le> jj \<and> jj < 12 \<and> m_PanelNetType d jj = Some q) =
                     (\<exists>jj. ii + 1 \<le> jj \<and> jj < 12 \<and> m_PanelNetType d jj = Some q)"
        using None by (metis Suc_eq_plus1 Suc_leI le_neq_implies_less option.distinct(1) Suc_leD)
      have run: "SelectDefaultNetlistType_from ii d = Some (d\<lparr>m_NoteBook := N\<rparr>)"
        using N(1) lt None by (simp add: SelectDefaultNetlistType_from.simps [of ii d])
      have "\<forall>q < length N.
          N ! q = (if \<exists>jj. ii \<le> jj \<and> jj < 12 \<and> m_PanelNetType d jj = Some q
                   then (m_NoteBook d ! q)\<lparr>m_IsCurrentFormat := False\<rparr>
                   else m_NoteBook d ! q)"
        using N(3) unfolding eq .
      with run N(2) show ?thesis by (intro exI [of _ N] conjI)
    next
      case (Some p)
      have pv: "p < length (m_NoteBook d)"
        using panels_validD [OF "1.prems" lt12 Some] .
      let ?d1 = "d\<lparr>m_NoteBook := (m_NoteBook d)[p := (m_NoteBook d ! p)\<lparr>m_IsCurrentFormat := False\<rparr>]\<rparr>"
      have u: "upd_page p (m_IsCurrentFormat_update (\<lambda>_. False)) d = Some ?d1"
        using pv by (simp add: upd_page_def)
      have pv1: "panels_valid ?d1"
        using "1.prems" by (simp add: panels_valid_iff)
      from "1.IH"(2) [OF lt Some u pv1]
      obtain N where N: "SelectDefaultNetlistType_from (ii + 1) ?d1 = Some (?d1\<lparr>m_NoteBook := N\<rparr>)"
        "length N = length (m_NoteBook ?d1)"
        "\<forall>q < length N.
          N ! q = (if \<exists>jj. ii + 1 \<le> jj \<and> jj < 12 \<and> m_PanelNetType ?d1 jj = Some q
                   then (m_NoteBook ?d1 ! q)\<lparr>m_IsCurrentFormat := False\<rparr>
                   else m_NoteBook ?d1 ! q)"
        by blast
      have run: "SelectDefaultNetlistType_from ii d = Some (d\<lparr>m_NoteBook := N\<rparr>)"
        using N(1) lt Some u by (simp add: SelectDefaultNetlistType_from.simps [of ii d])
      have eq: "\<And>q. (\<exists>jj. ii \<le> jj \<and> jj < 12 \<and> m_PanelNetType d jj = Some q) =
                     (q = p \<or> (\<exists>jj. ii + 1 \<le> jj \<and> jj < 12 \<and> m_PanelNetType d jj = Some q))"
        using Some lt12
        by (metis Suc_eq_plus1 Suc_leI le_neq_implies_less option.inject Suc_leD order_refl)
      have "\<forall>q < length N.
          N ! q = (if \<exists>jj. ii \<le> jj \<and> jj < 12 \<and> m_PanelNetType d jj = Some q
                   then (m_NoteBook d ! q)\<lparr>m_IsCurrentFormat := False\<rparr>
                   else m_NoteBook d ! q)"
        using N(2,3) pv unfolding eq by (auto simp add: nth_list_update)
      with run N(2) show ?thesis by (intro exI [of _ N] conjI) simp_all
    qed
  qed
qed

lemma ctor_pages_checked:
  "pg \<in> set (ctor_pages x parent cfg) \<Longrightarrow>
   m_IsCurrentFormat pg = (m_pageNetFmtName pg = NetListFormatName parent)"
  by (auto simp add: ctor_pages_def builtin_pages_def custom_page_def Let_def)

lemma pages_listed_iff:
  "pages_listed d \<longleftrightarrow>
     (\<forall>q < length (m_NoteBook d). \<exists>ii < 12. m_PanelNetType d ii = Some q)"
  by (simp add: pages_listed_def list_all_iff list_ex_iff PANELCUSTOMBASE_def
      CUSTOMPANEL_COUNTMAX_def Ball_def Bex_def)

subsection \<open>NetlistUpdateOpt and WriteCurrentNetlistSetup\<close>

lemma spice_ctrlsD:
  "spice_ctrls d \<Longrightarrow>
   \<exists>p a c. m_PanelNetType d PANELSPICE = Some p
        \<and> m_SpiceAjustPassiveValues (m_NoteBook d ! p) = Some a
        \<and> m_CommandStringCtrl (m_NoteBook d ! p) = Some c"
  by (auto simp: spice_ctrls_def split: option.splits)

lemma NetlistUpdateOpt_from_result:
  "panels_valid d \<Longrightarrow> \<exists>P. NetlistUpdateOpt_from ii d = Some (d\<lparr>m_Parent := P\<rparr>)"
proof (induction ii d rule: NetlistUpdateOpt_from.induct)
  case (1 ii d)
  show ?case
  proof (cases "ii < PANELCUSTOMBASE + CUSTOMPANEL_COUNTMAX")
    case False
    then show ?thesis
      by (intro exI [of _ "m_Parent d"]) (simp add: NetlistUpdateOpt_from.simps [of ii d])
  next
    case lt: True
    then have lt12: "ii < 12" by (simp add: PANELCUSTOMBASE_def CUSTOMPANEL_COUNTMAX_def)
    show ?thesis
    proof (cases "m_PanelNetType d ii")
      case None
      with lt show ?thesis
        by (intro exI [of _ "m_Parent d"]) (simp add: NetlistUpdateOpt_from.simps [of ii d])
    next
      case (Some p)
      have pv: "p < length (m_NoteBook d)"
        using panels_validD [OF "1.prems" lt12 Some] .
      then have pa: "page_at d p = Some (m_NoteBook d ! p)" by (simp add: page_at_def)
      let ?d1 = "if m_IsCurrentFormat (m_NoteBook d ! p) = True
                 then SetNetListFormatName (m_pageNetFmtName (m_NoteBook d ! p)) d else d"
      have d1: "?d1 = d\<lparr>m_Parent := m_Parent ?d1\<rparr>"
        by (simp add: SetNetListFormatName_def)
      have "panels_valid ?d1"
        using "1.prems" by (simp add: panels_valid_iff SetNetListFormatName_def)
      from "1.IH" [OF lt Some pa this]
      obtain P where "NetlistUpdateOpt_from (ii + 1) ?d1 = Some (?d1\<lparr>m_Parent := P\<rparr>)"
        by blast
      then have "NetlistUpdateOpt_from ii d = Some (d\<lparr>m_Parent := P\<rparr>)"
        using lt Some pa
        by (simp add: NetlistUpdateOpt_from.simps [of ii d] SetNetListFormatName_def
            split: if_splits)
      then show ?thesis by blast
    qed
  qed
qed

lemma NetlistUpdateOpt_result:
  assumes "panels_valid d" "spice_ctrls d"
  shows "\<exists>P. NetlistUpdateOpt d = Some (d\<lparr>m_Parent := P\<rparr>)"
proof -
  from spice_ctrlsD [OF assms(2)]
  obtain p a c where s: "m_PanelNetType d PANELSPICE = Some p"
    "m_SpiceAjustPassiveValues (m_NoteBook d ! p) = Some a"
    "m_CommandStringCtrl (m_NoteBook d ! p) = Some c"
    by blast
  have "p < length (m_NoteBook d)"
    using panels_validD [OF assms(1) _ s(1)] by (simp add: PANELSPICE_def)
  then have pa: "page_at d p = Some (m_NoteBook d ! p)" by (simp add: page_at_def)
  let ?d3 = "SetNetListFormatName [] (SetSimulatorCommand c (SetSpiceAjustPassiveValues a d))"
  have d3: "?d3 = d\<lparr>m_Parent := m_Parent ?d3\<rparr>"
    by (simp add: SetNetListFormatName_def SetSimulatorCommand_def SetSpiceAjustPassiveValues_def)
  have "panels_valid ?d3"
    using assms(1)
    by (simp add: panels_valid_iff SetNetListFormatName_def SetSimulatorCommand_def
        SetSpiceAjustPassiveValues_def)
  from NetlistUpdateOpt_from_result [OF this, of 0]
  obtain P where "NetlistUpdateOpt_from 0 ?d3 = Some (?d3\<lparr>m_Parent := P\<rparr>)" by blast
  then have "NetlistUpdateOpt d = Some (d\<lparr>m_Parent := P\<rparr>)"
    using s pa
    by (simp add: NetlistUpdateOpt_def SetNetListFormatName_def SetSimulatorCommand_def
        SetSpiceAjustPassiveValues_def)
  then show ?thesis by blast
qed

lemma key_inj: "a < 10 \<Longrightarrow> b < 10 \<Longrightarrow> key w a = key w b \<longleftrightarrow> a = b"
  by (simp add: key_def dec_digit)

lemma key_title_command: "key CUSTOM_NETLIST_TITLE a \<noteq> key CUSTOM_NETLIST_COMMAND b"
  by (simp add: key_def CUSTOM_NETLIST_TITLE_def CUSTOM_NETLIST_COMMAND_def)

lemma installed_custom_None:
  assumes "contiguous d" "ii < 8" "m_PanelNetType d (PANELCUSTOMBASE + ii) = None"
  shows "installed_custom d ii = []"
proof -
  have "\<And>jj. jj \<in> set [ii..<CUSTOMPANEL_COUNTMAX] \<Longrightarrow> m_PanelNetType d (PANELCUSTOMBASE + jj) = None"
    using contiguousD [OF assms(1,3)] by (simp add: CUSTOMPANEL_COUNTMAX_def)
  then have "List.map_filter (\<lambda>jj. m_PanelNetType d (PANELCUSTOMBASE + jj)) [ii..<CUSTOMPANEL_COUNTMAX] = []"
    by (simp add: List.map_filter_def filter_empty_conv)
  then show ?thesis by (simp add: installed_custom_def)
qed

lemma installed_custom_Some:
  assumes "ii < 8" "m_PanelNetType d (PANELCUSTOMBASE + ii) = Some p"
  shows "installed_custom d ii = (m_NoteBook d ! p) # installed_custom d (ii + 1)"
  using assms
  by (simp add: installed_custom_def CUSTOMPANEL_COUNTMAX_def upt_conv_Cons List.map_filter_def)

lemma installed_custom_end: "\<not> ii < 8 \<Longrightarrow> installed_custom d ii = []"
  by (simp add: installed_custom_def CUSTOMPANEL_COUNTMAX_def List.map_filter_def)

lemma installed_custom_config [simp]:
  "installed_custom (cfg_Write k v d) ii = installed_custom d ii"
  by (simp add: installed_custom_def cfg_Write_def)

lemma WriteCurrentNetlistSetup_pages_result:
  "panels_valid d \<Longrightarrow> contiguous d \<Longrightarrow> custom_ctrls d \<Longrightarrow>
   WriteCurrentNetlistSetup_pages ii jj d =
     Some (jj + length (titled_custom d ii),
           d\<lparr>m_config := write_pages (m_config d) jj (titled_custom d ii)\<rparr>)"
proof (induction ii jj d rule: WriteCurrentNetlistSetup_pages.induct)
  case (1 ii jj d)
  show ?case
  proof (cases "ii < CUSTOMPANEL_COUNTMAX")
    case False
    then show ?thesis
      by (simp add: WriteCurrentNetlistSetup_pages.simps [of ii jj d] titled_custom_def
          installed_custom_end CUSTOMPANEL_COUNTMAX_def)
  next
    case lt: True
    then have lt8: "ii < 8" by (simp add: CUSTOMPANEL_COUNTMAX_def)
    have comm: "ii + PANELCUSTOMBASE = PANELCUSTOMBASE + ii" by simp
    show ?thesis
    proof (cases "m_PanelNetType d (ii + PANELCUSTOMBASE)")
      case None
      then have "installed_custom d ii = []"
        using installed_custom_None [OF "1.prems"(2) lt8] by (simp add: comm)
      with lt None show ?thesis
        by (simp add: WriteCurrentNetlistSetup_pages.simps [of ii jj d] titled_custom_def)
    next
      case (Some p)
      then have Some': "m_PanelNetType d (PANELCUSTOMBASE + ii) = Some p" by (simp add: comm)
      have "p < length (m_NoteBook d)"
        using panels_validD [OF "1.prems"(1) _ Some'] lt8 by (simp add: PANELCUSTOMBASE_def)
      then have pa: "page_at d p = Some (m_NoteBook d ! p)" by (simp add: page_at_def)
      from custom_ctrlsD [OF "1.prems"(3) lt8 Some']
      obtain t c where tc: "m_TitleStringCtrl (m_NoteBook d ! p) = Some t"
        "m_CommandStringCtrl (m_NoteBook d ! p) = Some c" by blast
      have ic: "installed_custom d ii = (m_NoteBook d ! p) # installed_custom d (ii + 1)"
        using installed_custom_Some [OF lt8 Some'] .
      show ?thesis
      proof (cases "t = []")
        case True
        from "1.IH"(1) [OF lt Some pa tc(1) True "1.prems"]
        show ?thesis
          using lt Some pa tc True
          by (simp add: WriteCurrentNetlistSetup_pages.simps [of ii jj d] titled_custom_def ic
              ctrl_text_def)
      next
        case False
        let ?d2 = "cfg_Write (key CUSTOM_NETLIST_COMMAND (jj + 1)) c
                     (cfg_Write (key CUSTOM_NETLIST_TITLE (jj + 1)) t d)"
        have ok2: "panels_valid ?d2" "contiguous ?d2" "custom_ctrls ?d2"
          using "1.prems"
          by (simp_all add: panels_valid_iff contiguous_def custom_ctrls_def cfg_Write_def
              cong: option.case_cong)
        have tc2: "titled_custom ?d2 (ii + 1) = titled_custom d (ii + 1)"
          by (simp add: titled_custom_def)
        have cf2: "m_config ?d2 =
                     (m_config d)(key CUSTOM_NETLIST_TITLE (jj + 1) \<mapsto> t,
                                  key CUSTOM_NETLIST_COMMAND (jj + 1) \<mapsto> c)"
          by (simp add: cfg_Write_def)
        have up2: "\<And>X. ?d2\<lparr>m_config := X\<rparr> = d\<lparr>m_config := X\<rparr>"
          by (simp add: cfg_Write_def)
        have w: "write_pages (m_config d) jj (titled_custom d ii) =
                   write_pages (m_config ?d2) (jj + 1) (titled_custom d (ii + 1))"
          using tc False unfolding cf2 by (simp add: titled_custom_def ic ctrl_text_def)
        have l: "jj + length (titled_custom d ii) = jj + 1 + length (titled_custom d (ii + 1))"
          using tc False by (simp add: titled_custom_def ic ctrl_text_def)
        from "1.IH"(2) [OF lt Some pa tc(1) False tc(2) ok2]
        have "WriteCurrentNetlistSetup_pages (ii + 1) (jj + 1) ?d2 =
                Some (jj + length (titled_custom d ii),
                      d\<lparr>m_config := write_pages (m_config d) jj (titled_custom d ii)\<rparr>)"
          unfolding tc2 up2 w l .
        then show ?thesis
          using lt Some pa tc False
          by (simp add: WriteCurrentNetlistSetup_pages.simps [of ii jj d])
      qed
    qed
  qed
qed

lemma WriteCurrentNetlistSetup_void_result:
  "\<exists>c. WriteCurrentNetlistSetup_void jj d = d\<lparr>m_config := c\<rparr>
      \<and> (\<forall>k. c k =
            (if \<exists>j. jj \<le> j \<and> j < CUSTOMPANEL_COUNTMAX
                     \<and> (k = key CUSTOM_NETLIST_TITLE (j + 1) \<or> k = key CUSTOM_NETLIST_COMMAND (j + 1))
             then Some [] else m_config d k))"
proof (induction jj d rule: WriteCurrentNetlistSetup_void.induct)
  case (1 jj d)
  show ?case
  proof (cases "jj < CUSTOMPANEL_COUNTMAX")
    case False
    then have no: "\<And>k. (\<exists>j. jj \<le> j \<and> j < CUSTOMPANEL_COUNTMAX
                     \<and> (k = key CUSTOM_NETLIST_TITLE (j + 1) \<or> k = key CUSTOM_NETLIST_COMMAND (j + 1)))
                 = False"
      by auto
    from False show ?thesis
      unfolding no
      by (intro exI [of _ "m_config d"]) (simp add: WriteCurrentNetlistSetup_void.simps [of jj d])
  next
    case lt: True
    let ?d1 = "cfg_Write (key CUSTOM_NETLIST_COMMAND (jj + 1)) []
                 (cfg_Write (key CUSTOM_NETLIST_TITLE (jj + 1)) [] d)"
    from "1.IH" [OF lt]
    obtain c where c: "WriteCurrentNetlistSetup_void (jj + 1) ?d1 = ?d1\<lparr>m_config := c\<rparr>"
      "\<forall>k. c k =
            (if \<exists>j. jj + 1 \<le> j \<and> j < CUSTOMPANEL_COUNTMAX
                     \<and> (k = key CUSTOM_NETLIST_TITLE (j + 1) \<or> k = key CUSTOM_NETLIST_COMMAND (j + 1))
             then Some [] else m_config ?d1 k)"
      by blast
    have run: "WriteCurrentNetlistSetup_void jj d = d\<lparr>m_config := c\<rparr>"
      using lt c(1) by (simp add: WriteCurrentNetlistSetup_void.simps [of jj d] cfg_Write_def)
    have split: "\<And>k. (\<exists>j. jj \<le> j \<and> j < CUSTOMPANEL_COUNTMAX
                     \<and> (k = key CUSTOM_NETLIST_TITLE (j + 1) \<or> k = key CUSTOM_NETLIST_COMMAND (j + 1)))
              = ((k = key CUSTOM_NETLIST_TITLE (jj + 1) \<or> k = key CUSTOM_NETLIST_COMMAND (jj + 1))
                 \<or> (\<exists>j. jj + 1 \<le> j \<and> j < CUSTOMPANEL_COUNTMAX
                     \<and> (k = key CUSTOM_NETLIST_TITLE (j + 1) \<or> k = key CUSTOM_NETLIST_COMMAND (j + 1))))"
      using lt by (metis Suc_eq_plus1 Suc_leI le_neq_implies_less Suc_leD order_refl)
    have "\<forall>k. c k =
            (if \<exists>j. jj \<le> j \<and> j < CUSTOMPANEL_COUNTMAX
                     \<and> (k = key CUSTOM_NETLIST_TITLE (j + 1) \<or> k = key CUSTOM_NETLIST_COMMAND (j + 1))
             then Some [] else m_config d k)"
      unfolding split using c(2) by (auto simp add: cfg_Write_def)
    with run show ?thesis by (intro exI [of _ c] conjI)
  qed
qed

lemma write_pages_other:
  "(\<forall>i < length S. k \<noteq> key CUSTOM_NETLIST_TITLE (jj + i + 1)
                  \<and> k \<noteq> key CUSTOM_NETLIST_COMMAND (jj + i + 1)) \<Longrightarrow>
   write_pages c jj S k = c k"
proof (induction S arbitrary: c jj)
  case Nil
  then show ?case by simp
next
  case (Cons pg S)
  have "\<forall>i < length S. k \<noteq> key CUSTOM_NETLIST_TITLE (jj + 1 + i + 1)
                  \<and> k \<noteq> key CUSTOM_NETLIST_COMMAND (jj + 1 + i + 1)"
    using Cons.prems by (auto dest: spec [of _ "Suc i" for i])
  from Cons.IH [OF this] Cons.prems [rule_format, of 0] show ?case by simp
qed

lemma write_pages_nth:
  "jj + length S \<le> 9 \<Longrightarrow> i < length S \<Longrightarrow>
   write_pages c jj S (key CUSTOM_NETLIST_TITLE (jj + i + 1)) = Some (ctrl_text (m_TitleStringCtrl (S ! i)))
 \<and> write_pages c jj S (key CUSTOM_NETLIST_COMMAND (jj + i + 1)) = Some (ctrl_text (m_CommandStringCtrl (S ! i)))"
proof (induction S arbitrary: c jj i)
  case Nil
  then show ?case by simp
next
  case (Cons pg S)
  show ?case
  proof (cases i)
    case 0
    have "\<forall>i' < length S.
            key CUSTOM_NETLIST_TITLE (jj + 1) \<noteq> key CUSTOM_NETLIST_TITLE (jj + 1 + i' + 1)
          \<and> key CUSTOM_NETLIST_TITLE (jj + 1) \<noteq> key CUSTOM_NETLIST_COMMAND (jj + 1 + i' + 1)"
      using Cons.prems(1) by (auto simp: key_inj key_title_command)
    moreover have "\<forall>i' < length S.
            key CUSTOM_NETLIST_COMMAND (jj + 1) \<noteq> key CUSTOM_NETLIST_TITLE (jj + 1 + i' + 1)
          \<and> key CUSTOM_NETLIST_COMMAND (jj + 1) \<noteq> key CUSTOM_NETLIST_COMMAND (jj + 1 + i' + 1)"
      using Cons.prems(1) by (auto simp: key_inj key_title_command [symmetric])
    ultimately show ?thesis
      using 0 key_title_command [of "jj + 1" "jj + 1"]
      by (simp add: write_pages_other)
  next
    case (Suc i')
    have "jj + 1 + length S \<le> 9" "i' < length S" using Cons.prems Suc by simp_all
    from Cons.IH [OF this] Suc show ?thesis by simp
  qed
qed

lemma length_installed_custom: "length (installed_custom d ii) \<le> CUSTOMPANEL_COUNTMAX - ii"
proof -
  have "length (List.map_filter (\<lambda>jj. m_PanelNetType d (PANELCUSTOMBASE + jj)) [ii..<CUSTOMPANEL_COUNTMAX])
          \<le> length [ii..<CUSTOMPANEL_COUNTMAX]"
    unfolding List.map_filter_def length_map by (rule length_filter_le)
  then show ?thesis by (simp add: installed_custom_def)
qed

lemma length_titled_custom: "length (titled_custom d 0) \<le> CUSTOMPANEL_COUNTMAX"
proof -
  have "length (titled_custom d 0) \<le> length (installed_custom d 0)"
    unfolding titled_custom_def by (rule length_filter_le)
  with length_installed_custom [of d 0] show ?thesis by simp
qed

lemma titled_custom_Parent [simp]: "titled_custom (d\<lparr>m_Parent := P\<rparr>) ii = titled_custom d ii"
  by (simp add: titled_custom_def installed_custom_def)

lemma WriteCurrentNetlistSetup_result:
  assumes "panels_valid d" "contiguous d" "custom_ctrls d" "spice_ctrls d"
  shows "\<exists>P c. WriteCurrentNetlistSetup d = Some (d\<lparr>m_Parent := P, m_config := c\<rparr>)
     \<and> (\<forall>j < CUSTOMPANEL_COUNTMAX.
          c (key CUSTOM_NETLIST_TITLE (j + 1)) =
            Some (if j < length (titled_custom d 0)
                  then ctrl_text (m_TitleStringCtrl (titled_custom d 0 ! j)) else [])
        \<and> c (key CUSTOM_NETLIST_COMMAND (j + 1)) =
            Some (if j < length (titled_custom d 0)
                  then ctrl_text (m_CommandStringCtrl (titled_custom d 0 ! j)) else []))
     \<and> (\<forall>k. (\<forall>j < CUSTOMPANEL_COUNTMAX. k \<noteq> key CUSTOM_NETLIST_TITLE (j + 1)
                                      \<and> k \<noteq> key CUSTOM_NETLIST_COMMAND (j + 1)) \<longrightarrow>
            c k = m_config d k)
     \<and> NetlistUpdateOpt d = Some (d\<lparr>m_Parent := P\<rparr>)"
proof -
  let ?S = "titled_custom d 0"
  let ?n = "length ?S"
  from NetlistUpdateOpt_result [OF assms(1,4)]
  obtain P where P: "NetlistUpdateOpt d = Some (d\<lparr>m_Parent := P\<rparr>)" by blast
  let ?d1 = "d\<lparr>m_Parent := P\<rparr>"
  have ok1: "panels_valid ?d1" "contiguous ?d1" "custom_ctrls ?d1"
    using assms
    by (simp_all add: panels_valid_iff contiguous_def custom_ctrls_def cong: option.case_cong)
  let ?c2 = "write_pages (m_config d) 0 ?S"
  let ?d2 = "d\<lparr>m_Parent := P, m_config := ?c2\<rparr>"
  have pg: "WriteCurrentNetlistSetup_pages 0 0 ?d1 = Some (?n, ?d2)"
    using WriteCurrentNetlistSetup_pages_result [OF ok1, of 0 0] by simp
  from WriteCurrentNetlistSetup_void_result [of ?n ?d2]
  obtain c where c: "WriteCurrentNetlistSetup_void ?n ?d2 = ?d2\<lparr>m_config := c\<rparr>"
    "\<forall>k. c k =
            (if \<exists>j. ?n \<le> j \<and> j < CUSTOMPANEL_COUNTMAX
                     \<and> (k = key CUSTOM_NETLIST_TITLE (j + 1) \<or> k = key CUSTOM_NETLIST_COMMAND (j + 1))
             then Some [] else m_config ?d2 k)"
    by blast
  have run: "WriteCurrentNetlistSetup d = Some (d\<lparr>m_Parent := P, m_config := c\<rparr>)"
    using P pg c(1) by (simp add: WriteCurrentNetlistSetup_def)
  have n8: "?n \<le> 8"
    using length_titled_custom [of d] by (simp add: CUSTOMPANEL_COUNTMAX_def)
  have keys: "\<forall>j < CUSTOMPANEL_COUNTMAX.
          c (key CUSTOM_NETLIST_TITLE (j + 1)) =
            Some (if j < ?n then ctrl_text (m_TitleStringCtrl (?S ! j)) else [])
        \<and> c (key CUSTOM_NETLIST_COMMAND (j + 1)) =
            Some (if j < ?n then ctrl_text (m_CommandStringCtrl (?S ! j)) else [])"
  proof (intro allI impI)
    fix j assume "j < CUSTOMPANEL_COUNTMAX"
    then have j8: "j < 8" by (simp add: CUSTOMPANEL_COUNTMAX_def)
    show "c (key CUSTOM_NETLIST_TITLE (j + 1)) =
            Some (if j < ?n then ctrl_text (m_TitleStringCtrl (?S ! j)) else [])
        \<and> c (key CUSTOM_NETLIST_COMMAND (j + 1)) =
            Some (if j < ?n then ctrl_text (m_CommandStringCtrl (?S ! j)) else [])"
    proof (cases "j < ?n")
      case True
      have no: "\<And>w. \<not> (\<exists>j'. ?n \<le> j' \<and> j' < CUSTOMPANEL_COUNTMAX
                     \<and> (key w (j + 1) = key CUSTOM_NETLIST_TITLE (j' + 1)
                        \<or> key w (j + 1) = key CUSTOM_NETLIST_COMMAND (j' + 1)))
                 \<or> (w \<noteq> CUSTOM_NETLIST_TITLE \<and> w \<noteq> CUSTOM_NETLIST_COMMAND)"
        using True j8 key_title_command
        by (auto simp: key_inj CUSTOMPANEL_COUNTMAX_def) metis+
      have t: "c (key CUSTOM_NETLIST_TITLE (j + 1)) = ?c2 (key CUSTOM_NETLIST_TITLE (j + 1))"
        using no [of CUSTOM_NETLIST_TITLE] c(2) by auto
      have k: "c (key CUSTOM_NETLIST_COMMAND (j + 1)) = ?c2 (key CUSTOM_NETLIST_COMMAND (j + 1))"
        using no [of CUSTOM_NETLIST_COMMAND] c(2) by auto
      have "0 + ?n \<le> 9" using n8 by simp
      from write_pages_nth [OF this True, of "m_config d"] t k True show ?thesis by simp
    next
      case False
      then have "\<exists>j'. ?n \<le> j' \<and> j' < CUSTOMPANEL_COUNTMAX
                     \<and> (key CUSTOM_NETLIST_TITLE (j + 1) = key CUSTOM_NETLIST_TITLE (j' + 1)
                        \<or> key CUSTOM_NETLIST_TITLE (j + 1) = key CUSTOM_NETLIST_COMMAND (j' + 1))"
        "\<exists>j'. ?n \<le> j' \<and> j' < CUSTOMPANEL_COUNTMAX
                     \<and> (key CUSTOM_NETLIST_COMMAND (j + 1) = key CUSTOM_NETLIST_TITLE (j' + 1)
                        \<or> key CUSTOM_NETLIST_COMMAND (j + 1) = key CUSTOM_NETLIST_COMMAND (j' + 1))"
        using j8 by (auto simp: CUSTOMPANEL_COUNTMAX_def intro!: exI [of _ j])
      with False c(2) show ?thesis by simp
    qed
  qed
  have other: "\<forall>k. (\<forall>j < CUSTOMPANEL_COUNTMAX. k \<noteq> key CUSTOM_NETLIST_TITLE (j + 1)
                                      \<and> k \<noteq> key CUSTOM_NETLIST_COMMAND (j + 1)) \<longrightarrow>
            c k = m_config d k"
  proof (intro allI impI)
    fix k assume k: "\<forall>j < CUSTOMPANEL_COUNTMAX. k \<noteq> key CUSTOM_NETLIST_TITLE (j + 1)
                                      \<and> k \<noteq> key CUSTOM_NETLIST_COMMAND (j + 1)"
    then have "c k = ?c2 k" using c(2) by auto
    moreover have "?c2 k = m_config d k"
      using k n8 by (intro write_pages_other) (auto simp: CUSTOMPANEL_COUNTMAX_def)
    ultimately show "c k = m_config d k" by simp
  qed
  from run keys other P show ?thesis by blast
qed



lemma sample_keys8:
  "key CUSTOM_NETLIST_TITLE (0 + 1) = ''CustomNetlistTitle1''"
  "key CUSTOM_NETLIST_COMMAND (0 + 1) = ''CustomNetlistCommand1''"
  "key CUSTOM_NETLIST_TITLE (1 + 1) = ''CustomNetlistTitle2''"
  "key CUSTOM_NETLIST_TITLE (2 + 1) = ''CustomNetlistTitle3''"
  "key CUSTOM_NETLIST_TITLE (7 + 1) = ''CustomNetlistTitle8''"
  by (simp_all add: key_def dec_digit CUSTOM_NETLIST_TITLE_def CUSTOM_NETLIST_COMMAND_def
      char_of_eq_iff)

subsection \<open>OnDelGenerator\<close>

lemma custom_ctrls_iff:
  "custom_ctrls d \<longleftrightarrow>
     (\<forall>ii < 8. \<forall>p. m_PanelNetType d (PANELCUSTOMBASE + ii) = Some p \<longrightarrow>
        m_TitleStringCtrl (m_NoteBook d ! p) \<noteq> None \<and> m_CommandStringCtrl (m_NoteBook d ! p) \<noteq> None)"
  by (auto simp: custom_ctrls_def list_all_iff CUSTOMPANEL_COUNTMAX_def split: option.splits)

lemma shape_pages:
  assumes "panels_valid d" "contiguous d" "custom_ctrls d" "spice_ctrls d"
    and len: "length N = length (m_NoteBook d)"
    and keep: "\<forall>q < length N.
        (m_TitleStringCtrl (m_NoteBook d ! q) \<noteq> None \<longrightarrow> m_TitleStringCtrl (N ! q) \<noteq> None)
      \<and> (m_CommandStringCtrl (m_NoteBook d ! q) \<noteq> None \<longrightarrow> m_CommandStringCtrl (N ! q) \<noteq> None)
      \<and> (m_SpiceAjustPassiveValues (m_NoteBook d ! q) \<noteq> None \<longrightarrow>
           m_SpiceAjustPassiveValues (N ! q) \<noteq> None)"
  shows "panels_valid (d\<lparr>m_NoteBook := N\<rparr>)" "contiguous (d\<lparr>m_NoteBook := N\<rparr>)"
    "custom_ctrls (d\<lparr>m_NoteBook := N\<rparr>)" "spice_ctrls (d\<lparr>m_NoteBook := N\<rparr>)"
proof -
  show "panels_valid (d\<lparr>m_NoteBook := N\<rparr>)"
    using assms(1) len by (simp add: panels_valid_iff)
  show "contiguous (d\<lparr>m_NoteBook := N\<rparr>)"
    using assms(2) by (simp add: contiguous_def)
  show "custom_ctrls (d\<lparr>m_NoteBook := N\<rparr>)"
    unfolding custom_ctrls_iff
  proof (intro allI impI)
    fix ii p assume ii: "ii < 8" and p: "m_PanelNetType (d\<lparr>m_NoteBook := N\<rparr>) (PANELCUSTOMBASE + ii) = Some p"
    then have p': "m_PanelNetType d (PANELCUSTOMBASE + ii) = Some p" by simp
    have "p < length N"
      using panels_validD [OF assms(1) _ p'] ii len by (simp add: PANELCUSTOMBASE_def)
    with keep assms(3) [unfolded custom_ctrls_iff, rule_format, OF ii p']
    show "m_TitleStringCtrl (m_NoteBook (d\<lparr>m_NoteBook := N\<rparr>) ! p) \<noteq> None
        \<and> m_CommandStringCtrl (m_NoteBook (d\<lparr>m_NoteBook := N\<rparr>) ! p) \<noteq> None"
      by simp
  qed
  from spice_ctrlsD [OF assms(4)]
  obtain p a c where s: "m_PanelNetType d PANELSPICE = Some p"
    "m_SpiceAjustPassiveValues (m_NoteBook d ! p) = Some a"
    "m_CommandStringCtrl (m_NoteBook d ! p) = Some c"
    by blast
  have "p < length N"
    using panels_validD [OF assms(1) _ s(1)] len by (simp add: PANELSPICE_def)
  with keep s show "spice_ctrls (d\<lparr>m_NoteBook := N\<rparr>)"
    by (simp add: spice_ctrls_def)
qed

lemma WriteCurrentNetlistSetup_frame:
  assumes "panels_valid d" "contiguous d" "custom_ctrls d" "spice_ctrls d"
  shows "\<exists>d'. WriteCurrentNetlistSetup d = Some d'
       \<and> m_NoteBook d' = m_NoteBook d \<and> m_PanelNetType d' = m_PanelNetType d
       \<and> calls d' = calls d \<and> m_DefaultNetFmtName d' = m_DefaultNetFmtName d
       \<and> m_NoteBook_selection d' = m_NoteBook_selection d"
proof -
  from WriteCurrentNetlistSetup_result [OF assms]
  obtain P c where "WriteCurrentNetlistSetup d = Some (d\<lparr>m_Parent := P, m_config := c\<rparr>)"
    by blast
  then show ?thesis by simp
qed

subsection \<open>GenNetlist\<close>

lemma GetCurrentPage_iff:
  "GetCurrentPage d = Some p \<longleftrightarrow> m_NoteBook_selection d = Some p \<and> p < length (m_NoteBook d)"
  by (auto simp: GetCurrentPage_def split: option.splits)

lemma typed_pagesD:
  "typed_pages x d \<Longrightarrow> p < length (m_NoteBook d) \<Longrightarrow>
   (m_IdNetType (m_NoteBook d ! p) = NET_TYPE_SPICE x \<longrightarrow>
      (\<exists>a. m_SpiceAjustPassiveValues (m_NoteBook d ! p) = Some a))
 \<and> (is_custom_id x (m_IdNetType (m_NoteBook d ! p)) \<longrightarrow>
      (\<exists>t c. m_TitleStringCtrl (m_NoteBook d ! p) = Some t
           \<and> m_CommandStringCtrl (m_NoteBook d ! p) = Some c))"
  by (auto simp: typed_pages_def list_all_length)

lemma GenNetlist_switch_Some:
  assumes "typed_pages x d" "p < length (m_NoteBook d)"
  shows "\<exists>r. GenNetlist_switch x (m_NoteBook d ! p) fileExt title = Some r"
proof -
  let ?pg = "m_NoteBook d ! p"
  note t = typed_pagesD [OF assms]
  show ?thesis
  proof (cases "m_IdNetType ?pg = NET_TYPE_SPICE x")
    case True
    with t obtain a where "m_SpiceAjustPassiveValues ?pg = Some a" by blast
    with True show ?thesis by (simp add: GenNetlist_switch_def)
  next
    case False
    show ?thesis
    proof (cases "is_custom_id x (m_IdNetType ?pg)")
      case True
      with t obtain tt c where "m_TitleStringCtrl ?pg = Some tt" "m_CommandStringCtrl ?pg = Some c"
        by blast
      with True show ?thesis by (simp add: GenNetlist_switch_def is_custom_id_def)
    next
      case c: False
      with False show ?thesis by (auto simp add: GenNetlist_switch_def is_custom_id_def)
    qed
  qed
qed

text \<open>The arguments of the file dialog and the netlist options of \<open>GenNetlist\<close>.\<close>

lemma GenNetlist_result:
  assumes ok: "dialog_ok x d" and cur: "GetCurrentPage d = Some p"
    and sw: "GenNetlist_switch x (m_NoteBook d ! p)
               (case fst (snd (FilenamePrms x (m_IdNetType (m_NoteBook d ! p)) (Some []) (Some [])))
                of Some v \<Rightarrow> v | None \<Rightarrow> [])
               ''Save Netlist File'' = Some (netlist_opt, fileExt, title)"
  shows "\<exists>d' fn2 wildcard.
       GenNetlist x e d = Some d'
     \<and> fn2 = (if GetPath (SetExt fileExt (RootFileName e)) = []
              then SetPath (ProjectPath e) (SetExt fileExt (RootFileName e))
              else SetExt fileExt (RootFileName e))
     \<and> snd (snd (FilenamePrms x (m_IdNetType (m_NoteBook d ! p)) (Some []) (Some []))) = Some wildcard
     \<and> calls d' = calls d @ FileDialog title (GetPath fn2) (GetFullName fn2) wildcard #
         (case FileDialog_result e of
            None \<Rightarrow> []
          | Some fullpath \<Rightarrow>
              [ClearMsgPanel, CreateNetlist,
               (case CreateNetlist_result e of
                  None \<Rightarrow> MessageBox ''Schematic netlist not available''
                | Some netlist \<Rightarrow>
                    WriteNetListFile (Some netlist) (m_IdNetType (m_NoteBook d ! p)) fullpath netlist_opt),
               EndModal wxID_OK])
     \<and> m_NoteBook d' = m_NoteBook d \<and> m_PanelNetType d' = m_PanelNetType d
     \<and> (FileDialog_result e = None \<longrightarrow> m_config d' = m_config d)
     \<and> (FileDialog_result e \<noteq> None \<longrightarrow>
          (\<exists>d6 d7. m_NoteBook d6 = m_NoteBook d \<and> m_PanelNetType d6 = m_PanelNetType d
                 \<and> m_config d6 = m_config d
                 \<and> WriteCurrentNetlistSetup d6 = Some d7
                 \<and> d' = do_call (EndModal wxID_OK) d7))"
proof -
  from ok have shape: "panels_valid d" "contiguous d" "custom_ctrls d" "spice_ctrls d"
    by (simp_all add: dialog_ok_def)
  have pv: "p < length (m_NoteBook d)"
    using cur by (simp add: GetCurrentPage_iff)
  define pg where "pg = m_NoteBook d ! p"
  from NetlistUpdateOpt_result [OF shape(1,4)]
  obtain P1 where P1: "NetlistUpdateOpt d = Some (d\<lparr>m_Parent := P1\<rparr>)" by blast
  define d1 where "d1 = d\<lparr>m_Parent := P1\<rparr>"
  have d1: "GetCurrentPage d1 = Some p" "page_at d1 p = Some pg"
    using cur pv by (simp_all add: d1_def GetCurrentPage_iff page_at_def pg_def)
  obtain ret aExt aWildCard where fp:
    "FilenamePrms x (m_IdNetType pg) (Some []) (Some []) = (ret, aExt, aWildCard)"
    by (cases "FilenamePrms x (m_IdNetType pg) (Some []) (Some [])") auto
  obtain wildcard where wc: "aWildCard = Some wildcard"
    using fp by (auto simp: FilenamePrms_def Let_def split: if_splits)
  define fn1 where "fn1 = SetExt fileExt (RootFileName e)"
  define fn2 where "fn2 = (if GetPath fn1 = [] then SetPath (ProjectPath e) fn1 else fn1)"
  define d2 where "d2 = do_call (FileDialog title (GetPath fn2) (GetFullName fn2) wildcard) d1"
  have sw': "GenNetlist_switch x pg (case aExt of Some v \<Rightarrow> v | None \<Rightarrow> []) ''Save Netlist File''
               = Some (netlist_opt, fileExt, title)"
    using sw fp by (simp add: pg_def)
  have fn2_eq: "(if GetPath (SetExt fileExt (RootFileName e)) = []
                 then SetPath (ProjectPath e) (SetExt fileExt (RootFileName e))
                 else SetExt fileExt (RootFileName e)) = fn2"
    by (simp add: fn2_def fn1_def)
  note evl = GenNetlist_def P1 d1 [unfolded d1_def] fp sw' wc Let_def
  show ?thesis
  proof (cases "FileDialog_result e")
    case None
    then have "GenNetlist x e d = Some d2"
      by (simp add: evl fn2_eq d2_def d1_def)
    moreover have "calls d2 = calls d @ [FileDialog title (GetPath fn2) (GetFullName fn2) wildcard]"
      "m_NoteBook d2 = m_NoteBook d" "m_PanelNetType d2 = m_PanelNetType d" "m_config d2 = m_config d"
      by (simp_all add: d2_def d1_def do_call_def)
    ultimately show ?thesis
      using None fp wc
      by (intro exI [of _ d2] exI [of _ fn2] exI [of _ wildcard])
         (simp add: fn2_def fn1_def pg_def)
  next
    case (Some fullpath)
    define ev where "ev = (case CreateNetlist_result e of
                  None \<Rightarrow> MessageBox ''Schematic netlist not available''
                | Some netlist \<Rightarrow>
                    WriteNetListFile (Some netlist) (m_IdNetType pg) fullpath netlist_opt)"
    define P6 where "P6 = P1\<lparr>NetListerCommand :=
                        (case m_CommandStringCtrl pg of Some v \<Rightarrow> v | None \<Rightarrow> [])\<rparr>"
    define cs where "cs = calls d @ [FileDialog title (GetPath fn2) (GetFullName fn2) wildcard,
                                     ClearMsgPanel, CreateNetlist, ev]"
    define d6 where "d6 = d\<lparr>m_Parent := P6, calls := cs\<rparr>"
    have shape6: "panels_valid d6" "contiguous d6" "custom_ctrls d6" "spice_ctrls d6"
      using shape
      by (simp_all add: d6_def panels_valid_iff contiguous_def custom_ctrls_def spice_ctrls_def
          cong: option.case_cong)
    from WriteCurrentNetlistSetup_result [OF shape6]
    obtain P c where w: "WriteCurrentNetlistSetup d6 = Some (d6\<lparr>m_Parent := P, m_config := c\<rparr>)"
      by blast
    define d' where "d' = do_call (EndModal wxID_OK) (d6\<lparr>m_Parent := P, m_config := c\<rparr>)"
    have run: "GenNetlist x e d = Some d'"
      using w unfolding d'_def d6_def cs_def P6_def ev_def
      by (cases "CreateNetlist_result e"; cases "m_CommandStringCtrl pg")
         (simp_all add: evl Some fn2_eq do_call_def SetNetListerCommand_def)
    have f: "calls d' = cs @ [EndModal wxID_OK]" "m_NoteBook d' = m_NoteBook d"
      "m_PanelNetType d' = m_PanelNetType d" "m_config d' = c"
      by (simp_all add: d'_def d6_def do_call_def)
    have d6f: "m_NoteBook d6 = m_NoteBook d" "m_PanelNetType d6 = m_PanelNetType d"
      "m_config d6 = m_config d"
      by (simp_all add: d6_def)
    have cl: "calls d' = calls d @ FileDialog title (GetPath fn2) (GetFullName fn2) wildcard #
         (case FileDialog_result e of
            None \<Rightarrow> []
          | Some fullpath \<Rightarrow>
              [ClearMsgPanel, CreateNetlist,
               (case CreateNetlist_result e of
                  None \<Rightarrow> MessageBox ''Schematic netlist not available''
                | Some netlist \<Rightarrow>
                    WriteNetListFile (Some netlist) (m_IdNetType (m_NoteBook d ! p)) fullpath netlist_opt),
               EndModal wxID_OK])"
      unfolding f by (simp add: Some cs_def ev_def pg_def cong: option.case_cong)
    have last: "\<exists>d6 d7. m_NoteBook d6 = m_NoteBook d \<and> m_PanelNetType d6 = m_PanelNetType d
                 \<and> m_config d6 = m_config d
                 \<and> WriteCurrentNetlistSetup d6 = Some d7
                 \<and> d' = do_call (EndModal wxID_OK) d7"
      using d6f w d'_def by blast
    show ?thesis
      using run cl f(2,3) last Some fp wc
      by (intro exI [of _ d'] exI [of _ fn2] exI [of _ wildcard])
         (simp add: fn2_def fn1_def pg_def)
  qed
qed

subsection \<open>The regular expression\<close>

lemma bt_One:
  "bt (One a # ps) s g cap = Some m \<Longrightarrow>
   \<exists>c s'. s = c # s' \<and> atom_ok a c \<and> bt ps s' g (if g then cap @ [c] else cap) = Some m"
  by (cases s) (auto split: if_splits)

lemma bt_Opt:
  "bt (Opt a # ps) s g cap = Some m \<Longrightarrow>
   (\<exists>c s'. s = c # s' \<and> atom_ok a c \<and> bt ps s' g (if g then cap @ [c] else cap) = Some m)
   \<or> bt ps s g cap = Some m"
  by (cases s) (auto split: if_splits option.splits)

lemma bt_Star:
  "bt (Star a # ps) s g cap = Some m \<Longrightarrow>
   \<exists>pre suf. s = pre @ suf \<and> bt ps suf g (if g then cap @ pre else cap) = Some m"
proof (induction s arbitrary: cap)
  case Nil
  then show ?case by auto
next
  case (Cons c s)
  show ?case
  proof (cases "atom_ok a c \<and> bt (Star a # ps) s g (if g then cap @ [c] else cap) = Some m")
    case True
    from Cons.IH [OF True [THEN conjunct2]]
    obtain pre suf where "s = pre @ suf"
      "bt ps suf g (if g then (if g then cap @ [c] else cap) @ pre else (if g then cap @ [c] else cap)) = Some m"
      by blast
    then have "c # s = (c # pre) @ suf" "bt ps suf g (if g then cap @ (c # pre) else cap) = Some m"
      by (simp_all split: if_splits)
    then show ?thesis by blast
  next
    case False
    with Cons.prems have "bt ps (c # s) g cap = Some m"
      by (auto split: if_splits option.splits)
    then have "c # s = [] @ (c # s)" "bt ps (c # s) g (if g then cap @ [] else cap) = Some m"
      by (cases g; simp)+
    then show ?thesis by blast
  qed
qed

lemma Matches_Some:
  "Matches ps s = Some m \<Longrightarrow> \<exists>pre suf. s = pre @ suf \<and> bt ps suf False [] = Some m"
proof (induction s)
  case Nil
  then show ?case by auto
next
  case (Cons c s)
  show ?case
  proof (cases "bt ps (c # s) False []")
    case None
    with Cons.prems have "Matches ps s = Some m" by simp
    from Cons.IH [OF this] obtain pre suf where "s = pre @ suf" "bt ps suf False [] = Some m"
      by blast
    then have "c # s = (c # pre) @ suf" by simp
    with \<open>bt ps suf False [] = Some m\<close> show ?thesis by blast
  next
    case (Some r)
    with Cons.prems have "bt ps (c # s) False [] = Some m" by simp
    then show ?thesis by (metis append_Nil)
  qed
qed

lemma extRE_group:
  assumes "Matches extRE s = Some m"
  shows "(length m = 3 \<or> length m = 4) \<and> list_all isalnum m
       \<and> (\<exists>pre post. s = pre @ ''.'' @ m @ ''.xsl'' @ post
            \<and> (take 1 post = [dquote] \<or> take 2 post = [CHR ''t'', dquote]))"
proof -
  from Matches_Some [OF assms] obtain p0 s0 where 0: "s = p0 @ s0" "bt extRE s0 False [] = Some m"
    by blast
  from bt_Star [OF 0(2) [unfolded extRE_def]] obtain p1 s1 where 1: "s0 = p1 @ s1"
    "bt [One (Lit CHR ''.''),
      Open, One Alnum, One Alnum, One Alnum, Opt Alnum, Close,
      One (Lit CHR ''.''), One (Lit CHR ''x''), One (Lit CHR ''s''), One (Lit CHR ''l''),
      Opt (Lit CHR ''t''), One (Lit dquote), Star AnyChar] s1 False [] = Some m"
    by auto
  from bt_One [OF 1(2)] obtain s2 where 2: "s1 = CHR ''.'' # s2"
    "bt [One Alnum, One Alnum, One Alnum, Opt Alnum, Close,
      One (Lit CHR ''.''), One (Lit CHR ''x''), One (Lit CHR ''s''), One (Lit CHR ''l''),
      Opt (Lit CHR ''t''), One (Lit dquote), Star AnyChar] s2 True [] = Some m"
    by auto
  from bt_One [OF 2(2)] obtain a s3 where 3: "s2 = a # s3" "isalnum a"
    "bt [One Alnum, One Alnum, Opt Alnum, Close,
      One (Lit CHR ''.''), One (Lit CHR ''x''), One (Lit CHR ''s''), One (Lit CHR ''l''),
      Opt (Lit CHR ''t''), One (Lit dquote), Star AnyChar] s3 True [a] = Some m"
    by auto
  from bt_One [OF 3(3)] obtain b s4 where 4: "s3 = b # s4" "isalnum b"
    "bt [One Alnum, Opt Alnum, Close,
      One (Lit CHR ''.''), One (Lit CHR ''x''), One (Lit CHR ''s''), One (Lit CHR ''l''),
      Opt (Lit CHR ''t''), One (Lit dquote), Star AnyChar] s4 True [a, b] = Some m"
    by auto
  from bt_One [OF 4(3)] obtain c s5 where 5: "s4 = c # s5" "isalnum c"
    "bt [Opt Alnum, Close,
      One (Lit CHR ''.''), One (Lit CHR ''x''), One (Lit CHR ''s''), One (Lit CHR ''l''),
      Opt (Lit CHR ''t''), One (Lit dquote), Star AnyChar] s5 True [a, b, c] = Some m"
    by auto
  let ?rest = "[One (Lit CHR ''.''), One (Lit CHR ''x''), One (Lit CHR ''s''), One (Lit CHR ''l''),
      Opt (Lit CHR ''t''), One (Lit dquote), Star AnyChar]"
  from bt_Opt [OF 5(3)] obtain g s6 where 6: "s5 = drop 3 g @ s6" "take 3 g = [a, b, c]"
    "length g = 3 \<or> length g = 4" "list_all isalnum g" "bt ?rest s6 False g = Some m"
  proof (elim disjE exE conjE)
    fix d s' assume "s5 = d # s'" "atom_ok Alnum d"
      "bt (Close # ?rest) s' True (if True then [a, b, c] @ [d] else [a, b, c]) = Some m"
    then show thesis
      using 3(2) 4(2) 5(2) by (intro that [of "[a, b, c, d]" s']) simp_all
  next
    assume "bt (Close # ?rest) s5 True [a, b, c] = Some m"
    then show thesis
      using 3(2) 4(2) 5(2) by (intro that [of "[a, b, c]" s5]) simp_all
  qed
  from bt_One [OF 6(5)] obtain s7 where 7: "s6 = CHR ''.'' # s7"
    "bt [One (Lit CHR ''x''), One (Lit CHR ''s''), One (Lit CHR ''l''),
      Opt (Lit CHR ''t''), One (Lit dquote), Star AnyChar] s7 False g = Some m"
    by auto
  from bt_One [OF 7(2)] obtain s8 where 8: "s7 = CHR ''x'' # s8"
    "bt [One (Lit CHR ''s''), One (Lit CHR ''l''),
      Opt (Lit CHR ''t''), One (Lit dquote), Star AnyChar] s8 False g = Some m"
    by auto
  from bt_One [OF 8(2)] obtain s9 where 9: "s8 = CHR ''s'' # s9"
    "bt [One (Lit CHR ''l''),
      Opt (Lit CHR ''t''), One (Lit dquote), Star AnyChar] s9 False g = Some m"
    by auto
  from bt_One [OF 9(2)] obtain s10 where 10: "s9 = CHR ''l'' # s10"
    "bt [Opt (Lit CHR ''t''), One (Lit dquote), Star AnyChar] s10 False g = Some m"
    by auto
  from bt_Opt [OF 10(2)] obtain s11 where 11:
    "take 1 s10 = [dquote] \<or> take 2 s10 = [CHR ''t'', dquote]"
    "bt [Star AnyChar] s11 False g = Some m"
  proof (elim disjE exE conjE)
    fix t s' assume t: "s10 = t # s'" "atom_ok (Lit CHR ''t'') t"
      "bt [One (Lit dquote), Star AnyChar] s' False (if False then g @ [t] else g) = Some m"
    from bt_One [OF t(3)] obtain s'' where "s' = dquote # s''"
      "bt [Star AnyChar] s'' False g = Some m" by auto
    with t(1,2) show thesis by (intro that [of s'']) simp_all
  next
    assume "bt [One (Lit dquote), Star AnyChar] s10 False g = Some m"
    from bt_One [OF this] obtain s'' where "s10 = dquote # s''"
      "bt [Star AnyChar] s'' False g = Some m" by auto
    then show thesis by (intro that [of s'']) simp_all
  qed
  from bt_Star [OF 11(2)] have m: "m = g" by auto
  have g: "g = take 3 g @ drop 3 g" by simp
  have "s = (p0 @ p1) @ ''.'' @ g @ ''.xsl'' @ s10"
    unfolding 0(1) 1(1) 2(1) 3(1) 4(1) 5(1) 6(1) 7(1) 8(1) 9(1) 10(1)
    by (subst (2) g) (simp add: 6(2))
  with 6(3,4) 11(1) m show ?thesis by blast
qed

lemma bt_Star_complete:
  "list_all (atom_ok a) pre \<Longrightarrow> bt ps suf g (if g then cap @ pre else cap) = Some m \<Longrightarrow>
   \<exists>m'. bt (Star a # ps) (pre @ suf) g cap = Some m'"
proof (induction pre arbitrary: cap)
  case Nil
  then have m: "bt ps suf g cap = Some m" by (cases g) simp_all
  show ?case
  proof (cases suf)
    case Nil
    with m show ?thesis by simp
  next
    case (Cons c s)
    with m show ?thesis by (auto split: option.splits)
  qed
next
  case (Cons c pre)
  have "bt ps suf g (if g then (if g then cap @ [c] else cap) @ pre else (if g then cap @ [c] else cap)) = Some m"
    using Cons.prems(2) by (cases g) simp_all
  from Cons.IH [OF _ this] Cons.prems(1)
  obtain m' where "bt (Star a # ps) (pre @ suf) g (if g then cap @ [c] else cap) = Some m'"
    by auto
  with Cons.prems(1) show ?case by simp
qed

lemma Matches_complete:
  "bt ps suf False [] = Some m \<Longrightarrow> \<exists>m'. Matches ps (pre @ suf) = Some m'"
proof (induction pre)
  case Nil
  then show ?case by (cases suf) auto
next
  case (Cons c pre)
  then show ?case by (auto split: option.splits)
qed

lemma not_alnum: "\<not> isalnum CHR ''.''"
  by (simp add: isalnum_def)

lemma extRE_complete:
  assumes "length g = 3 \<or> length g = 4" "list_all isalnum g" "t = [] \<or> t = ''t''"
  shows "\<exists>m. Matches extRE (pre @ ''.'' @ g @ ''.xsl'' @ t @ [dquote] @ post) = Some m"
proof -
  have any: "list_all (atom_ok AnyChar) xs" for xs by (simp add: list_all_iff)
  have "bt [] [] False (if False then g @ post else g) = Some g" by simp
  from bt_Star_complete [OF any this]
  obtain m3 where m3: "bt [Star AnyChar] post False g = Some m3" by auto
  from assms(1) consider a b c where "g = [a, b, c]" | a b c d where "g = [a, b, c, d]"
    by (auto simp: length_Suc_conv numeral_3_eq_3 numeral_eq_Suc)
  then have "\<exists>m. bt (tl extRE) (''.'' @ g @ ''.xsl'' @ t @ [dquote] @ post) False [] = Some m"
  proof cases
    case 1
    with assms(2) m3 show ?thesis
      using assms(3) by (elim disjE) (simp_all add: extRE_def not_alnum dquote_def)
  next
    case 2
    with assms(2) m3 show ?thesis
      using assms(3) by (elim disjE) (simp_all add: extRE_def not_alnum dquote_def)
  qed
  then obtain m where "bt (tl extRE) (''.'' @ g @ ''.xsl'' @ t @ [dquote] @ post) False [] = Some m"
    by blast
  then have "bt (tl extRE) (''.'' @ g @ ''.xsl'' @ t @ [dquote] @ post) False
               (if False then [] @ pre else []) = Some m" by simp
  from bt_Star_complete [OF any this]
  obtain m' where "bt extRE (pre @ ''.'' @ g @ ''.xsl'' @ t @ [dquote] @ post) False [] = Some m'"
    by (auto simp: extRE_def)
  from Matches_complete [OF this, of "[]"] show ?thesis by simp
qed

lemma extRE_sound: "Matches extRE s = Some m \<Longrightarrow> pattern_form s m"
proof -
  assume "Matches extRE s = Some m"
  from extRE_group [OF this] obtain pre post where g:
    "length m = 3 \<or> length m = 4" "list_all isalnum m" "s = pre @ ''.'' @ m @ ''.xsl'' @ post"
    "take 1 post = [dquote] \<or> take 2 post = [CHR ''t'', dquote]"
    by blast
  from g(4) obtain t post' where "post = t @ [dquote] @ post'" "t = [] \<or> t = ''t''"
  proof
    assume "take 1 post = [dquote]"
    then have "post = [] @ [dquote] @ drop 1 post"
      by (metis append_Nil append_take_drop_id)
    then show thesis by (rule that) simp
  next
    assume "take 2 post = [CHR ''t'', dquote]"
    then have "post = ''t'' @ [dquote] @ drop 2 post"
      by (metis append_Cons append_Nil append_take_drop_id)
    then show thesis by (rule that) simp
  qed
  with g(1,2,3) show ?thesis unfolding pattern_form_def by blast
qed

lemma extRE_None:
  assumes "Matches extRE s = None"
  shows "\<not> pattern_form s g"
proof
  assume "pattern_form s g"
  then obtain pre t post where f: "s = pre @ ''.'' @ g @ ''.xsl'' @ t @ [dquote] @ post"
    "length g = 3 \<or> length g = 4" "list_all isalnum g" "t = [] \<or> t = ''t''"
    unfolding pattern_form_def by blast
  from extRE_complete [OF f(2,3,4), of pre post] obtain m where "Matches extRE s = Some m"
    unfolding f(1) by blast
  with assms show False by simp
qed

lemma sample_match: "Matches extRE ''xsltproc \"p/pads.asc.xsl\"'' = Some ''asc''"
  by code_simp

subsection \<open>RunSimulator\<close>

lemma Trim_both:
  "\<exists>l r. s = l @ Trim True (Trim False s) @ r \<and> list_all wxIsspace l \<and> list_all wxIsspace r
       \<and> (Trim True (Trim False s) \<noteq> [] \<longrightarrow>
            \<not> wxIsspace (hd (Trim True (Trim False s)))
          \<and> \<not> wxIsspace (last (Trim True (Trim False s))))"
proof -
  let ?l = "takeWhile wxIsspace s"
  let ?m = "dropWhile wxIsspace s"
  let ?r = "rev (takeWhile wxIsspace (rev ?m))"
  let ?t = "rev (dropWhile wxIsspace (rev ?m))"
  have t: "Trim True (Trim False s) = ?t" by (simp add: Trim_def)
  have "rev ?m = takeWhile wxIsspace (rev ?m) @ dropWhile wxIsspace (rev ?m)" by simp
  then have "rev (rev ?m) = rev (takeWhile wxIsspace (rev ?m) @ dropWhile wxIsspace (rev ?m))"
    by simp
  then have m: "?m = ?t @ ?r" by (simp del: takeWhile_dropWhile_id)
  have s: "s = ?l @ ?t @ ?r"
    using m by (metis takeWhile_dropWhile_id)
  have l: "list_all wxIsspace ?l" "list_all wxIsspace ?r"
    by (auto simp: list_all_iff dest: set_takeWhileD)
  have e: "?t \<noteq> [] \<longrightarrow> \<not> wxIsspace (hd ?t) \<and> \<not> wxIsspace (last ?t)"
  proof
    assume ne: "?t \<noteq> []"
    then have ne': "dropWhile wxIsspace (rev ?m) \<noteq> []" by simp
    have la: "\<not> wxIsspace (last ?t)"
      using hd_dropWhile [OF ne'] ne' by (simp add: last_rev)
    have "?m \<noteq> []"
    proof
      assume e: "?m = []"
      have "?t = []" unfolding e by simp
      with ne show False by simp
    qed
    then have hm: "\<not> wxIsspace (hd ?m)" by (rule hd_dropWhile)
    have "hd ?m = hd ?t" using m ne by (metis hd_append2)
    with hm la show "\<not> wxIsspace (hd ?t) \<and> \<not> wxIsspace (last ?t)" by simp
  qed
  show ?thesis
    unfolding t using s l e by blast
qed

lemma First_split:
  "(ch \<in> set s \<longrightarrow> s = BeforeFirst ch s @ [ch] @ AfterFirst ch s)
 \<and> (ch \<notin> set s \<longrightarrow> BeforeFirst ch s = s \<and> AfterFirst ch s = [])
 \<and> ch \<notin> set (BeforeFirst ch s)"
proof (intro conjI impI)
  assume "ch \<in> set s"
  then have "dropWhile (\<lambda>c. c \<noteq> ch) s \<noteq> []" by (auto simp: dropWhile_eq_Nil_conv)
  then have "dropWhile (\<lambda>c. c \<noteq> ch) s = hd (dropWhile (\<lambda>c. c \<noteq> ch) s) # drop 1 (dropWhile (\<lambda>c. c \<noteq> ch) s)"
    by (cases "dropWhile (\<lambda>c. c \<noteq> ch) s") simp_all
  moreover have "hd (dropWhile (\<lambda>c. c \<noteq> ch) s) = ch"
    using hd_dropWhile [OF \<open>dropWhile (\<lambda>c. c \<noteq> ch) s \<noteq> []\<close>] by simp
  ultimately have "dropWhile (\<lambda>c. c \<noteq> ch) s = [ch] @ AfterFirst ch s"
    by (simp add: AfterFirst_def)
  then show "s = BeforeFirst ch s @ [ch] @ AfterFirst ch s"
    unfolding BeforeFirst_def by (metis takeWhile_dropWhile_id)
next
  assume n: "ch \<notin> set s"
  then have "\<forall>c \<in> set s. c \<noteq> ch" by blast
  then have tw: "takeWhile (\<lambda>c. c \<noteq> ch) s = s" and dw: "dropWhile (\<lambda>c. c \<noteq> ch) s = []"
    by (simp_all add: takeWhile_eq_all_conv dropWhile_eq_Nil_conv)
  show "BeforeFirst ch s = s" unfolding BeforeFirst_def by (rule tw)
  show "AfterFirst ch s = []" unfolding AfterFirst_def dw by simp
next
  show "ch \<notin> set (BeforeFirst ch s)"
    unfolding BeforeFirst_def by (auto dest: set_takeWhileD)
qed

lemma dialog_ok_selection [simp]:
  "dialog_ok x (d\<lparr>m_NoteBook_selection := sel\<rparr>) = dialog_ok x d"
  by (simp add: dialog_ok_def panels_valid_iff pages_listed_iff contiguous_def custom_ctrls_iff
      spice_ctrls_def typed_pages_def cong: option.case_cong)

lemma sample_command:
  "Trim True (Trim False '' ngspice -b '') = ''ngspice -b''"
  "BeforeFirst CHR '' '' ''ngspice -b'' = ''ngspice''"
  "AfterFirst CHR '' '' ''ngspice -b'' = ''-b''"
  by (simp_all add: Trim_def wxIsspace_def BeforeFirst_def AfterFirst_def)

subsection \<open>InvokeDialogNetList\<close>

lemma sample_gone_pages:
  "\<not> (\<exists>pg \<in> set (ctor_pages sample_decls (sample_frame\<lparr>NetListFormatName := ''Gone''\<rparr>) sample_config).
         m_IsCurrentFormat pg)"
  by (simp add: ctor_pages_def builtin_pages_def custom_page_def sample_titles_from sample_titles
      sample_frame_def Let_def)

subsection \<open>OnAddGenerator\<close>

lemma OnOKClick_ends:
  "EndModal wxID_OK \<in> set (OnOKClick g) \<longleftrightarrow> m_textCtrlCommand g \<noteq> [] \<and> m_textCtrlName g \<noteq> []"
  by (simp add: OnOKClick_def)

lemma ADD_GENERATOR_ShowModal_OK:
  "ADD_GENERATOR_ShowModal evs g = (wxID_OK, g', cs) \<Longrightarrow>
   m_textCtrlName g' \<noteq> [] \<and> m_textCtrlCommand g' \<noteq> []"
proof (induction evs g arbitrary: cs rule: ADD_GENERATOR_ShowModal.induct)
  case (5 evs g)
  show ?case
  proof (cases "EndModal wxID_OK \<in> set (OnOKClick g)")
    case True
    with "5.prems" have "g' = g" by (simp add: Let_def)
    with True show ?thesis by (simp add: OnOKClick_ends)
  next
    case False
    obtain r g1 cs1 where rest: "ADD_GENERATOR_ShowModal evs g = (r, g1, cs1)"
      by (cases "ADD_GENERATOR_ShowModal evs g") auto
    with False "5.prems" have "r = wxID_OK" "g1 = g'" by (simp_all add: Let_def)
    with "5.IH" [OF refl False, of cs1] rest show ?thesis by simp
  qed
qed simp_all

lemma OnAddGenerator_from_result:
  "panels_valid d \<Longrightarrow> contiguous d \<Longrightarrow>
   OnAddGenerator_from title ii nt d =
     Some (if title \<in> set (map m_pageNetFmtName (installed_custom d ii)) then Inl ()
           else Inr (if ii + length (installed_custom d ii) < 8
                     then PANELCUSTOMBASE + ii + length (installed_custom d ii)
                     else if installed_custom d ii = [] then nt else PANELCUSTOMBASE + 7))"
proof (induction title ii nt d rule: OnAddGenerator_from.induct)
  case (1 title ii nt d)
  show ?case
  proof (cases "ii < CUSTOMPANEL_COUNTMAX")
    case False
    then show ?thesis
      by (simp add: OnAddGenerator_from.simps [of title ii nt d] installed_custom_end
          CUSTOMPANEL_COUNTMAX_def)
  next
    case lt: True
    then have lt8: "ii < 8" by (simp add: CUSTOMPANEL_COUNTMAX_def)
    have comm: "ii + PANELCUSTOMBASE = PANELCUSTOMBASE + ii" by simp
    show ?thesis
    proof (cases "m_PanelNetType d (ii + PANELCUSTOMBASE)")
      case None
      then have "installed_custom d ii = []"
        using installed_custom_None [OF "1.prems"(2) lt8] by (simp add: comm)
      with lt lt8 None show ?thesis
        by (simp add: OnAddGenerator_from.simps [of title ii nt d])
    next
      case (Some q)
      then have Some': "m_PanelNetType d (PANELCUSTOMBASE + ii) = Some q" by (simp add: comm)
      have "q < length (m_NoteBook d)"
        using panels_validD [OF "1.prems"(1) _ Some'] lt8 by (simp add: PANELCUSTOMBASE_def)
      then have pa: "page_at d q = Some (m_NoteBook d ! q)" by (simp add: page_at_def)
      have ic: "installed_custom d ii = (m_NoteBook d ! q) # installed_custom d (ii + 1)"
        using installed_custom_Some [OF lt8 Some'] .
      have le: "length (installed_custom d (ii + 1)) \<le> 8 - (ii + 1)"
        using length_installed_custom [of d "ii + 1"] by (simp add: CUSTOMPANEL_COUNTMAX_def)
      show ?thesis
      proof (cases "m_pageNetFmtName (m_NoteBook d ! q) = title")
        case True
        with lt Some pa show ?thesis
          by (simp add: OnAddGenerator_from.simps [of title ii nt d] ic)
      next
        case False
        from "1.IH" [OF lt Some pa False "1.prems"]
        have ih: "OnAddGenerator_from title (ii + 1) (PANELCUSTOMBASE + ii) d =
           Some (if title \<in> set (map m_pageNetFmtName (installed_custom d (ii + 1))) then Inl ()
           else Inr (if ii + 1 + length (installed_custom d (ii + 1)) < 8
                     then PANELCUSTOMBASE + (ii + 1) + length (installed_custom d (ii + 1))
                     else if installed_custom d (ii + 1) = [] then PANELCUSTOMBASE + ii
                          else PANELCUSTOMBASE + 7))" .
        have "OnAddGenerator_from title ii nt d =
                OnAddGenerator_from title (ii + 1) (PANELCUSTOMBASE + ii) d"
          using lt Some pa False by (simp add: OnAddGenerator_from.simps [of title ii nt d])
        also note ih
        finally show ?thesis
          using False lt8 le unfolding ic by (auto simp add: PANELCUSTOMBASE_def)
      qed
    qed
  qed
qed

lemma contiguous_iff:
  "contiguous d \<longleftrightarrow>
     (\<forall>ii < 8. \<forall>jj < 8. m_PanelNetType d (PANELCUSTOMBASE + ii) = None \<and> ii \<le> jj \<longrightarrow>
        m_PanelNetType d (PANELCUSTOMBASE + jj) = None)"
proof
  assume c: "contiguous d"
  show "\<forall>ii < 8. \<forall>jj < 8. m_PanelNetType d (PANELCUSTOMBASE + ii) = None \<and> ii \<le> jj \<longrightarrow>
        m_PanelNetType d (PANELCUSTOMBASE + jj) = None"
    using contiguousD [OF c] by blast
next
  assume r: "\<forall>ii < 8. \<forall>jj < 8. m_PanelNetType d (PANELCUSTOMBASE + ii) = None \<and> ii \<le> jj \<longrightarrow>
        m_PanelNetType d (PANELCUSTOMBASE + jj) = None"
  show "contiguous d"
    unfolding contiguous_def list_all_iff CUSTOMPANEL_COUNTMAX_def
  proof (intro ballI impI)
    fix ii jj assume "ii \<in> set [0..<8]" "m_PanelNetType d (PANELCUSTOMBASE + ii) = None"
      "jj \<in> set [ii..<8]"
    then have "ii < 8" "jj < 8" "m_PanelNetType d (PANELCUSTOMBASE + ii) = None \<and> ii \<le> jj"
      by simp_all
    with r show "m_PanelNetType d (PANELCUSTOMBASE + jj) = None" by blast
  qed
qed

lemma spice_ctrls_iff:
  "spice_ctrls d \<longleftrightarrow>
     (\<exists>p. m_PanelNetType d PANELSPICE = Some p
        \<and> m_SpiceAjustPassiveValues (m_NoteBook d ! p) \<noteq> None
        \<and> m_CommandStringCtrl (m_NoteBook d ! p) \<noteq> None)"
  by (auto simp: spice_ctrls_def split: option.splits)

lemma installed_prefix:
  "contiguous d \<Longrightarrow> 8 - ii = n \<Longrightarrow> ii \<le> j \<Longrightarrow> j < 8 \<Longrightarrow>
   (m_PanelNetType d (PANELCUSTOMBASE + j) \<noteq> None) = (j < ii + length (installed_custom d ii))"
proof (induction n arbitrary: ii)
  case 0
  then show ?case by simp
next
  case (Suc n)
  then have lt8: "ii < 8" by simp
  show ?case
  proof (cases "m_PanelNetType d (PANELCUSTOMBASE + ii)")
    case None
    from installed_custom_None [OF Suc.prems(1) lt8 None]
      contiguousD [OF Suc.prems(1) None Suc.prems(3,4)]
    show ?thesis using Suc.prems(3) by simp
  next
    case (Some q)
    note ic = installed_custom_Some [OF lt8 Some]
    show ?thesis
    proof (cases "j = ii")
      case True
      with Some ic show ?thesis by simp
    next
      case False
      with Suc.prems have "8 - (ii + 1) = n" "ii + 1 \<le> j" by simp_all
      from Suc.IH [OF Suc.prems(1) this Suc.prems(4)] show ?thesis by (simp add: ic)
    qed
  qed
qed

text \<open>The dialog after \<open>OnAddGenerator\<close> has put a new page into \<open>m_PanelNetType\<close>.\<close>

lemma shape_added:
  assumes ok: "panels_valid d" "contiguous d" "custom_ctrls d" "spice_ctrls d"
    and slot: "slot = (if length (installed_custom d 0) < 8
                       then PANELCUSTOMBASE + length (installed_custom d 0)
                       else PANELCUSTOMBASE + 7)"
    and pg: "m_TitleStringCtrl pg \<noteq> None" "m_CommandStringCtrl pg \<noteq> None"
    and d3: "m_NoteBook d3 = m_NoteBook d @ [pg]"
      "m_PanelNetType d3 = (m_PanelNetType d)(slot := Some (length (m_NoteBook d)))"
  shows "panels_valid d3" "contiguous d3" "custom_ctrls d3" "spice_ctrls d3"
proof -
  let ?k = "length (installed_custom d 0)"
  have k8: "?k \<le> 8" using length_installed_custom [of d 0] by (simp add: CUSTOMPANEL_COUNTMAX_def)
  have pre: "\<And>j. j < 8 \<Longrightarrow> (m_PanelNetType d (PANELCUSTOMBASE + j) \<noteq> None) = (j < ?k)"
    using installed_prefix [OF ok(2), of 0 8] by simp
  have old: "\<And>ii p. ii < 12 \<Longrightarrow> m_PanelNetType d ii = Some p \<Longrightarrow>
               p < length (m_NoteBook d) \<and> m_NoteBook d3 ! p = m_NoteBook d ! p"
    using panels_validD [OF ok(1)] by (simp add: d3 nth_append)
  show "panels_valid d3"
    unfolding panels_valid_iff using old by (auto simp add: d3 less_Suc_eq)
  show "contiguous d3"
    unfolding contiguous_iff
  proof (intro allI impI)
    fix ii jj assume a: "ii < 8" "jj < 8"
      "m_PanelNetType d3 (PANELCUSTOMBASE + ii) = None \<and> ii \<le> jj"
    then have n: "PANELCUSTOMBASE + ii \<noteq> slot" "m_PanelNetType d (PANELCUSTOMBASE + ii) = None"
      by (auto simp add: d3 split: if_splits)
    then have "\<not> ii < ?k" using pre [OF a(1)] by simp
    with n(1) have "?k < ii" using k8 a(1) by (auto simp add: slot split: if_splits)
    with a have "\<not> jj < ?k" "PANELCUSTOMBASE + jj \<noteq> slot"
      by (auto simp add: slot split: if_splits)
    with pre [OF a(2)] show "m_PanelNetType d3 (PANELCUSTOMBASE + jj) = None"
      by (simp add: d3)
  qed
  show "custom_ctrls d3"
    unfolding custom_ctrls_iff
  proof (intro allI impI)
    fix ii p assume a: "ii < 8" "m_PanelNetType d3 (PANELCUSTOMBASE + ii) = Some p"
    show "m_TitleStringCtrl (m_NoteBook d3 ! p) \<noteq> None \<and> m_CommandStringCtrl (m_NoteBook d3 ! p) \<noteq> None"
    proof (cases "PANELCUSTOMBASE + ii = slot")
      case True
      with a(2) have "p = length (m_NoteBook d)" by (simp add: d3)
      with pg show ?thesis by (simp add: d3)
    next
      case False
      with a(2) have p: "m_PanelNetType d (PANELCUSTOMBASE + ii) = Some p" by (simp add: d3)
      from old [OF _ p] a(1) have "m_NoteBook d3 ! p = m_NoteBook d ! p"
        by (simp add: PANELCUSTOMBASE_def)
      with ok(3) [unfolded custom_ctrls_iff, rule_format, OF a(1) p] show ?thesis by simp
    qed
  qed
  from spice_ctrlsD [OF ok(4)]
  obtain p a c where s: "m_PanelNetType d PANELSPICE = Some p"
    "m_SpiceAjustPassiveValues (m_NoteBook d ! p) = Some a"
    "m_CommandStringCtrl (m_NoteBook d ! p) = Some c"
    by blast
  have "PANELSPICE \<noteq> slot" by (simp add: slot PANELSPICE_def PANELCUSTOMBASE_def)
  then have "m_PanelNetType d3 PANELSPICE = Some p" using s(1) by (simp add: d3)
  moreover have "m_NoteBook d3 ! p = m_NoteBook d ! p"
    using old [OF _ s(1)] by (simp add: PANELSPICE_def)
  ultimately show "spice_ctrls d3"
    unfolding spice_ctrls_iff using s(2,3) by simp
qed

lemma sample_installed:
  "map m_pageNetFmtName (installed_custom sample_dialog 0) = [''PADS'']"
  by (simp add: installed_custom_def List.map_filter_def upt_8 CUSTOMPANEL_COUNTMAX_def
      PANELCUSTOMBASE_def sample_dialog_def)

lemma sample_add_events:
  "ADD_GENERATOR_ShowModal [TypeName ''PADS'', ClickOK, TypeCommand ''x'', ClickOK]
     \<lparr>m_textCtrlName = [], m_textCtrlCommand = []\<rparr> =
   (wxID_OK, \<lparr>m_textCtrlName = ''PADS'', m_textCtrlCommand = ''x''\<rparr>,
    [MessageBox ''Error. You must provide a command String'', EndModal wxID_OK])"
  "ADD_GENERATOR_ShowModal [TypeName ''BOM'', TypeCommand ''python bom.py'', ClickOK]
     \<lparr>m_textCtrlName = [], m_textCtrlCommand = []\<rparr> =
   (wxID_OK, \<lparr>m_textCtrlName = ''BOM'', m_textCtrlCommand = ''python bom.py''\<rparr>,
    [EndModal wxID_OK])"
  by (simp_all add: OnOKClick_def)

subsection \<open>The frame and the stored slots after a handler\<close>

lemma listed_from_end: "\<not> ii < 12 \<Longrightarrow> listed_from d ii = []"
  by (simp add: listed_from_def PANELCUSTOMBASE_def CUSTOMPANEL_COUNTMAX_def List.map_filter_def)

lemma listed_from_None: "m_PanelNetType d ii = None \<Longrightarrow> listed_from d ii = []"
  by (cases "ii < 12")
     (simp_all add: listed_from_def PANELCUSTOMBASE_def CUSTOMPANEL_COUNTMAX_def
        List.map_filter_def upt_conv_Cons)

lemma listed_from_Some:
  "ii < 12 \<Longrightarrow> m_PanelNetType d ii = Some p \<Longrightarrow>
   listed_from d ii = (m_NoteBook d ! p) # listed_from d (ii + 1)"
  by (simp add: listed_from_def PANELCUSTOMBASE_def CUSTOMPANEL_COUNTMAX_def
      List.map_filter_def upt_conv_Cons)

lemma listed_from_Parent [simp]: "listed_from (d\<lparr>m_Parent := P\<rparr>) ii = listed_from d ii"
  by (simp add: listed_from_def)

lemma last_marked:
  "foldl (\<lambda>n pg. if m_IsCurrentFormat pg then m_pageNetFmtName pg else n) n0 ps =
     (if filter m_IsCurrentFormat ps = [] then n0
      else m_pageNetFmtName (last (filter m_IsCurrentFormat ps)))"
  by (induction ps rule: rev_induct) simp_all

lemma NetlistUpdateOpt_from_name:
  "panels_valid d \<Longrightarrow>
   NetlistUpdateOpt_from ii d =
     Some (d\<lparr>m_Parent := (m_Parent d)\<lparr>NetListFormatName :=
             foldl (\<lambda>n pg. if m_IsCurrentFormat pg then m_pageNetFmtName pg else n)
               (NetListFormatName (m_Parent d)) (listed_from d ii)\<rparr>\<rparr>)"
proof (induction ii d rule: NetlistUpdateOpt_from.induct)
  case (1 ii d)
  let ?f = "\<lambda>n pg. if m_IsCurrentFormat pg then m_pageNetFmtName pg else n"
  show ?case
  proof (cases "ii < PANELCUSTOMBASE + CUSTOMPANEL_COUNTMAX")
    case False
    then have "\<not> ii < 12" by (simp add: PANELCUSTOMBASE_def CUSTOMPANEL_COUNTMAX_def)
    with False show ?thesis
      by (simp add: NetlistUpdateOpt_from.simps [of ii d] listed_from_end)
  next
    case lt: True
    then have lt12: "ii < 12" by (simp add: PANELCUSTOMBASE_def CUSTOMPANEL_COUNTMAX_def)
    show ?thesis
    proof (cases "m_PanelNetType d ii")
      case None
      with lt show ?thesis
        by (simp add: NetlistUpdateOpt_from.simps [of ii d] listed_from_None)
    next
      case (Some p)
      have pv: "p < length (m_NoteBook d)"
        using panels_validD [OF "1.prems" lt12 Some] .
      then have pa: "page_at d p = Some (m_NoteBook d ! p)" by (simp add: page_at_def)
      let ?d1 = "if m_IsCurrentFormat (m_NoteBook d ! p) = True
                 then SetNetListFormatName (m_pageNetFmtName (m_NoteBook d ! p)) d else d"
      have "panels_valid ?d1"
        using "1.prems" by (simp add: panels_valid_iff SetNetListFormatName_def)
      note ih = "1.IH" [OF lt Some pa this]
      have l1: "listed_from ?d1 (ii + 1) = listed_from d (ii + 1)"
        by (simp add: SetNetListFormatName_def)
      show ?thesis
        using lt Some pa ih unfolding l1 listed_from_Some [OF lt12 Some]
        by (simp add: NetlistUpdateOpt_from.simps [of ii d] SetNetListFormatName_def)
    qed
  qed
qed

lemma NetlistUpdateOpt_frame:
  assumes "panels_valid d" "spice_ctrls d"
  shows "\<exists>s a c. m_PanelNetType d PANELSPICE = Some s
     \<and> m_SpiceAjustPassiveValues (m_NoteBook d ! s) = Some a
     \<and> m_CommandStringCtrl (m_NoteBook d ! s) = Some c
     \<and> NetlistUpdateOpt d =
         Some (d\<lparr>m_Parent := (m_Parent d)\<lparr>SpiceAjustPassiveValues := a, SimulatorCommand := c,
                                          NetListFormatName := marked_name d\<rparr>\<rparr>)"
proof -
  from spice_ctrlsD [OF assms(2)]
  obtain p a c where s: "m_PanelNetType d PANELSPICE = Some p"
    "m_SpiceAjustPassiveValues (m_NoteBook d ! p) = Some a"
    "m_CommandStringCtrl (m_NoteBook d ! p) = Some c"
    by blast
  have "p < length (m_NoteBook d)"
    using panels_validD [OF assms(1) _ s(1)] by (simp add: PANELSPICE_def)
  then have pa: "page_at d p = Some (m_NoteBook d ! p)" by (simp add: page_at_def)
  let ?d3 = "SetNetListFormatName [] (SetSimulatorCommand c (SetSpiceAjustPassiveValues a d))"
  have "panels_valid ?d3"
    using assms(1)
    by (simp add: panels_valid_iff SetNetListFormatName_def SetSimulatorCommand_def
        SetSpiceAjustPassiveValues_def)
  note r = NetlistUpdateOpt_from_name [OF this, of 0]
  have l: "listed_from ?d3 0 = listed_from d 0"
    by (simp add: SetNetListFormatName_def SetSimulatorCommand_def SetSpiceAjustPassiveValues_def)
  have "NetlistUpdateOpt d =
         Some (d\<lparr>m_Parent := (m_Parent d)\<lparr>SpiceAjustPassiveValues := a, SimulatorCommand := c,
                                          NetListFormatName := marked_name d\<rparr>\<rparr>)"
    using s pa r unfolding l last_marked
    by (simp add: NetlistUpdateOpt_def SetNetListFormatName_def SetSimulatorCommand_def
        SetSpiceAjustPassiveValues_def marked_name_def Let_def)
  with s show ?thesis by blast
qed

lemma WriteCurrentNetlistSetup_state:
  assumes "panels_valid d" "contiguous d" "custom_ctrls d" "spice_ctrls d"
  shows "\<exists>s a cmd d'.
       m_PanelNetType d PANELSPICE = Some s
     \<and> m_SpiceAjustPassiveValues (m_NoteBook d ! s) = Some a
     \<and> m_CommandStringCtrl (m_NoteBook d ! s) = Some cmd
     \<and> WriteCurrentNetlistSetup d = Some d'
     \<and> d' = d\<lparr>m_Parent := m_Parent d', m_config := m_config d'\<rparr>
     \<and> m_Parent d' = (m_Parent d)\<lparr>SpiceAjustPassiveValues := a, SimulatorCommand := cmd,
                                  NetListFormatName := marked_name d\<rparr>
     \<and> (\<forall>j < CUSTOMPANEL_COUNTMAX.
          m_config d' (key CUSTOM_NETLIST_TITLE (j + 1)) =
            Some (if j < length (titled_custom d 0)
                  then ctrl_text (m_TitleStringCtrl (titled_custom d 0 ! j)) else [])
        \<and> m_config d' (key CUSTOM_NETLIST_COMMAND (j + 1)) =
            Some (if j < length (titled_custom d 0)
                  then ctrl_text (m_CommandStringCtrl (titled_custom d 0 ! j)) else []))
     \<and> (\<forall>k. (\<forall>j < CUSTOMPANEL_COUNTMAX. k \<noteq> key CUSTOM_NETLIST_TITLE (j + 1)
                                      \<and> k \<noteq> key CUSTOM_NETLIST_COMMAND (j + 1)) \<longrightarrow>
            m_config d' k = m_config d k)"
proof -
  from WriteCurrentNetlistSetup_result [OF assms]
  obtain P c where r: "WriteCurrentNetlistSetup d = Some (d\<lparr>m_Parent := P, m_config := c\<rparr>)"
    "\<forall>j < CUSTOMPANEL_COUNTMAX.
          c (key CUSTOM_NETLIST_TITLE (j + 1)) =
            Some (if j < length (titled_custom d 0)
                  then ctrl_text (m_TitleStringCtrl (titled_custom d 0 ! j)) else [])
        \<and> c (key CUSTOM_NETLIST_COMMAND (j + 1)) =
            Some (if j < length (titled_custom d 0)
                  then ctrl_text (m_CommandStringCtrl (titled_custom d 0 ! j)) else [])"
    "\<forall>k. (\<forall>j < CUSTOMPANEL_COUNTMAX. k \<noteq> key CUSTOM_NETLIST_TITLE (j + 1)
                                      \<and> k \<noteq> key CUSTOM_NETLIST_COMMAND (j + 1)) \<longrightarrow>
            c k = m_config d k"
    "NetlistUpdateOpt d = Some (d\<lparr>m_Parent := P\<rparr>)"
    by (elim exE conjE) (rule that)
  from NetlistUpdateOpt_frame [OF assms(1,4)]
  obtain s a cmd where f: "m_PanelNetType d PANELSPICE = Some s"
    "m_SpiceAjustPassiveValues (m_NoteBook d ! s) = Some a"
    "m_CommandStringCtrl (m_NoteBook d ! s) = Some cmd"
    "NetlistUpdateOpt d =
         Some (d\<lparr>m_Parent := (m_Parent d)\<lparr>SpiceAjustPassiveValues := a, SimulatorCommand := cmd,
                                          NetListFormatName := marked_name d\<rparr>\<rparr>)"
    by (elim exE conjE) (rule that)
  let ?F = "(m_Parent d)\<lparr>SpiceAjustPassiveValues := a, SimulatorCommand := cmd,
                         NetListFormatName := marked_name d\<rparr>"
  have "d\<lparr>m_Parent := P\<rparr> = d\<lparr>m_Parent := ?F\<rparr>"
    using r(4) f(4) by simp
  then have "m_Parent (d\<lparr>m_Parent := P\<rparr>) = m_Parent (d\<lparr>m_Parent := ?F\<rparr>)"
    by (rule arg_cong)
  then have P: "P = ?F" by simp
  show ?thesis
    using f(1,2,3) r(1,2,3) unfolding P
    by (intro exI [of _ s] exI [of _ a] exI [of _ cmd]
        exI [of _ "d\<lparr>m_Parent := ?F, m_config := c\<rparr>"]) simp
qed

lemma custom_slots_valid:
  assumes "panels_valid d" "q \<in> set (custom_slots d)"
  shows "q < length (m_NoteBook d)"
proof -
  from assms(2) obtain jj where "jj < 8" "m_PanelNetType d (PANELCUSTOMBASE + jj) = Some q"
    by (auto simp: custom_slots_def List.map_filter_def CUSTOMPANEL_COUNTMAX_def)
  then show ?thesis
    using panels_validD [OF assms(1), of "PANELCUSTOMBASE + jj" q] by (simp add: PANELCUSTOMBASE_def)
qed

lemma titled_custom_slots:
  "titled_custom d 0 =
     map (\<lambda>q. m_NoteBook d ! q)
       (filter (\<lambda>q. ctrl_text (m_TitleStringCtrl (m_NoteBook d ! q)) \<noteq> []) (custom_slots d))"
  by (simp add: titled_custom_def installed_custom_def custom_slots_def filter_map comp_def)

lemma sample_pair_ok: "dialog_ok sample_decls sample_pair"
  by (auto simp add: dialog_ok_def panels_valid_def pages_listed_def contiguous_def custom_ctrls_def
      spice_ctrls_def typed_pages_def sample_pair_def sample_dialog_def PANELCUSTOMBASE_def
      CUSTOMPANEL_COUNTMAX_def PANELSPICE_def PANELPCBNEW_def upt_12 upt_8 upt_rec [of _ 8]
      upt_rec [of 0 6] upt_rec [of 1 6] upt_rec [of 2 6] upt_rec [of 3 6] upt_rec [of 4 6]
      upt_rec [of 5 6] is_custom_id_def sample_decls_def)

lemma sample_pair_kept: "kept_slots sample_pair 4 = [5]"
  by (simp add: kept_slots_def custom_slots_def List.map_filter_def upt_8
      CUSTOMPANEL_COUNTMAX_def PANELCUSTOMBASE_def sample_pair_def sample_dialog_def ctrl_text_def)

lemma sample_key_command2: "key CUSTOM_NETLIST_COMMAND (1 + 1) = ''CustomNetlistCommand2''"
  by (simp add: key_def dec_digit CUSTOM_NETLIST_COMMAND_def char_of_eq_iff)

text \<open>The frame and the configuration that \<open>GenNetlist\<close> leaves.\<close>

lemma GenNetlist_state:
  assumes ok: "dialog_ok x d" and cur: "GetCurrentPage d = Some p"
    and run: "GenNetlist x e d = Some d'"
  shows "\<exists>s a c.
       m_PanelNetType d PANELSPICE = Some s
     \<and> m_SpiceAjustPassiveValues (m_NoteBook d ! s) = Some a
     \<and> m_CommandStringCtrl (m_NoteBook d ! s) = Some c
     \<and> (FileDialog_result e = None \<longrightarrow>
          m_Parent d' = (m_Parent d)\<lparr>SpiceAjustPassiveValues := a, SimulatorCommand := c,
                                       NetListFormatName := marked_name d\<rparr>)
     \<and> (FileDialog_result e \<noteq> None \<longrightarrow>
          m_Parent d' =
            \<lparr>NetListFormatName = marked_name d, SimulatorCommand = c,
             SpiceAjustPassiveValues = a,
             NetListerCommand = ctrl_text (m_CommandStringCtrl (m_NoteBook d ! p))\<rparr>
        \<and> (\<forall>j < CUSTOMPANEL_COUNTMAX.
             m_config d' (key CUSTOM_NETLIST_TITLE (j + 1)) =
               Some (if j < length (titled_custom d 0)
                     then ctrl_text (m_TitleStringCtrl (titled_custom d 0 ! j)) else [])
           \<and> m_config d' (key CUSTOM_NETLIST_COMMAND (j + 1)) =
               Some (if j < length (titled_custom d 0)
                     then ctrl_text (m_CommandStringCtrl (titled_custom d 0 ! j)) else []))
        \<and> (\<forall>k. (\<forall>j < CUSTOMPANEL_COUNTMAX. k \<noteq> key CUSTOM_NETLIST_TITLE (j + 1)
                                         \<and> k \<noteq> key CUSTOM_NETLIST_COMMAND (j + 1)) \<longrightarrow>
               m_config d' k = m_config d k))"
proof -
  from ok have shape: "panels_valid d" "contiguous d" "custom_ctrls d" "spice_ctrls d"
    by (simp_all add: dialog_ok_def)
  have pv: "p < length (m_NoteBook d)"
    using cur by (simp add: GetCurrentPage_iff)
  define pg where "pg = m_NoteBook d ! p"
  from NetlistUpdateOpt_frame [OF shape(1,4)]
  obtain s a c where f: "m_PanelNetType d PANELSPICE = Some s"
    "m_SpiceAjustPassiveValues (m_NoteBook d ! s) = Some a"
    "m_CommandStringCtrl (m_NoteBook d ! s) = Some c"
    "NetlistUpdateOpt d =
         Some (d\<lparr>m_Parent := (m_Parent d)\<lparr>SpiceAjustPassiveValues := a, SimulatorCommand := c,
                                          NetListFormatName := marked_name d\<rparr>\<rparr>)"
    by (elim exE conjE) (rule that)
  define P1 where "P1 = (m_Parent d)\<lparr>SpiceAjustPassiveValues := a, SimulatorCommand := c,
                                     NetListFormatName := marked_name d\<rparr>"
  define d1 where "d1 = d\<lparr>m_Parent := P1\<rparr>"
  have P1: "NetlistUpdateOpt d = Some (d\<lparr>m_Parent := P1\<rparr>)"
    using f(4) by (simp add: P1_def)
  have d1: "GetCurrentPage d1 = Some p" "page_at d1 p = Some pg"
    using cur pv by (simp_all add: d1_def GetCurrentPage_iff page_at_def pg_def)
  have tp: "typed_pages x d" using ok by (simp add: dialog_ok_def)
  obtain ret aExt aWildCard where fp:
    "FilenamePrms x (m_IdNetType pg) (Some []) (Some []) = (ret, aExt, aWildCard)"
    by (cases "FilenamePrms x (m_IdNetType pg) (Some []) (Some [])") auto
  from GenNetlist_switch_Some [OF tp pv]
  obtain netlist_opt fileExt title where sw:
    "GenNetlist_switch x pg (case aExt of Some v \<Rightarrow> v | None \<Rightarrow> []) ''Save Netlist File''
       = Some (netlist_opt, fileExt, title)"
    unfolding pg_def by (metis prod_cases3)
  define fn1 where "fn1 = SetExt fileExt (RootFileName e)"
  define fn2 where "fn2 = (if GetPath fn1 = [] then SetPath (ProjectPath e) fn1 else fn1)"
  define wildcard where "wildcard = (case aWildCard of Some v \<Rightarrow> v | None \<Rightarrow> [])"
  define d2 where "d2 = do_call (FileDialog title (GetPath fn2) (GetFullName fn2) wildcard) d1"
  have fn2_eq: "(if GetPath (SetExt fileExt (RootFileName e)) = []
                 then SetPath (ProjectPath e) (SetExt fileExt (RootFileName e))
                 else SetExt fileExt (RootFileName e)) = fn2"
    by (simp add: fn2_def fn1_def)
  note evl = GenNetlist_def P1 d1 [unfolded d1_def] fp sw Let_def
  show ?thesis
  proof (cases "FileDialog_result e")
    case None
    then have "GenNetlist x e d = Some d2"
      by (simp add: evl fn2_eq d2_def d1_def wildcard_def)
    with run have "d' = d2" by simp
    then have "m_Parent d' = P1" by (simp add: d2_def d1_def do_call_def)
    with f(1,2,3) None show ?thesis
      unfolding P1_def by (intro exI [of _ s] exI [of _ a] exI [of _ c]) simp
  next
    case (Some fullpath)
    define ev where "ev = (case CreateNetlist_result e of
                  None \<Rightarrow> MessageBox ''Schematic netlist not available''
                | Some netlist \<Rightarrow>
                    WriteNetListFile (Some netlist) (m_IdNetType pg) fullpath netlist_opt)"
    define P6 where "P6 = P1\<lparr>NetListerCommand :=
                        (case m_CommandStringCtrl pg of Some v \<Rightarrow> v | None \<Rightarrow> [])\<rparr>"
    define cs where "cs = calls d @ [FileDialog title (GetPath fn2) (GetFullName fn2) wildcard,
                                     ClearMsgPanel, CreateNetlist, ev]"
    define d6 where "d6 = d\<lparr>m_Parent := P6, calls := cs\<rparr>"
    have shape6: "panels_valid d6" "contiguous d6" "custom_ctrls d6" "spice_ctrls d6"
      using shape
      by (simp_all add: d6_def panels_valid_iff contiguous_def custom_ctrls_def spice_ctrls_def
          cong: option.case_cong)
    have same6: "titled_custom d6 0 = titled_custom d 0" "marked_name d6 = marked_name d"
      by (simp_all add: d6_def titled_custom_def installed_custom_def marked_name_def
          listed_from_def)
    from WriteCurrentNetlistSetup_state [OF shape6]
    obtain s' a' c' d7 where w: "m_PanelNetType d6 PANELSPICE = Some s'"
      "m_SpiceAjustPassiveValues (m_NoteBook d6 ! s') = Some a'"
      "m_CommandStringCtrl (m_NoteBook d6 ! s') = Some c'"
      "WriteCurrentNetlistSetup d6 = Some d7"
      "m_Parent d7 = (m_Parent d6)\<lparr>SpiceAjustPassiveValues := a', SimulatorCommand := c',
                                    NetListFormatName := marked_name d6\<rparr>"
      "\<forall>j < CUSTOMPANEL_COUNTMAX.
          m_config d7 (key CUSTOM_NETLIST_TITLE (j + 1)) =
            Some (if j < length (titled_custom d6 0)
                  then ctrl_text (m_TitleStringCtrl (titled_custom d6 0 ! j)) else [])
        \<and> m_config d7 (key CUSTOM_NETLIST_COMMAND (j + 1)) =
            Some (if j < length (titled_custom d6 0)
                  then ctrl_text (m_CommandStringCtrl (titled_custom d6 0 ! j)) else [])"
      "\<forall>k. (\<forall>j < CUSTOMPANEL_COUNTMAX. k \<noteq> key CUSTOM_NETLIST_TITLE (j + 1)
                                      \<and> k \<noteq> key CUSTOM_NETLIST_COMMAND (j + 1)) \<longrightarrow>
            m_config d7 k = m_config d6 k"
      by (elim exE conjE) (rule that)
    have sac: "s' = s" "a' = a" "c' = c"
      using w(1,2,3) f(1,2,3) by (simp_all add: d6_def)
    have "GenNetlist x e d = Some (do_call (EndModal wxID_OK) d7)"
      using w(4) unfolding d6_def cs_def P6_def ev_def
      by (cases "CreateNetlist_result e"; cases "m_CommandStringCtrl pg")
         (simp_all add: evl Some fn2_eq do_call_def SetNetListerCommand_def wildcard_def)
    with run have d': "d' = do_call (EndModal wxID_OK) d7" by simp
    have par: "m_Parent d' =
            \<lparr>NetListFormatName = marked_name d, SimulatorCommand = c,
             SpiceAjustPassiveValues = a,
             NetListerCommand = ctrl_text (m_CommandStringCtrl (m_NoteBook d ! p))\<rparr>"
      unfolding d' using w(5) unfolding sac same6
      by (simp add: do_call_def d6_def P6_def P1_def ctrl_text_def pg_def)
    have cfg: "m_config d' = m_config d7" by (simp add: d' do_call_def)
    have c6: "m_config d6 = m_config d" by (simp add: d6_def)
    show ?thesis
      using f(1,2,3) Some par w(6,7) unfolding cfg same6 c6
      by (intro exI [of _ s] exI [of _ a] exI [of _ c]) simp
  qed
qed

lemma sample_switch:
  "GenNetlist_switch sample_decls (m_NoteBook sample_dialog ! 4)
     (case fst (snd (FilenamePrms sample_decls (m_IdNetType (m_NoteBook sample_dialog ! 4))
                       (Some []) (Some [])))
      of Some v \<Rightarrow> v | None \<Rightarrow> [])
     ''Save Netlist File'' = Some (0, ''asc'', ''PADS Export'')"
proof -
  have "m_IdNetType (m_NoteBook sample_dialog ! 4) = 5"
    "m_CommandStringCtrl (m_NoteBook sample_dialog ! 4) = Some ''xsltproc \"p/pads.asc.xsl\"''"
    "m_TitleStringCtrl (m_NoteBook sample_dialog ! 4) = Some ''PADS''"
    by (simp_all add: sample_dialog_def)
  then show ?thesis
    by (simp add: GenNetlist_switch_def FilenamePrms_def sample_match sample_decls_def Let_def
        del: Matches.simps)
qed

lemma sample_dialog_titled:
  "titled_custom sample_dialog 0 = [m_NoteBook sample_dialog ! 4]"
  by (simp add: titled_custom_def installed_custom_def List.map_filter_def upt_8
      CUSTOMPANEL_COUNTMAX_def PANELCUSTOMBASE_def sample_dialog_def ctrl_text_def)

lemma sample_dialog_marked: "marked_name sample_dialog = ''PADS''"
  by (simp add: marked_name_def listed_from_def PANELCUSTOMBASE_def CUSTOMPANEL_COUNTMAX_def
      upt_12 List.map_filter_def sample_dialog_def)

lemma one_marked:
  assumes "p < length N" "\<forall>q < length N. P (N ! q) = (q = p)"
  shows "length (filter P N) = 1"
proof -
  have "{i. i < length N \<and> P (N ! i)} = {p}"
    using assms by auto
  then show ?thesis by (simp add: length_filter_conv_card)
qed

lemma ctor_pages_names:
  "map m_pageNetFmtName (ctor_pages x parent cfg) =
     [''Pcbnew'', ''OrcadPCB2'', ''CadStar'', ''Spice''] @
     map (stored_title cfg) [0..<titles_from cfg 0]"
  by (simp add: ctor_pages_def builtin_pages_def custom_page_def Let_def comp_def)

section \<open>Properties\<close>

text \<open>
  C6. \<open>FilenamePrms\<close> returns true and a fixed extension for each built-in format:
  \<open>cir\<close> for \<open>NET_TYPE_SPICE\<close>, \<open>frp\<close> for \<open>NET_TYPE_CADSTAR\<close>, the standard netlist
  extension for \<open>NET_TYPE_PCBNEW\<close> and \<open>NET_TYPE_ORCADPCB2\<close>. For every other type id it
  returns false, assigns the all-files wildcard and leaves the extension empty.
\<close>

theorem FilenamePrms_formats:
  assumes "builtin_ids_distinct x"
  shows "FilenamePrms x (NET_TYPE_SPICE x) (Some e) (Some w) =
           (True, Some ''cir'', Some (SpiceNetlistFileWildcard x))
       \<and> FilenamePrms x (NET_TYPE_CADSTAR x) (Some e) (Some w) =
           (True, Some ''frp'', Some (CadstarNetlistFileWildcard x))
       \<and> FilenamePrms x (NET_TYPE_PCBNEW x) (Some e) (Some w) =
           (True, Some (NetlistFileExtension x), Some (NetlistFileWildcard x))
       \<and> FilenamePrms x (NET_TYPE_ORCADPCB2 x) (Some e) (Some w) =
           (True, Some (NetlistFileExtension x), Some (NetlistFileWildcard x))
       \<and> (\<forall>i. is_custom_id x i \<longrightarrow>
            FilenamePrms x i (Some e) (Some w) = (False, Some [], Some (AllFilesWildcard x)))"
  using assms by (simp add: FilenamePrms_def builtin_ids_distinct_def is_custom_id_def)

theorem FilenamePrms_formats_witness:
  "builtin_ids_distinct sample_decls
   \<and> is_custom_id sample_decls 7
   \<and> FilenamePrms sample_decls 4 (Some ''x'') (Some ''y'') = (True, Some ''cir'', Some ''*.cir'')
   \<and> FilenamePrms sample_decls 3 (Some ''x'') (Some ''y'') = (True, Some ''frp'', Some ''*.frp'')
   \<and> FilenamePrms sample_decls 1 (Some ''x'') (Some ''y'') = (True, Some ''net'', Some ''*.net'')
   \<and> FilenamePrms sample_decls 2 (Some ''x'') (Some ''y'') = (True, Some ''net'', Some ''*.net'')
   \<and> FilenamePrms sample_decls 7 (Some ''x'') (Some ''y'') = (False, Some [], Some ''*'')"
proof -
  have d: "builtin_ids_distinct sample_decls"
    by (simp add: builtin_ids_distinct_def sample_decls_def)
  have c: "is_custom_id sample_decls 7"
    by (simp add: is_custom_id_def sample_decls_def)
  from FilenamePrms_formats [OF d, of "''x''" "''y''"] c d show ?thesis
    by (simp add: sample_decls_def)
qed

text \<open>
  C3. \<open>InstallCustomPages\<close> reads the stored titles in slot order and installs one
  custom page per slot, with the type id \<open>NET_TYPE_CUSTOM1\<close> plus the slot index, in
  \<open>m_PanelNetType[PANELCUSTOMBASE + index]\<close>. It stops at the first slot whose stored
  title is empty: \<open>titles_from cfg 0\<close> is the number of slots before that one, at
  most \<open>CUSTOMPANEL_COUNTMAX\<close>, and exactly that many pages are added; the entries of
  \<open>m_PanelNetType\<close> from that slot on are left as they were.
\<close>

theorem InstallCustomPages_slots:
  "\<exists>d'. InstallCustomPages x d = Some d'
     \<and> titles_from (m_config d) 0 \<le> CUSTOMPANEL_COUNTMAX
     \<and> (\<forall>i < titles_from (m_config d) 0. stored_title (m_config d) i \<noteq> [])
     \<and> (titles_from (m_config d) 0 < CUSTOMPANEL_COUNTMAX \<longrightarrow>
          stored_title (m_config d) (titles_from (m_config d) 0) = [])
     \<and> m_NoteBook d' = m_NoteBook d @
          map (custom_page x (m_DefaultNetFmtName d) (m_config d)) [0..<titles_from (m_config d) 0]
     \<and> (\<forall>i < titles_from (m_config d) 0.
          m_IdNetType (m_NoteBook d' ! (length (m_NoteBook d) + i)) = NET_TYPE_CUSTOM1 x + int i
        \<and> m_pageNetFmtName (m_NoteBook d' ! (length (m_NoteBook d) + i)) = stored_title (m_config d) i)
     \<and> (\<forall>ii < CUSTOMPANEL_COUNTMAX.
          m_PanelNetType d' (PANELCUSTOMBASE + ii) =
            (if ii < titles_from (m_config d) 0 then Some (length (m_NoteBook d) + ii)
             else m_PanelNetType d (PANELCUSTOMBASE + ii)))
     \<and> m_config d' = m_config d"
proof -
  let ?c = "m_config d"
  let ?n = "titles_from ?c 0"
  from InstallCustomPages_from_result [of 0 d x]
  obtain d' where r: "InstallCustomPages_from x 0 d = Some d'"
    and nb: "m_NoteBook d' = m_NoteBook d @
           map (custom_page x (m_DefaultNetFmtName d) ?c) [0..<0 + ?n]"
    and pn: "m_PanelNetType d' =
           (\<lambda>j. if PANELCUSTOMBASE + 0 \<le> j \<and> j < PANELCUSTOMBASE + 0 + ?n
                then Some (length (m_NoteBook d) + (j - (PANELCUSTOMBASE + 0)))
                else m_PanelNetType d j)"
    and cf: "m_config d' = ?c"
    by blast
  have le: "?n \<le> CUSTOMPANEL_COUNTMAX"
    using titles_from_le [of 0 ?c] by simp
  have tw: "takeWhile (\<lambda>i. stored_title ?c i \<noteq> []) [0..<CUSTOMPANEL_COUNTMAX] = [0..<?n]"
  proof -
    have "takeWhile (\<lambda>i. stored_title ?c i \<noteq> []) [0..<CUSTOMPANEL_COUNTMAX] =
            take ?n [0..<CUSTOMPANEL_COUNTMAX]"
      unfolding titles_from_def by (rule takeWhile_eq_take)
    then show ?thesis using le by (simp add: take_upt)
  qed
  have ne: "\<forall>i < ?n. stored_title ?c i \<noteq> []"
  proof (intro allI impI)
    fix i assume "i < ?n"
    then have "i \<in> set (takeWhile (\<lambda>i. stored_title ?c i \<noteq> []) [0..<CUSTOMPANEL_COUNTMAX])"
      unfolding tw by simp
    then show "stored_title ?c i \<noteq> []" by (rule set_takeWhileD [THEN conjunct2])
  qed
  have stop: "?n < CUSTOMPANEL_COUNTMAX \<longrightarrow> stored_title ?c ?n = []"
  proof
    assume lt: "?n < CUSTOMPANEL_COUNTMAX"
    have "\<not> stored_title ?c ([0..<CUSTOMPANEL_COUNTMAX] ! ?n) \<noteq> []"
      unfolding titles_from_def
      by (rule nth_length_takeWhile) (use lt in \<open>simp add: titles_from_def\<close>)
    then show "stored_title ?c ?n = []" using lt by simp
  qed
  have ids: "\<forall>i < ?n.
          m_IdNetType (m_NoteBook d' ! (length (m_NoteBook d) + i)) = NET_TYPE_CUSTOM1 x + int i
        \<and> m_pageNetFmtName (m_NoteBook d' ! (length (m_NoteBook d) + i)) = stored_title ?c i"
    by (simp add: nb custom_page_def)
  have pns: "\<forall>ii < CUSTOMPANEL_COUNTMAX.
          m_PanelNetType d' (PANELCUSTOMBASE + ii) =
            (if ii < ?n then Some (length (m_NoteBook d) + ii)
             else m_PanelNetType d (PANELCUSTOMBASE + ii))"
    by (simp add: pn)
  show ?thesis
    using r nb cf le ne stop ids pns unfolding InstallCustomPages_def by simp
qed

theorem InstallCustomPages_slots_witness:
  "\<exists>d'. InstallCustomPages sample_decls sample_empty = Some d'
     \<and> m_NoteBook d' =
         [\<lparr>m_IdNetType = 5, m_IsCurrentFormat = True, m_SpiceAjustPassiveValues = None,
           m_CommandStringCtrl = Some ''xsltproc \"p/pads.asc.xsl\"'',
           m_TitleStringCtrl = Some ''PADS'', m_pageNetFmtName = ''PADS''\<rparr>]
     \<and> m_PanelNetType d' 4 = Some 0
     \<and> m_PanelNetType d' 5 = None
     \<and> m_PanelNetType d' 6 = None"
proof -
  have c: "m_config sample_empty = sample_config" "m_NoteBook sample_empty = []"
    "m_DefaultNetFmtName sample_empty = ''PADS''" "m_PanelNetType sample_empty = (\<lambda>ii. None)"
    by (simp_all add: sample_empty_def)
  from InstallCustomPages_slots [of sample_decls sample_empty]
  obtain d' where r: "InstallCustomPages sample_decls sample_empty = Some d'"
    and nb: "m_NoteBook d' = m_NoteBook sample_empty @
          map (custom_page sample_decls (m_DefaultNetFmtName sample_empty) (m_config sample_empty))
            [0..<titles_from (m_config sample_empty) 0]"
    and pn: "\<forall>ii < CUSTOMPANEL_COUNTMAX.
          m_PanelNetType d' (PANELCUSTOMBASE + ii) =
            (if ii < titles_from (m_config sample_empty) 0 then Some (length (m_NoteBook sample_empty) + ii)
             else m_PanelNetType sample_empty (PANELCUSTOMBASE + ii))"
    by blast
  from pn [rule_format, of 0] pn [rule_format, of 1] pn [rule_format, of 2]
  have "m_PanelNetType d' (PANELCUSTOMBASE + 0) = Some 0"
    "m_PanelNetType d' (PANELCUSTOMBASE + 1) = None" "m_PanelNetType d' (PANELCUSTOMBASE + 2) = None"
    by (simp_all add: c sample_titles_from CUSTOMPANEL_COUNTMAX_def)
  then show ?thesis
    using r nb
    by (simp add: c sample_titles_from custom_page_def sample_titles sample_decls_def
        PANELCUSTOMBASE_def)
qed

text \<open>
  C4. After the constructor of the dialog at least one page has its "Default format"
  check box set: every page whose name is the stored default format, or the Pcbnew page
  alone when no page has that name; that is exactly one page when the names of the
  pages differ from each other. The pages are those of the four fixed formats and of the
  stored titles. Whenever \<open>SelectDefaultNetlistType\<close> runs with a current page, the check
  box of every page is cleared, that of the current page is set, so exactly one page is
  marked, and \<open>m_DefaultNetFmtName\<close> and the format name of the parent frame become the
  name of the current page.
\<close>

theorem default_format_marked:
  "(\<exists>d. NETLIST_DIALOG_ctor x parent cfg idx = Some d
      \<and> map m_pageNetFmtName (m_NoteBook d) =
          [''Pcbnew'', ''OrcadPCB2'', ''CadStar'', ''Spice''] @
          map (stored_title cfg) [0..<titles_from cfg 0]
      \<and> m_PanelNetType d = (\<lambda>j. if j < 4 + titles_from cfg 0 then Some j else None)
      \<and> list_ex m_IsCurrentFormat (m_NoteBook d)
      \<and> m_PanelNetType d PANELPCBNEW = Some 0
      \<and> m_pageNetFmtName (m_NoteBook d ! 0) = ''Pcbnew''
      \<and> (\<forall>q < length (m_NoteBook d).
            m_IsCurrentFormat (m_NoteBook d ! q) =
              (m_pageNetFmtName (m_NoteBook d ! q) = NetListFormatName parent
               \<or> (q = 0 \<and> \<not> list_ex (\<lambda>pg. m_pageNetFmtName pg = NetListFormatName parent)
                                 (m_NoteBook d))))
      \<and> (distinct (map m_pageNetFmtName (m_NoteBook d)) \<longrightarrow>
            length (filter m_IsCurrentFormat (m_NoteBook d)) = 1))
   \<and> (panels_valid dlg \<and> pages_listed dlg \<and> GetCurrentPage dlg = Some p \<longrightarrow>
       (\<exists>dlg'. SelectDefaultNetlistType dlg = Some dlg'
          \<and> length (m_NoteBook dlg') = length (m_NoteBook dlg)
          \<and> (\<forall>q < length (m_NoteBook dlg).
                m_NoteBook dlg' ! q = (m_NoteBook dlg ! q)\<lparr>m_IsCurrentFormat := (q = p)\<rparr>)
          \<and> length (filter m_IsCurrentFormat (m_NoteBook dlg')) = 1
          \<and> m_DefaultNetFmtName dlg' = m_pageNetFmtName (m_NoteBook dlg ! p)
          \<and> NetListFormatName (m_Parent dlg') = m_pageNetFmtName (m_NoteBook dlg ! p)))"
proof (intro conjI impI)
  let ?P = "ctor_pages x parent cfg"
  let ?deflt = "NetListFormatName parent"
  from ctor_result [of x parent cfg idx]
  obtain d where c: "NETLIST_DIALOG_ctor x parent cfg idx = Some d"
    and nb: "m_NoteBook d =
         (if \<exists>pg \<in> set ?P. m_IsCurrentFormat pg then ?P
          else ?P[0 := (?P ! 0)\<lparr>m_IsCurrentFormat := True\<rparr>])"
    and pn: "m_PanelNetType d = (\<lambda>j. if j < 4 + titles_from cfg 0 then Some j else None)"
    by blast
  have len: "0 < length ?P" by simp
  have p0: "m_pageNetFmtName (?P ! 0) = ''Pcbnew''"
    by (simp add: ctor_pages_def builtin_pages_def Let_def)
  have chk: "\<And>q. q < length ?P \<Longrightarrow>
               m_IsCurrentFormat (?P ! q) = (m_pageNetFmtName (?P ! q) = ?deflt)"
    by (rule ctor_pages_checked [of _ x parent cfg]) simp
  have names: "\<And>q. q < length ?P \<Longrightarrow> m_pageNetFmtName (m_NoteBook d ! q) = m_pageNetFmtName (?P ! q)"
    unfolding nb by (simp add: nth_list_update)
  have lend: "length (m_NoteBook d) = length ?P"
    unfolding nb by simp
  have nm: "map m_pageNetFmtName (m_NoteBook d) =
          [''Pcbnew'', ''OrcadPCB2'', ''CadStar'', ''Spice''] @
          map (stored_title cfg) [0..<titles_from cfg 0]"
  proof -
    have "map m_pageNetFmtName (m_NoteBook d) = map m_pageNetFmtName ?P"
      using names lend by (intro nth_equalityI) simp_all
    then show ?thesis unfolding ctor_pages_names .
  qed
  have ex: "list_ex (\<lambda>pg. m_pageNetFmtName pg = ?deflt) (m_NoteBook d) =
              (\<exists>pg \<in> set ?P. m_IsCurrentFormat pg)"
  proof -
    have "list_ex (\<lambda>pg. m_pageNetFmtName pg = ?deflt) (m_NoteBook d) =
            (\<exists>q < length ?P. m_pageNetFmtName (m_NoteBook d ! q) = ?deflt)"
      by (simp add: list_ex_length lend)
    also have "\<dots> = (\<exists>q < length ?P. m_IsCurrentFormat (?P ! q))"
      using names chk by auto
    also have "\<dots> = (\<exists>pg \<in> set ?P. m_IsCurrentFormat pg)"
      by (metis in_set_conv_nth)
    finally show ?thesis .
  qed
  have all: "\<forall>q < length (m_NoteBook d).
            m_IsCurrentFormat (m_NoteBook d ! q) =
              (m_pageNetFmtName (m_NoteBook d ! q) = ?deflt
               \<or> (q = 0 \<and> \<not> list_ex (\<lambda>pg. m_pageNetFmtName pg = ?deflt) (m_NoteBook d)))"
  proof (intro allI impI)
    fix q assume "q < length (m_NoteBook d)"
    then have q: "q < length ?P" by (simp add: lend)
    show "m_IsCurrentFormat (m_NoteBook d ! q) =
              (m_pageNetFmtName (m_NoteBook d ! q) = ?deflt
               \<or> (q = 0 \<and> \<not> list_ex (\<lambda>pg. m_pageNetFmtName pg = ?deflt) (m_NoteBook d)))"
      unfolding ex names [OF q]
      using chk [OF q] q unfolding nb by (auto simp add: nth_list_update)
  qed
  have some: "list_ex m_IsCurrentFormat (m_NoteBook d)"
  proof (cases "\<exists>pg \<in> set ?P. m_IsCurrentFormat pg")
    case True
    then show ?thesis unfolding nb by (simp add: list_ex_iff)
  next
    case False
    then have "m_IsCurrentFormat (m_NoteBook d ! 0)" "0 < length (m_NoteBook d)"
      unfolding nb by simp_all
    then show ?thesis unfolding list_ex_length by blast
  qed
  have one: "distinct (map m_pageNetFmtName (m_NoteBook d)) \<longrightarrow>
            length (filter m_IsCurrentFormat (m_NoteBook d)) = 1"
  proof
    assume dist: "distinct (map m_pageNetFmtName (m_NoteBook d))"
    let ?N = "m_NoteBook d"
    have "\<exists>p < length ?N. \<forall>q < length ?N. m_IsCurrentFormat (?N ! q) = (q = p)"
    proof (cases "list_ex (\<lambda>pg. m_pageNetFmtName pg = ?deflt) ?N")
      case True
      then obtain p where p: "p < length ?N" "m_pageNetFmtName (?N ! p) = ?deflt"
        unfolding list_ex_length by blast
      have "\<forall>q < length ?N. m_IsCurrentFormat (?N ! q) = (q = p)"
      proof (intro allI impI)
        fix q assume q: "q < length ?N"
        have "(m_pageNetFmtName (?N ! q) = ?deflt) = (q = p)"
          using nth_eq_iff_index_eq [OF dist, of q p] p q by auto
        with all q True show "m_IsCurrentFormat (?N ! q) = (q = p)" by simp
      qed
      with p(1) show ?thesis by blast
    next
      case False
      then have "\<forall>q < length ?N. m_pageNetFmtName (?N ! q) \<noteq> ?deflt"
        unfolding list_ex_length by blast
      with all False have "\<forall>q < length ?N. m_IsCurrentFormat (?N ! q) = (q = 0)" by simp
      moreover have "0 < length ?N" using lend by simp
      ultimately show ?thesis by blast
    qed
    then obtain p where "p < length ?N" "\<forall>q < length ?N. m_IsCurrentFormat (?N ! q) = (q = p)"
      by blast
    then show "length (filter m_IsCurrentFormat ?N) = 1" by (rule one_marked)
  qed
  show "\<exists>d. NETLIST_DIALOG_ctor x parent cfg idx = Some d
      \<and> map m_pageNetFmtName (m_NoteBook d) =
          [''Pcbnew'', ''OrcadPCB2'', ''CadStar'', ''Spice''] @
          map (stored_title cfg) [0..<titles_from cfg 0]
      \<and> m_PanelNetType d = (\<lambda>j. if j < 4 + titles_from cfg 0 then Some j else None)
      \<and> list_ex m_IsCurrentFormat (m_NoteBook d)
      \<and> m_PanelNetType d PANELPCBNEW = Some 0
      \<and> m_pageNetFmtName (m_NoteBook d ! 0) = ''Pcbnew''
      \<and> (\<forall>q < length (m_NoteBook d).
            m_IsCurrentFormat (m_NoteBook d ! q) =
              (m_pageNetFmtName (m_NoteBook d ! q) = ?deflt
               \<or> (q = 0 \<and> \<not> list_ex (\<lambda>pg. m_pageNetFmtName pg = ?deflt) (m_NoteBook d))))
      \<and> (distinct (map m_pageNetFmtName (m_NoteBook d)) \<longrightarrow>
            length (filter m_IsCurrentFormat (m_NoteBook d)) = 1)"
  proof (intro exI [of _ d] conjI)
    show "m_PanelNetType d PANELPCBNEW = Some 0" by (simp add: pn PANELPCBNEW_def)
    show "m_pageNetFmtName (m_NoteBook d ! 0) = ''Pcbnew''" using names [OF len] p0 by simp
  qed (rule c nm pn some all one)+
next
  assume a: "panels_valid dlg \<and> pages_listed dlg \<and> GetCurrentPage dlg = Some p"
  then have pv: "panels_valid dlg" and pl: "pages_listed dlg" and cur: "GetCurrentPage dlg = Some p"
    by simp_all
  have p: "p < length (m_NoteBook dlg)" "m_NoteBook_selection dlg = Some p"
    using cur by (auto simp: GetCurrentPage_def split: option.splits if_splits)
  from SelectDefaultNetlistType_from_result [OF pv, of 0]
  obtain N where N: "SelectDefaultNetlistType_from 0 dlg = Some (dlg\<lparr>m_NoteBook := N\<rparr>)"
    "length N = length (m_NoteBook dlg)"
    "\<forall>q < length N.
          N ! q = (if \<exists>jj. 0 \<le> jj \<and> jj < 12 \<and> m_PanelNetType dlg jj = Some q
                   then (m_NoteBook dlg ! q)\<lparr>m_IsCurrentFormat := False\<rparr>
                   else m_NoteBook dlg ! q)"
    by blast
  have cleared: "\<And>q. q < length N \<Longrightarrow> N ! q = (m_NoteBook dlg ! q)\<lparr>m_IsCurrentFormat := False\<rparr>"
    using N(2,3) pl unfolding pages_listed_iff by auto
  let ?name = "m_pageNetFmtName (m_NoteBook dlg ! p)"
  let ?d' = "dlg\<lparr>m_NoteBook := N[p := (N ! p)\<lparr>m_IsCurrentFormat := True\<rparr>],
                 m_DefaultNetFmtName := ?name,
                 m_Parent := (m_Parent dlg)\<lparr>NetListFormatName := ?name\<rparr>\<rparr>"
  have run: "SelectDefaultNetlistType dlg = Some ?d'"
    using p N(2) cleared [of p]
    by (simp add: SelectDefaultNetlistType_def N(1) GetCurrentPage_def page_at_def
        SetNetListFormatName_def upd_page_def)
  have pages: "\<forall>q < length (m_NoteBook dlg).
                m_NoteBook ?d' ! q = (m_NoteBook dlg ! q)\<lparr>m_IsCurrentFormat := (q = p)\<rparr>"
  proof (intro allI impI)
    fix q assume q: "q < length (m_NoteBook dlg)"
    then have "q < length N" "p < length N" using N(2) p by simp_all
    then show "m_NoteBook ?d' ! q = (m_NoteBook dlg ! q)\<lparr>m_IsCurrentFormat := (q = p)\<rparr>"
      by (cases "q = p") (simp_all add: cleared)
  qed
  have lend: "length (m_NoteBook ?d') = length (m_NoteBook dlg)"
    using N(2) by simp
  have one: "length (filter m_IsCurrentFormat (m_NoteBook ?d')) = 1"
  proof (rule one_marked [of p])
    show "p < length (m_NoteBook ?d')" using p(1) lend by simp
    show "\<forall>q < length (m_NoteBook ?d'). m_IsCurrentFormat (m_NoteBook ?d' ! q) = (q = p)"
      using pages unfolding lend by simp
  qed
  show "\<exists>dlg'. SelectDefaultNetlistType dlg = Some dlg'
          \<and> length (m_NoteBook dlg') = length (m_NoteBook dlg)
          \<and> (\<forall>q < length (m_NoteBook dlg).
                m_NoteBook dlg' ! q = (m_NoteBook dlg ! q)\<lparr>m_IsCurrentFormat := (q = p)\<rparr>)
          \<and> length (filter m_IsCurrentFormat (m_NoteBook dlg')) = 1
          \<and> m_DefaultNetFmtName dlg' = m_pageNetFmtName (m_NoteBook dlg ! p)
          \<and> NetListFormatName (m_Parent dlg') = m_pageNetFmtName (m_NoteBook dlg ! p)"
    using run pages lend one by (intro exI [of _ ?d'] conjI) simp_all
qed

theorem default_format_marked_witness:
  "panels_valid (sample_dialog\<lparr>m_NoteBook_selection := Some 3\<rparr>)
   \<and> pages_listed (sample_dialog\<lparr>m_NoteBook_selection := Some 3\<rparr>)
   \<and> GetCurrentPage (sample_dialog\<lparr>m_NoteBook_selection := Some 3\<rparr>) = Some 3
   \<and> map m_IsCurrentFormat (m_NoteBook sample_dialog) = [False, False, False, False, True]
   \<and> (\<exists>dlg'. SelectDefaultNetlistType (sample_dialog\<lparr>m_NoteBook_selection := Some 3\<rparr>) = Some dlg'
         \<and> map m_IsCurrentFormat (m_NoteBook dlg') = [False, False, False, True, False]
         \<and> length (filter m_IsCurrentFormat (m_NoteBook dlg')) = 1
         \<and> m_DefaultNetFmtName dlg' = ''Spice''
         \<and> NetListFormatName (m_Parent dlg') = ''Spice'')
   \<and> (\<exists>d. NETLIST_DIALOG_ctor sample_decls sample_frame sample_config 0 = Some d
         \<and> map m_pageNetFmtName (m_NoteBook d) =
             [''Pcbnew'', ''OrcadPCB2'', ''CadStar'', ''Spice'', ''PADS'']
         \<and> distinct (map m_pageNetFmtName (m_NoteBook d))
         \<and> m_IsCurrentFormat (m_NoteBook d ! 4)
         \<and> length (filter m_IsCurrentFormat (m_NoteBook d)) = 1)"
proof -
  let ?D = "sample_dialog\<lparr>m_NoteBook_selection := Some 3\<rparr>"
  have ok: "panels_valid ?D" "pages_listed ?D"
    using sample_dialog_ok by (simp_all add: dialog_ok_def panels_valid_iff pages_listed_iff)
  have cur: "GetCurrentPage ?D = Some 3"
    by (simp add: GetCurrentPage_def sample_dialog_def)
  have nb: "length (m_NoteBook ?D) = 5"
    "map m_IsCurrentFormat (m_NoteBook sample_dialog) = [False, False, False, False, True]"
    "m_pageNetFmtName (m_NoteBook ?D ! 3) = ''Spice''"
    by (simp_all add: sample_dialog_def)
  note th = default_format_marked [of sample_decls sample_frame sample_config 0 ?D 3]
  from th ok cur
  have "\<exists>dlg'. SelectDefaultNetlistType ?D = Some dlg'
          \<and> length (m_NoteBook dlg') = length (m_NoteBook ?D)
          \<and> (\<forall>q < length (m_NoteBook ?D).
                m_NoteBook dlg' ! q = (m_NoteBook ?D ! q)\<lparr>m_IsCurrentFormat := (q = 3)\<rparr>)
          \<and> length (filter m_IsCurrentFormat (m_NoteBook dlg')) = 1
          \<and> m_DefaultNetFmtName dlg' = m_pageNetFmtName (m_NoteBook ?D ! 3)
          \<and> NetListFormatName (m_Parent dlg') = m_pageNetFmtName (m_NoteBook ?D ! 3)"
    by (elim conjE impE) (intro conjI, assumption+)
  then obtain dlg' where r: "SelectDefaultNetlistType ?D = Some dlg'"
    "length (m_NoteBook dlg') = length (m_NoteBook ?D)"
    "\<forall>q < length (m_NoteBook ?D).
        m_NoteBook dlg' ! q = (m_NoteBook ?D ! q)\<lparr>m_IsCurrentFormat := (q = 3)\<rparr>"
    "length (filter m_IsCurrentFormat (m_NoteBook dlg')) = 1"
    "m_DefaultNetFmtName dlg' = m_pageNetFmtName (m_NoteBook ?D ! 3)"
    "NetListFormatName (m_Parent dlg') = m_pageNetFmtName (m_NoteBook ?D ! 3)"
    by (elim exE conjE) (rule that)
  have marks: "map m_IsCurrentFormat (m_NoteBook dlg') = [False, False, False, True, False]"
  proof (rule nth_equalityI)
    show "length (map m_IsCurrentFormat (m_NoteBook dlg')) =
            length [False, False, False, True, False]"
      using r(2) nb(1) by simp
  next
    fix q assume "q < length (map m_IsCurrentFormat (m_NoteBook dlg'))"
    then have q: "q < 5" using r(2) nb(1) by simp
    then consider "q = 0" | "q = 1" | "q = 2" | "q = 3" | "q = 4" by linarith
    then show "map m_IsCurrentFormat (m_NoteBook dlg') ! q =
                 [False, False, False, True, False] ! q"
      using r(3) [rule_format, of q] r(2) unfolding nb(1) by cases simp_all
  qed
  from th obtain d where c: "NETLIST_DIALOG_ctor sample_decls sample_frame sample_config 0 = Some d"
    "map m_pageNetFmtName (m_NoteBook d) =
          [''Pcbnew'', ''OrcadPCB2'', ''CadStar'', ''Spice''] @
          map (stored_title sample_config) [0..<titles_from sample_config 0]"
    "\<forall>q < length (m_NoteBook d).
            m_IsCurrentFormat (m_NoteBook d ! q) =
              (m_pageNetFmtName (m_NoteBook d ! q) = NetListFormatName sample_frame
               \<or> (q = 0 \<and> \<not> list_ex (\<lambda>pg. m_pageNetFmtName pg = NetListFormatName sample_frame)
                                 (m_NoteBook d)))"
    "distinct (map m_pageNetFmtName (m_NoteBook d)) \<longrightarrow>
            length (filter m_IsCurrentFormat (m_NoteBook d)) = 1"
    by (elim exE conjE) (rule that)
  have nm: "map m_pageNetFmtName (m_NoteBook d) =
             [''Pcbnew'', ''OrcadPCB2'', ''CadStar'', ''Spice'', ''PADS'']"
    unfolding c(2) by (simp add: sample_titles_from sample_titles)
  have dist: "distinct (map m_pageNetFmtName (m_NoteBook d))"
    unfolding nm by simp
  have len: "length (m_NoteBook d) = 5"
    using arg_cong [OF nm, of length] by simp
  have "m_pageNetFmtName (m_NoteBook d ! 4) = map m_pageNetFmtName (m_NoteBook d) ! 4"
    using len by simp
  then have n4: "m_pageNetFmtName (m_NoteBook d ! 4) = ''PADS''"
    unfolding nm by simp
  have m4: "m_IsCurrentFormat (m_NoteBook d ! 4)"
    using c(3) [rule_format, of 4] len n4 by (simp add: sample_frame_def)
  have one: "length (filter m_IsCurrentFormat (m_NoteBook d)) = 1"
    using c(4) dist by simp
  show ?thesis
    using ok cur nb(2) r(1,4,5,6) marks c(1) nm dist m4 one unfolding nb(3)
    by (intro conjI exI [of _ dlg'] exI [of _ d])
qed

text \<open>
  Two pages with the name of the stored default format: the constructor marks both.
  (A custom page can have the name of a fixed format: \<open>OnAddGenerator\<close> compares a new
  title with the names of the custom pages only, and the title field of a page can be
  edited.)
\<close>

theorem ctor_marks_two_pages:
  "map_option (map m_IsCurrentFormat \<circ> m_NoteBook)
     (NETLIST_DIALOG_ctor sample_decls (sample_frame\<lparr>NetListFormatName := ''Spice''\<rparr>)
        [''CustomNetlistTitle1'' \<mapsto> ''Spice''] 0) =
     Some [False, False, False, True, True]"
proof -
  let ?c = "[''CustomNetlistTitle1'' \<mapsto> ''Spice'']"
  let ?f = "sample_frame\<lparr>NetListFormatName := ''Spice''\<rparr>"
  let ?P = "ctor_pages sample_decls ?f ?c"
  have t: "stored_title ?c 0 = ''Spice''" "stored_title ?c (Suc 0) = []"
    by (simp_all add: stored_title_def Read_def key_def dec_digit CUSTOM_NETLIST_TITLE_def
        char_of_eq_iff)
  have n: "titles_from ?c 0 = 1"
    by (simp add: titles_from_step CUSTOMPANEL_COUNTMAX_def t)
  have p: "map m_IsCurrentFormat ?P = [False, False, False, True, True]"
    by (simp add: ctor_pages_def builtin_pages_def custom_page_def n t Let_def)
  have "True \<in> set (map m_IsCurrentFormat ?P)"
    unfolding p by simp
  then have m: "\<exists>pg \<in> set ?P. m_IsCurrentFormat pg"
    by auto
  from ctor_result [of sample_decls ?f ?c 0]
  obtain d where d: "NETLIST_DIALOG_ctor sample_decls ?f ?c 0 = Some d"
    "m_NoteBook d = (if \<exists>pg \<in> set ?P. m_IsCurrentFormat pg then ?P
                     else ?P[0 := (?P ! 0)\<lparr>m_IsCurrentFormat := True\<rparr>])"
    by (elim exE conjE) (rule that)
  have "m_NoteBook d = ?P" using d(2) m by simp
  then show ?thesis
    unfolding d(1) using p by simp
qed



text \<open>
  C9. \<open>OnDelGenerator\<close> on a custom page (a page with a title and a command field):
  the two fields of the current page are cleared; if its "Default format" check box was
  set, it is cleared and that of the Pcbnew page is set; then the setup is written, from
  the pages as they are after these changes, and the dialog ends with
  \<open>NET_PLUGIN_CHANGE\<close>. If some page was marked as the default format before, some page
  is afterwards. Written means: the keys \<open>CustomNetlistTitle\<close>\<open>j\<close> and
  \<open>CustomNetlistCommand\<close>\<open>j\<close>, \<open>j = 1, 2, ...\<close>, hold the titles and the command lines
  of the other custom pages that have a title, in the order of their slots, and the
  empty string for every remaining \<open>j\<close> up to 8, so the deleted page has no slot any
  more; no other key changes; and the frame has the check box and the command of the
  Spice page and the name of the page that is marked now.
\<close>

theorem OnDelGenerator_keeps_default:
  assumes "dialog_ok x d"
    and "GetCurrentPage d = Some p"
    and "m_CommandStringCtrl (m_NoteBook d ! p) \<noteq> None"
    and "m_TitleStringCtrl (m_NoteBook d ! p) \<noteq> None"
  shows "\<exists>pcbnew spice a c d' d5.
       m_PanelNetType d PANELPCBNEW = Some pcbnew
     \<and> OnDelGenerator d = Some d'
     \<and> m_CommandStringCtrl (m_NoteBook d' ! p) = Some []
     \<and> m_TitleStringCtrl (m_NoteBook d' ! p) = Some []
     \<and> (m_IsCurrentFormat (m_NoteBook d ! p) \<longrightarrow>
          m_IsCurrentFormat (m_NoteBook d' ! pcbnew)
        \<and> (p \<noteq> pcbnew \<longrightarrow> \<not> m_IsCurrentFormat (m_NoteBook d' ! p)))
     \<and> (\<forall>q < length (m_NoteBook d). q \<noteq> p \<and> q \<noteq> pcbnew \<longrightarrow>
          m_NoteBook d' ! q = m_NoteBook d ! q)
     \<and> (\<not> m_IsCurrentFormat (m_NoteBook d ! p) \<longrightarrow>
          m_IsCurrentFormat (m_NoteBook d' ! pcbnew) = m_IsCurrentFormat (m_NoteBook d ! pcbnew))
     \<and> m_NoteBook d' ! p =
         (m_NoteBook d ! p)
           \<lparr>m_CommandStringCtrl := Some [], m_TitleStringCtrl := Some [],
            m_IsCurrentFormat := (p = pcbnew \<and> m_IsCurrentFormat (m_NoteBook d ! p))\<rparr>
     \<and> (p \<noteq> pcbnew \<longrightarrow>
          m_NoteBook d' ! pcbnew =
            (m_NoteBook d ! pcbnew)
              \<lparr>m_IsCurrentFormat :=
                 (m_IsCurrentFormat (m_NoteBook d ! p) \<or> m_IsCurrentFormat (m_NoteBook d ! pcbnew))\<rparr>)
     \<and> (list_ex m_IsCurrentFormat (m_NoteBook d) \<longrightarrow> list_ex m_IsCurrentFormat (m_NoteBook d'))
     \<and> length (m_NoteBook d') = length (m_NoteBook d)
     \<and> m_PanelNetType d' = m_PanelNetType d
     \<and> (\<forall>j < CUSTOMPANEL_COUNTMAX.
          m_config d' (key CUSTOM_NETLIST_TITLE (j + 1)) =
            Some (if j < length (kept_slots d p)
                  then ctrl_text (m_TitleStringCtrl (m_NoteBook d ! (kept_slots d p ! j))) else [])
        \<and> m_config d' (key CUSTOM_NETLIST_COMMAND (j + 1)) =
            Some (if j < length (kept_slots d p)
                  then ctrl_text (m_CommandStringCtrl (m_NoteBook d ! (kept_slots d p ! j))) else []))
     \<and> (\<forall>k. (\<forall>j < CUSTOMPANEL_COUNTMAX. k \<noteq> key CUSTOM_NETLIST_TITLE (j + 1)
                                      \<and> k \<noteq> key CUSTOM_NETLIST_COMMAND (j + 1)) \<longrightarrow>
            m_config d' k = m_config d k)
     \<and> m_PanelNetType d PANELSPICE = Some spice
     \<and> m_SpiceAjustPassiveValues (m_NoteBook d' ! spice) = Some a
     \<and> m_CommandStringCtrl (m_NoteBook d' ! spice) = Some c
     \<and> m_Parent d' = (m_Parent d)\<lparr>SpiceAjustPassiveValues := a, SimulatorCommand := c,
                                  NetListFormatName := marked_name d'\<rparr>
     \<and> WriteCurrentNetlistSetup (d\<lparr>m_NoteBook := m_NoteBook d'\<rparr>) = Some d5
     \<and> d' = do_call (EndModal NET_PLUGIN_CHANGE) d5
     \<and> calls d' = calls d @ [EndModal NET_PLUGIN_CHANGE]"
proof -
  let ?N = "m_NoteBook d"
  from assms(1) have ok: "panels_valid d" "contiguous d" "custom_ctrls d" "spice_ctrls d"
    and pb0: "m_PanelNetType d PANELPCBNEW \<noteq> None"
    by (simp_all add: dialog_ok_def)
  from pb0 obtain pb where pb: "m_PanelNetType d PANELPCBNEW = Some pb" by blast
  have pbv: "pb < length ?N"
    using panels_validD [OF ok(1) _ pb] by (simp add: PANELPCBNEW_def)
  have pv: "p < length ?N"
    using assms(2) by (auto simp: GetCurrentPage_def split: option.splits if_splits)
  obtain c t where ct: "m_CommandStringCtrl (?N ! p) = Some c" "m_TitleStringCtrl (?N ! p) = Some t"
    using assms(3,4) by blast
  let ?pg = "(?N ! p)\<lparr>m_CommandStringCtrl := Some [], m_TitleStringCtrl := Some []\<rparr>"
  let ?N2 = "?N[p := ?pg]"
  let ?N3 = "?N[p := ?pg\<lparr>m_IsCurrentFormat := False\<rparr>]"
  define N4 where "N4 = (if m_IsCurrentFormat (?N ! p)
             then ?N3[pb := (?N3 ! pb)\<lparr>m_IsCurrentFormat := True\<rparr>] else ?N2)"
  have len4: "length N4 = length ?N" by (simp add: N4_def)
  have keep: "\<forall>q < length N4.
        (m_TitleStringCtrl (?N ! q) \<noteq> None \<longrightarrow> m_TitleStringCtrl (N4 ! q) \<noteq> None)
      \<and> (m_CommandStringCtrl (?N ! q) \<noteq> None \<longrightarrow> m_CommandStringCtrl (N4 ! q) \<noteq> None)
      \<and> (m_SpiceAjustPassiveValues (?N ! q) \<noteq> None \<longrightarrow>
           m_SpiceAjustPassiveValues (N4 ! q) \<noteq> None)"
    using pv pbv by (auto simp add: N4_def nth_list_update)
  define d4 where "d4 = d\<lparr>m_NoteBook := N4\<rparr>"
  note ok4 = shape_pages [OF ok len4 keep, folded d4_def]
  from WriteCurrentNetlistSetup_state [OF ok4]
  obtain s a cmd d5 where d5: "m_PanelNetType d4 PANELSPICE = Some s"
    "m_SpiceAjustPassiveValues (m_NoteBook d4 ! s) = Some a"
    "m_CommandStringCtrl (m_NoteBook d4 ! s) = Some cmd"
    "WriteCurrentNetlistSetup d4 = Some d5"
    "d5 = d4\<lparr>m_Parent := m_Parent d5, m_config := m_config d5\<rparr>"
    "m_Parent d5 = (m_Parent d4)\<lparr>SpiceAjustPassiveValues := a, SimulatorCommand := cmd,
                                  NetListFormatName := marked_name d4\<rparr>"
    "\<forall>j < CUSTOMPANEL_COUNTMAX.
          m_config d5 (key CUSTOM_NETLIST_TITLE (j + 1)) =
            Some (if j < length (titled_custom d4 0)
                  then ctrl_text (m_TitleStringCtrl (titled_custom d4 0 ! j)) else [])
        \<and> m_config d5 (key CUSTOM_NETLIST_COMMAND (j + 1)) =
            Some (if j < length (titled_custom d4 0)
                  then ctrl_text (m_CommandStringCtrl (titled_custom d4 0 ! j)) else [])"
    "\<forall>k. (\<forall>j < CUSTOMPANEL_COUNTMAX. k \<noteq> key CUSTOM_NETLIST_TITLE (j + 1)
                                      \<and> k \<noteq> key CUSTOM_NETLIST_COMMAND (j + 1)) \<longrightarrow>
            m_config d5 k = m_config d4 k"
    by (elim exE conjE) (rule that)
  have d5f: "m_NoteBook d5 = N4" "calls d5 = calls d" "m_PanelNetType d5 = m_PanelNetType d"
    by (subst d5(5), simp add: d4_def)+
  define d' where "d' = do_call (EndModal NET_PLUGIN_CHANGE) d5"
  have run: "OnDelGenerator d = Some d'"
    using assms(2) pv pbv pb ct d5(4) unfolding d'_def N4_def d4_def
    by (cases "m_IsCurrentFormat (?N ! p)")
       (simp_all add: OnDelGenerator_def page_at_def upd_page_def)
  have nb: "m_NoteBook d' = N4"
    using d5f by (simp add: d'_def do_call_def)
  have pn: "m_PanelNetType d' = m_PanelNetType d"
    using d5f by (simp add: d'_def do_call_def)
  have cfg: "m_config d' = m_config d5" and par: "m_Parent d' = m_Parent d5"
    by (simp_all add: d'_def do_call_def)
  have cl: "calls d' = calls d @ [EndModal NET_PLUGIN_CHANGE]"
    using d5f by (simp add: d'_def do_call_def)
  have f1: "m_CommandStringCtrl (m_NoteBook d' ! p) = Some []"
    and f2: "m_TitleStringCtrl (m_NoteBook d' ! p) = Some []"
    unfolding nb using pv pbv by (simp_all add: N4_def nth_list_update)
  have marks: "m_IsCurrentFormat (?N ! p) \<longrightarrow>
          m_IsCurrentFormat (m_NoteBook d' ! pb)
        \<and> (p \<noteq> pb \<longrightarrow> \<not> m_IsCurrentFormat (m_NoteBook d' ! p))"
    unfolding nb using pv pbv by (simp add: N4_def nth_list_update)
  have others: "\<forall>q < length ?N. q \<noteq> p \<and> q \<noteq> pb \<longrightarrow> m_NoteBook d' ! q = ?N ! q"
    unfolding nb using pv pbv by (simp add: N4_def nth_list_update)
  have same: "\<not> m_IsCurrentFormat (?N ! p) \<longrightarrow>
          m_IsCurrentFormat (m_NoteBook d' ! pb) = m_IsCurrentFormat (?N ! pb)"
    unfolding nb using pv pbv by (simp add: N4_def nth_list_update)
  have pgp: "m_NoteBook d' ! p =
         (?N ! p)\<lparr>m_CommandStringCtrl := Some [], m_TitleStringCtrl := Some [],
                   m_IsCurrentFormat := (p = pb \<and> m_IsCurrentFormat (?N ! p))\<rparr>"
    unfolding nb using pv pbv by (simp add: N4_def nth_list_update)
  have pgb: "p \<noteq> pb \<longrightarrow>
          m_NoteBook d' ! pb =
            (?N ! pb)\<lparr>m_IsCurrentFormat :=
                        (m_IsCurrentFormat (?N ! p) \<or> m_IsCurrentFormat (?N ! pb))\<rparr>"
    unfolding nb using pv pbv by (simp add: N4_def nth_list_update)
  have inv: "list_ex m_IsCurrentFormat ?N \<longrightarrow> list_ex m_IsCurrentFormat (m_NoteBook d')"
  proof
    assume "list_ex m_IsCurrentFormat ?N"
    then obtain q where q: "q < length ?N" "m_IsCurrentFormat (?N ! q)"
      unfolding list_ex_length by blast
    show "list_ex m_IsCurrentFormat (m_NoteBook d')"
    proof (cases "m_IsCurrentFormat (?N ! p)")
      case True
      then have "m_IsCurrentFormat (m_NoteBook d' ! pb)" using marks by simp
      then show ?thesis unfolding list_ex_length using pbv len4 nb by metis
    next
      case False
      then have "q \<noteq> p" using q by auto
      then have "m_IsCurrentFormat (m_NoteBook d' ! q)"
        using False q same others by (cases "q = pb") simp_all
      then show ?thesis unfolding list_ex_length using q(1) len4 nb by metis
    qed
  qed
  have ctl: "\<And>q. q < length ?N \<Longrightarrow> q \<noteq> p \<Longrightarrow>
        m_TitleStringCtrl (N4 ! q) = m_TitleStringCtrl (?N ! q)
      \<and> m_CommandStringCtrl (N4 ! q) = m_CommandStringCtrl (?N ! q)"
    using pv pbv by (simp add: N4_def nth_list_update)
  have tp: "m_TitleStringCtrl (N4 ! p) = Some []"
    using f2 unfolding nb .
  have sl: "custom_slots d4 = custom_slots d"
    by (simp add: custom_slots_def d4_def)
  have flt: "filter (\<lambda>q. ctrl_text (m_TitleStringCtrl (N4 ! q)) \<noteq> []) (custom_slots d) =
               kept_slots d p"
    unfolding kept_slots_def
  proof (rule filter_cong [OF refl])
    fix q assume "q \<in> set (custom_slots d)"
    then have "q < length ?N" by (rule custom_slots_valid [OF ok(1)])
    then show "(ctrl_text (m_TitleStringCtrl (N4 ! q)) \<noteq> []) =
                 (q \<noteq> p \<and> ctrl_text (m_TitleStringCtrl (?N ! q)) \<noteq> [])"
      using ctl [of q] tp by (cases "q = p") (simp_all add: ctrl_text_def)
  qed
  have tc: "titled_custom d4 0 = map (\<lambda>q. N4 ! q) (kept_slots d p)"
    unfolding titled_custom_slots sl using flt by (simp add: d4_def)
  have kv: "\<And>j. j < length (kept_slots d p) \<Longrightarrow>
              kept_slots d p ! j < length ?N \<and> kept_slots d p ! j \<noteq> p"
  proof -
    fix j assume "j < length (kept_slots d p)"
    then have m: "kept_slots d p ! j \<in> set (kept_slots d p)" by simp
    then have "kept_slots d p ! j \<in> set (custom_slots d)" "kept_slots d p ! j \<noteq> p"
      by (simp_all add: kept_slots_def)
    then show "kept_slots d p ! j < length ?N \<and> kept_slots d p ! j \<noteq> p"
      using custom_slots_valid [OF ok(1)] by blast
  qed
  have keys: "\<forall>j < CUSTOMPANEL_COUNTMAX.
          m_config d' (key CUSTOM_NETLIST_TITLE (j + 1)) =
            Some (if j < length (kept_slots d p)
                  then ctrl_text (m_TitleStringCtrl (?N ! (kept_slots d p ! j))) else [])
        \<and> m_config d' (key CUSTOM_NETLIST_COMMAND (j + 1)) =
            Some (if j < length (kept_slots d p)
                  then ctrl_text (m_CommandStringCtrl (?N ! (kept_slots d p ! j))) else [])"
  proof (intro allI impI)
    fix j assume j: "j < CUSTOMPANEL_COUNTMAX"
    show "m_config d' (key CUSTOM_NETLIST_TITLE (j + 1)) =
            Some (if j < length (kept_slots d p)
                  then ctrl_text (m_TitleStringCtrl (?N ! (kept_slots d p ! j))) else [])
        \<and> m_config d' (key CUSTOM_NETLIST_COMMAND (j + 1)) =
            Some (if j < length (kept_slots d p)
                  then ctrl_text (m_CommandStringCtrl (?N ! (kept_slots d p ! j))) else [])"
    proof (cases "j < length (kept_slots d p)")
      case True
      with kv [OF True] ctl [of "kept_slots d p ! j"] d5(7) [rule_format, OF j]
      show ?thesis unfolding cfg tc by simp
    next
      case False
      with d5(7) [rule_format, OF j] show ?thesis unfolding cfg tc by simp
    qed
  qed
  have other: "\<forall>k. (\<forall>j < CUSTOMPANEL_COUNTMAX. k \<noteq> key CUSTOM_NETLIST_TITLE (j + 1)
                                      \<and> k \<noteq> key CUSTOM_NETLIST_COMMAND (j + 1)) \<longrightarrow>
            m_config d' k = m_config d k"
    using d5(8) unfolding cfg by (simp add: d4_def)
  have sp: "m_PanelNetType d PANELSPICE = Some s"
    "m_SpiceAjustPassiveValues (m_NoteBook d' ! s) = Some a"
    "m_CommandStringCtrl (m_NoteBook d' ! s) = Some cmd"
    using d5(1,2,3) unfolding nb by (simp_all add: d4_def)
  have mn: "marked_name d' = marked_name d4"
    by (subst d'_def, subst d5(5)) (simp add: marked_name_def listed_from_def do_call_def)
  have frame: "m_Parent d' = (m_Parent d)\<lparr>SpiceAjustPassiveValues := a, SimulatorCommand := cmd,
                                  NetListFormatName := marked_name d'\<rparr>"
    unfolding par d5(6) mn by (simp add: d4_def)
  have w: "WriteCurrentNetlistSetup (d\<lparr>m_NoteBook := m_NoteBook d'\<rparr>) = Some d5"
    unfolding nb using d5(4) by (simp add: d4_def)
  have len: "length (m_NoteBook d') = length ?N"
    unfolding nb by (rule len4)
  show ?thesis
    using pb run f1 f2 marks others same pgp pgb inv len pn keys other sp frame w d'_def cl
    by (intro exI [of _ pb] exI [of _ s] exI [of _ a] exI [of _ cmd] exI [of _ d'] exI [of _ d5]
        conjI)
qed

theorem OnDelGenerator_keeps_default_witness:
  "dialog_ok sample_decls sample_pair
   \<and> GetCurrentPage sample_pair = Some 4
   \<and> m_CommandStringCtrl (m_NoteBook sample_pair ! 4) = Some ''xsltproc \"p/pads.asc.xsl\"''
   \<and> m_TitleStringCtrl (m_NoteBook sample_pair ! 4) = Some ''PADS''
   \<and> m_IsCurrentFormat (m_NoteBook sample_pair ! 4)
   \<and> m_config sample_pair ''CustomNetlistTitle1'' = Some ''PADS''
   \<and> m_config sample_pair ''CustomNetlistTitle2'' = None
   \<and> m_config sample_pair ''CustomNetlistTitle3'' = Some ''Stale''
   \<and> (\<exists>d'. OnDelGenerator sample_pair = Some d'
         \<and> m_CommandStringCtrl (m_NoteBook d' ! 4) = Some []
         \<and> m_TitleStringCtrl (m_NoteBook d' ! 4) = Some []
         \<and> map m_IsCurrentFormat (m_NoteBook d') = [True, False, False, False, False, False]
         \<and> m_config d' ''CustomNetlistTitle1'' = Some ''BOM''
         \<and> m_config d' ''CustomNetlistCommand1'' = Some ''python bom.py''
         \<and> m_config d' ''CustomNetlistTitle2'' = Some []
         \<and> m_config d' ''CustomNetlistCommand2'' = Some []
         \<and> m_config d' ''CustomNetlistTitle3'' = Some []
         \<and> m_config d' ''CustomNetlistTitle8'' = Some []
         \<and> m_Parent d' = \<lparr>NetListFormatName = ''Pcbnew'', SimulatorCommand = '' ngspice -b '',
                           SpiceAjustPassiveValues = True, NetListerCommand = []\<rparr>
         \<and> calls d' = [EndModal NET_PLUGIN_CHANGE])"
proof -
  let ?N = "m_NoteBook sample_pair"
  have h: "GetCurrentPage sample_pair = Some 4"
    "m_CommandStringCtrl (?N ! 4) \<noteq> None"
    "m_TitleStringCtrl (?N ! 4) \<noteq> None"
    by (simp_all add: GetCurrentPage_def sample_pair_def sample_dialog_def)
  have s: "m_IsCurrentFormat (?N ! 4)"
    "m_CommandStringCtrl (?N ! 4) = Some ''xsltproc \"p/pads.asc.xsl\"''"
    "m_TitleStringCtrl (?N ! 4) = Some ''PADS''"
    "m_config sample_pair ''CustomNetlistTitle1'' = Some ''PADS''"
    "m_config sample_pair ''CustomNetlistTitle2'' = None"
    "m_config sample_pair ''CustomNetlistTitle3'' = Some ''Stale''"
    by (simp_all add: sample_pair_def sample_dialog_def sample_config_def)
  have i: "m_PanelNetType sample_pair PANELPCBNEW = Some 0"
    "m_PanelNetType sample_pair PANELSPICE = Some 3"
    "calls sample_pair = []" "length ?N = 6" "m_Parent sample_pair = sample_frame"
    "m_PanelNetType sample_pair = (\<lambda>ii. if ii < 6 then Some ii else None)"
    by (simp_all add: sample_pair_def sample_dialog_def PANELPCBNEW_def PANELSPICE_def)
  from OnDelGenerator_keeps_default [OF sample_pair_ok h]
  obtain pcbnew spice a c d' where r:
    "m_PanelNetType sample_pair PANELPCBNEW = Some pcbnew"
    "OnDelGenerator sample_pair = Some d'"
    "m_CommandStringCtrl (m_NoteBook d' ! 4) = Some []"
    "m_TitleStringCtrl (m_NoteBook d' ! 4) = Some []"
    "\<forall>q < length ?N. q \<noteq> 4 \<and> q \<noteq> pcbnew \<longrightarrow> m_NoteBook d' ! q = ?N ! q"
    "m_NoteBook d' ! 4 =
         (?N ! 4)\<lparr>m_CommandStringCtrl := Some [], m_TitleStringCtrl := Some [],
                   m_IsCurrentFormat := (4 = pcbnew \<and> m_IsCurrentFormat (?N ! 4))\<rparr>"
    "4 \<noteq> pcbnew \<longrightarrow>
          m_NoteBook d' ! pcbnew =
            (?N ! pcbnew)\<lparr>m_IsCurrentFormat :=
                        (m_IsCurrentFormat (?N ! 4) \<or> m_IsCurrentFormat (?N ! pcbnew))\<rparr>"
    "length (m_NoteBook d') = length ?N"
    "m_PanelNetType d' = m_PanelNetType sample_pair"
    "\<forall>j < CUSTOMPANEL_COUNTMAX.
          m_config d' (key CUSTOM_NETLIST_TITLE (j + 1)) =
            Some (if j < length (kept_slots sample_pair 4)
                  then ctrl_text (m_TitleStringCtrl (?N ! (kept_slots sample_pair 4 ! j))) else [])
        \<and> m_config d' (key CUSTOM_NETLIST_COMMAND (j + 1)) =
            Some (if j < length (kept_slots sample_pair 4)
                  then ctrl_text (m_CommandStringCtrl (?N ! (kept_slots sample_pair 4 ! j))) else [])"
    "m_PanelNetType sample_pair PANELSPICE = Some spice"
    "m_SpiceAjustPassiveValues (m_NoteBook d' ! spice) = Some a"
    "m_CommandStringCtrl (m_NoteBook d' ! spice) = Some c"
    "m_Parent d' = (m_Parent sample_pair)\<lparr>SpiceAjustPassiveValues := a, SimulatorCommand := c,
                                  NetListFormatName := marked_name d'\<rparr>"
    "calls d' = calls sample_pair @ [EndModal NET_PLUGIN_CHANGE]"
    by (elim exE conjE) (rule that)
  have pb: "pcbnew = 0" and sp: "spice = 3"
    using r(1,11) i(1,2) by simp_all
  have pages: "m_NoteBook d' =
      [(?N ! 0)\<lparr>m_IsCurrentFormat := True\<rparr>, ?N ! 1, ?N ! 2, ?N ! 3,
       (?N ! 4)\<lparr>m_CommandStringCtrl := Some [], m_TitleStringCtrl := Some [],
                 m_IsCurrentFormat := False\<rparr>, ?N ! 5]"
  proof (rule nth_equalityI)
    show "length (m_NoteBook d') =
      length [(?N ! 0)\<lparr>m_IsCurrentFormat := True\<rparr>, ?N ! 1, ?N ! 2, ?N ! 3,
       (?N ! 4)\<lparr>m_CommandStringCtrl := Some [], m_TitleStringCtrl := Some [],
                 m_IsCurrentFormat := False\<rparr>, ?N ! 5]"
      using r(8) i(4) by simp
  next
    fix q assume "q < length (m_NoteBook d')"
    then have "q < 6" using r(8) i(4) by simp
    then consider "q = 0" | "q = 1" | "q = 2" | "q = 3" | "q = 4" | "q = 5" by linarith
    then show "m_NoteBook d' ! q =
      [(?N ! 0)\<lparr>m_IsCurrentFormat := True\<rparr>, ?N ! 1, ?N ! 2, ?N ! 3,
       (?N ! 4)\<lparr>m_CommandStringCtrl := Some [], m_TitleStringCtrl := Some [],
                 m_IsCurrentFormat := False\<rparr>, ?N ! 5] ! q"
      using r(5) [rule_format, of q] r(6,7) s(1) unfolding pb i(4) by cases simp_all
  qed
  have marks: "map m_IsCurrentFormat (m_NoteBook d') = [True, False, False, False, False, False]"
    unfolding pages by (simp add: sample_pair_def sample_dialog_def)
  have mn: "marked_name d' = ''Pcbnew''"
    unfolding marked_name_def listed_from_def r(9) i(6) pages
    by (simp add: PANELCUSTOMBASE_def CUSTOMPANEL_COUNTMAX_def upt_12 List.map_filter_def
        sample_pair_def sample_dialog_def)
  have ac: "a = True" "c = '' ngspice -b ''"
    using r(12,13) unfolding sp pages by (simp_all add: sample_pair_def sample_dialog_def)
  have frame: "m_Parent d' = \<lparr>NetListFormatName = ''Pcbnew'', SimulatorCommand = '' ngspice -b '',
                           SpiceAjustPassiveValues = True, NetListerCommand = []\<rparr>"
    unfolding r(14) mn ac i(5) by (simp add: sample_frame_def)
  from r(10) [rule_format, of 0] r(10) [rule_format, of 1] r(10) [rule_format, of 2]
    r(10) [rule_format, of 7]
  have cfg: "m_config d' ''CustomNetlistTitle1'' = Some ''BOM''"
    "m_config d' ''CustomNetlistCommand1'' = Some ''python bom.py''"
    "m_config d' ''CustomNetlistTitle2'' = Some []"
    "m_config d' ''CustomNetlistCommand2'' = Some []"
    "m_config d' ''CustomNetlistTitle3'' = Some []"
    "m_config d' ''CustomNetlistTitle8'' = Some []"
    unfolding sample_keys8 sample_key_command2 sample_pair_kept
    by (simp_all add: CUSTOMPANEL_COUNTMAX_def ctrl_text_def sample_pair_def sample_dialog_def)
  have cl: "calls d' = [EndModal NET_PLUGIN_CHANGE]"
    using r(15) i(3) by simp
  show ?thesis
    using sample_pair_ok h(1) s r(2,3,4) marks cfg frame cl
    by (intro conjI exI [of _ d'])
qed

text \<open>
  C5. \<open>GenNetlist\<close> makes no netlist and writes none. When the file dialog is not
  cancelled, it asks the parent frame for the netlist (\<open>CreateNetlist\<close>); when that is
  null it shows "Schematic netlist not available" and does not call \<open>WriteNetListFile\<close>,
  otherwise it calls the parent frame's \<open>WriteNetListFile\<close> with that netlist; in both
  cases it then writes the setup and ends the dialog with \<open>wxID_OK\<close>. Written means: the
  keys \<open>CustomNetlistTitle\<close>\<open>j\<close> and \<open>CustomNetlistCommand\<close>\<open>j\<close>, \<open>j = 1, 2, ...\<close>, hold the
  titles and the command lines of the custom pages that have a title, the remaining ones
  up to 8 the empty string, no other key changes, and the frame has the name of the
  marked page, the check box and the command of the Spice page, and the command of the
  current page. When the file dialog is cancelled, \<open>GenNetlist\<close> returns right after it:
  no further call is made, the configuration is as before, and the dialog stays open.
\<close>

theorem GenNetlist_delegates:
  assumes "dialog_ok x d" and "GetCurrentPage d = Some p"
  shows "\<exists>d' title path fullname wildcard netlist_opt spice a c.
       GenNetlist x e d = Some d'
     \<and> calls d' = calls d @ FileDialog title path fullname wildcard #
         (case FileDialog_result e of
            None \<Rightarrow> []
          | Some fullpath \<Rightarrow>
              [ClearMsgPanel, CreateNetlist,
               (case CreateNetlist_result e of
                  None \<Rightarrow> MessageBox ''Schematic netlist not available''
                | Some netlist \<Rightarrow>
                    WriteNetListFile (Some netlist) (m_IdNetType (m_NoteBook d ! p)) fullpath netlist_opt),
               EndModal wxID_OK])
     \<and> m_NoteBook d' = m_NoteBook d \<and> m_PanelNetType d' = m_PanelNetType d
     \<and> m_PanelNetType d PANELSPICE = Some spice
     \<and> m_SpiceAjustPassiveValues (m_NoteBook d ! spice) = Some a
     \<and> m_CommandStringCtrl (m_NoteBook d ! spice) = Some c
     \<and> (FileDialog_result e = None \<longrightarrow>
          m_config d' = m_config d
        \<and> m_Parent d' = (m_Parent d)\<lparr>SpiceAjustPassiveValues := a, SimulatorCommand := c,
                                     NetListFormatName := marked_name d\<rparr>)
     \<and> (FileDialog_result e \<noteq> None \<longrightarrow>
          (\<forall>j < CUSTOMPANEL_COUNTMAX.
             m_config d' (key CUSTOM_NETLIST_TITLE (j + 1)) =
               Some (if j < length (titled_custom d 0)
                     then ctrl_text (m_TitleStringCtrl (titled_custom d 0 ! j)) else [])
           \<and> m_config d' (key CUSTOM_NETLIST_COMMAND (j + 1)) =
               Some (if j < length (titled_custom d 0)
                     then ctrl_text (m_CommandStringCtrl (titled_custom d 0 ! j)) else []))
        \<and> (\<forall>k. (\<forall>j < CUSTOMPANEL_COUNTMAX. k \<noteq> key CUSTOM_NETLIST_TITLE (j + 1)
                                         \<and> k \<noteq> key CUSTOM_NETLIST_COMMAND (j + 1)) \<longrightarrow>
               m_config d' k = m_config d k)
        \<and> m_Parent d' =
            \<lparr>NetListFormatName = marked_name d, SimulatorCommand = c,
             SpiceAjustPassiveValues = a,
             NetListerCommand = ctrl_text (m_CommandStringCtrl (m_NoteBook d ! p))\<rparr>
        \<and> (\<exists>d6 d7. m_NoteBook d6 = m_NoteBook d \<and> m_PanelNetType d6 = m_PanelNetType d
                 \<and> m_config d6 = m_config d
                 \<and> WriteCurrentNetlistSetup d6 = Some d7
                 \<and> d' = do_call (EndModal wxID_OK) d7))"
proof -
  have pv: "p < length (m_NoteBook d)"
    using assms(2) by (simp add: GetCurrentPage_iff)
  have tp: "typed_pages x d" using assms(1) by (simp add: dialog_ok_def)
  from GenNetlist_switch_Some [OF tp pv]
  obtain netlist_opt fileExt title where
    "GenNetlist_switch x (m_NoteBook d ! p)
               (case fst (snd (FilenamePrms x (m_IdNetType (m_NoteBook d ! p)) (Some []) (Some [])))
                of Some v \<Rightarrow> v | None \<Rightarrow> [])
               ''Save Netlist File'' = Some (netlist_opt, fileExt, title)"
    by (metis prod_cases3)
  from GenNetlist_result [OF assms this, of e]
  obtain d' fn2 wildcard where r: "GenNetlist x e d = Some d'"
    "calls d' = calls d @ FileDialog title (GetPath fn2) (GetFullName fn2) wildcard #
         (case FileDialog_result e of
            None \<Rightarrow> []
          | Some fullpath \<Rightarrow>
              [ClearMsgPanel, CreateNetlist,
               (case CreateNetlist_result e of
                  None \<Rightarrow> MessageBox ''Schematic netlist not available''
                | Some netlist \<Rightarrow>
                    WriteNetListFile (Some netlist) (m_IdNetType (m_NoteBook d ! p)) fullpath netlist_opt),
               EndModal wxID_OK])"
    "m_NoteBook d' = m_NoteBook d" "m_PanelNetType d' = m_PanelNetType d"
    "FileDialog_result e = None \<longrightarrow> m_config d' = m_config d"
    "FileDialog_result e \<noteq> None \<longrightarrow>
          (\<exists>d6 d7. m_NoteBook d6 = m_NoteBook d \<and> m_PanelNetType d6 = m_PanelNetType d
                 \<and> m_config d6 = m_config d
                 \<and> WriteCurrentNetlistSetup d6 = Some d7
                 \<and> d' = do_call (EndModal wxID_OK) d7)"
    by (elim exE conjE) (rule that)
  from GenNetlist_state [OF assms r(1)]
  obtain s a c where f: "m_PanelNetType d PANELSPICE = Some s"
    "m_SpiceAjustPassiveValues (m_NoteBook d ! s) = Some a"
    "m_CommandStringCtrl (m_NoteBook d ! s) = Some c"
    "FileDialog_result e = None \<longrightarrow>
          m_Parent d' = (m_Parent d)\<lparr>SpiceAjustPassiveValues := a, SimulatorCommand := c,
                                       NetListFormatName := marked_name d\<rparr>"
    "FileDialog_result e \<noteq> None \<longrightarrow>
          m_Parent d' =
            \<lparr>NetListFormatName = marked_name d, SimulatorCommand = c,
             SpiceAjustPassiveValues = a,
             NetListerCommand = ctrl_text (m_CommandStringCtrl (m_NoteBook d ! p))\<rparr>
        \<and> (\<forall>j < CUSTOMPANEL_COUNTMAX.
             m_config d' (key CUSTOM_NETLIST_TITLE (j + 1)) =
               Some (if j < length (titled_custom d 0)
                     then ctrl_text (m_TitleStringCtrl (titled_custom d 0 ! j)) else [])
           \<and> m_config d' (key CUSTOM_NETLIST_COMMAND (j + 1)) =
               Some (if j < length (titled_custom d 0)
                     then ctrl_text (m_CommandStringCtrl (titled_custom d 0 ! j)) else []))
        \<and> (\<forall>k. (\<forall>j < CUSTOMPANEL_COUNTMAX. k \<noteq> key CUSTOM_NETLIST_TITLE (j + 1)
                                         \<and> k \<noteq> key CUSTOM_NETLIST_COMMAND (j + 1)) \<longrightarrow>
               m_config d' k = m_config d k)"
    by (elim exE conjE) (rule that)
  have cancel: "FileDialog_result e = None \<longrightarrow>
          m_config d' = m_config d
        \<and> m_Parent d' = (m_Parent d)\<lparr>SpiceAjustPassiveValues := a, SimulatorCommand := c,
                                     NetListFormatName := marked_name d\<rparr>"
    using r(5) f(4) by blast
  have chosen: "FileDialog_result e \<noteq> None \<longrightarrow>
          (\<forall>j < CUSTOMPANEL_COUNTMAX.
             m_config d' (key CUSTOM_NETLIST_TITLE (j + 1)) =
               Some (if j < length (titled_custom d 0)
                     then ctrl_text (m_TitleStringCtrl (titled_custom d 0 ! j)) else [])
           \<and> m_config d' (key CUSTOM_NETLIST_COMMAND (j + 1)) =
               Some (if j < length (titled_custom d 0)
                     then ctrl_text (m_CommandStringCtrl (titled_custom d 0 ! j)) else []))
        \<and> (\<forall>k. (\<forall>j < CUSTOMPANEL_COUNTMAX. k \<noteq> key CUSTOM_NETLIST_TITLE (j + 1)
                                         \<and> k \<noteq> key CUSTOM_NETLIST_COMMAND (j + 1)) \<longrightarrow>
               m_config d' k = m_config d k)
        \<and> m_Parent d' =
            \<lparr>NetListFormatName = marked_name d, SimulatorCommand = c,
             SpiceAjustPassiveValues = a,
             NetListerCommand = ctrl_text (m_CommandStringCtrl (m_NoteBook d ! p))\<rparr>
        \<and> (\<exists>d6 d7. m_NoteBook d6 = m_NoteBook d \<and> m_PanelNetType d6 = m_PanelNetType d
                 \<and> m_config d6 = m_config d
                 \<and> WriteCurrentNetlistSetup d6 = Some d7
                 \<and> d' = do_call (EndModal wxID_OK) d7)"
  proof
    assume "FileDialog_result e \<noteq> None"
    with r(6) f(5) show "(\<forall>j < CUSTOMPANEL_COUNTMAX.
             m_config d' (key CUSTOM_NETLIST_TITLE (j + 1)) =
               Some (if j < length (titled_custom d 0)
                     then ctrl_text (m_TitleStringCtrl (titled_custom d 0 ! j)) else [])
           \<and> m_config d' (key CUSTOM_NETLIST_COMMAND (j + 1)) =
               Some (if j < length (titled_custom d 0)
                     then ctrl_text (m_CommandStringCtrl (titled_custom d 0 ! j)) else []))
        \<and> (\<forall>k. (\<forall>j < CUSTOMPANEL_COUNTMAX. k \<noteq> key CUSTOM_NETLIST_TITLE (j + 1)
                                         \<and> k \<noteq> key CUSTOM_NETLIST_COMMAND (j + 1)) \<longrightarrow>
               m_config d' k = m_config d k)
        \<and> m_Parent d' =
            \<lparr>NetListFormatName = marked_name d, SimulatorCommand = c,
             SpiceAjustPassiveValues = a,
             NetListerCommand = ctrl_text (m_CommandStringCtrl (m_NoteBook d ! p))\<rparr>
        \<and> (\<exists>d6 d7. m_NoteBook d6 = m_NoteBook d \<and> m_PanelNetType d6 = m_PanelNetType d
                 \<and> m_config d6 = m_config d
                 \<and> WriteCurrentNetlistSetup d6 = Some d7
                 \<and> d' = do_call (EndModal wxID_OK) d7)"
      by (intro conjI) simp_all
  qed
  show ?thesis
    by (intro exI [of _ d'] exI [of _ title] exI [of _ "GetPath fn2"] exI [of _ "GetFullName fn2"]
        exI [of _ wildcard] exI [of _ netlist_opt] exI [of _ s] exI [of _ a] exI [of _ c] conjI)
       (rule r(1,2,3,4) f(1,2,3) cancel chosen)+
qed

theorem GenNetlist_delegates_witness:
  "dialog_ok sample_decls sample_dialog
   \<and> GetCurrentPage sample_dialog = Some 4
   \<and> FileDialog_result sample_env \<noteq> None
   \<and> CreateNetlist_result sample_env = None
   \<and> m_config sample_dialog ''CustomNetlistTitle3'' = Some ''Stale''
   \<and> (\<exists>d' title path fullname wildcard.
         GenNetlist sample_decls sample_env sample_dialog = Some d'
       \<and> calls d' =
           [FileDialog title path fullname wildcard, ClearMsgPanel, CreateNetlist,
            MessageBox ''Schematic netlist not available'', EndModal wxID_OK]
       \<and> m_config d' ''CustomNetlistTitle1'' = Some ''PADS''
       \<and> m_config d' ''CustomNetlistCommand1'' = Some ''xsltproc \"p/pads.asc.xsl\"''
       \<and> m_config d' ''CustomNetlistTitle2'' = Some []
       \<and> m_config d' ''CustomNetlistTitle3'' = Some []
       \<and> m_config d' ''CustomNetlistTitle8'' = Some []
       \<and> m_Parent d' =
           \<lparr>NetListFormatName = ''PADS'', SimulatorCommand = '' ngspice -b '',
            SpiceAjustPassiveValues = True,
            NetListerCommand = ''xsltproc \"p/pads.asc.xsl\"''\<rparr>)"
proof -
  let ?N = "m_NoteBook sample_dialog"
  have c: "GetCurrentPage sample_dialog = Some 4"
    by (simp add: GetCurrentPage_def sample_dialog_def)
  have e: "FileDialog_result sample_env = Some ''/proj/board.asc''"
    "CreateNetlist_result sample_env = None" "calls sample_dialog = []"
    by (simp_all add: sample_env_def sample_dialog_def)
  have s: "m_config sample_dialog ''CustomNetlistTitle3'' = Some ''Stale''"
    "m_PanelNetType sample_dialog PANELSPICE = Some 3"
    "m_SpiceAjustPassiveValues (?N ! 3) = Some True"
    "m_CommandStringCtrl (?N ! 3) = Some '' ngspice -b ''"
    "m_CommandStringCtrl (?N ! 4) = Some ''xsltproc \"p/pads.asc.xsl\"''"
    "m_TitleStringCtrl (?N ! 4) = Some ''PADS''"
    by (simp_all add: sample_dialog_def sample_config_def PANELSPICE_def)
  have fd: "FileDialog_result sample_env \<noteq> None" using e(1) by simp
  from GenNetlist_delegates [OF sample_dialog_ok c, of sample_env]
  obtain d' title path fullname wildcard netlist_opt spice a cmd where r:
    "GenNetlist sample_decls sample_env sample_dialog = Some d'"
    "calls d' = calls sample_dialog @ FileDialog title path fullname wildcard #
         (case FileDialog_result sample_env of
            None \<Rightarrow> []
          | Some fullpath \<Rightarrow>
              [ClearMsgPanel, CreateNetlist,
               (case CreateNetlist_result sample_env of
                  None \<Rightarrow> MessageBox ''Schematic netlist not available''
                | Some netlist \<Rightarrow>
                    WriteNetListFile (Some netlist) (m_IdNetType (?N ! 4)) fullpath netlist_opt),
               EndModal wxID_OK])"
    "m_PanelNetType sample_dialog PANELSPICE = Some spice"
    "m_SpiceAjustPassiveValues (?N ! spice) = Some a"
    "m_CommandStringCtrl (?N ! spice) = Some cmd"
    and ch: "FileDialog_result sample_env \<noteq> None \<longrightarrow>
          (\<forall>j < CUSTOMPANEL_COUNTMAX.
             m_config d' (key CUSTOM_NETLIST_TITLE (j + 1)) =
               Some (if j < length (titled_custom sample_dialog 0)
                     then ctrl_text (m_TitleStringCtrl (titled_custom sample_dialog 0 ! j)) else [])
           \<and> m_config d' (key CUSTOM_NETLIST_COMMAND (j + 1)) =
               Some (if j < length (titled_custom sample_dialog 0)
                     then ctrl_text (m_CommandStringCtrl (titled_custom sample_dialog 0 ! j)) else []))
        \<and> (\<forall>k. (\<forall>j < CUSTOMPANEL_COUNTMAX. k \<noteq> key CUSTOM_NETLIST_TITLE (j + 1)
                                         \<and> k \<noteq> key CUSTOM_NETLIST_COMMAND (j + 1)) \<longrightarrow>
               m_config d' k = m_config sample_dialog k)
        \<and> m_Parent d' =
            \<lparr>NetListFormatName = marked_name sample_dialog, SimulatorCommand = cmd,
             SpiceAjustPassiveValues = a,
             NetListerCommand = ctrl_text (m_CommandStringCtrl (?N ! 4))\<rparr>
        \<and> (\<exists>d6 d7. m_NoteBook d6 = ?N \<and> m_PanelNetType d6 = m_PanelNetType sample_dialog
                 \<and> m_config d6 = m_config sample_dialog
                 \<and> WriteCurrentNetlistSetup d6 = Some d7
                 \<and> d' = do_call (EndModal wxID_OK) d7)"
    by (elim exE conjE) (rule that)
  from ch fd have keys: "\<forall>j < CUSTOMPANEL_COUNTMAX.
             m_config d' (key CUSTOM_NETLIST_TITLE (j + 1)) =
               Some (if j < length (titled_custom sample_dialog 0)
                     then ctrl_text (m_TitleStringCtrl (titled_custom sample_dialog 0 ! j)) else [])
           \<and> m_config d' (key CUSTOM_NETLIST_COMMAND (j + 1)) =
               Some (if j < length (titled_custom sample_dialog 0)
                     then ctrl_text (m_CommandStringCtrl (titled_custom sample_dialog 0 ! j)) else [])"
    and par: "m_Parent d' =
            \<lparr>NetListFormatName = marked_name sample_dialog, SimulatorCommand = cmd,
             SpiceAjustPassiveValues = a,
             NetListerCommand = ctrl_text (m_CommandStringCtrl (?N ! 4))\<rparr>"
    by blast+
  have sp: "spice = 3" using r(3) s(2) by simp
  have ac: "a = True" "cmd = '' ngspice -b ''"
    using r(4,5) s(3,4) unfolding sp by simp_all
  have frame: "m_Parent d' =
           \<lparr>NetListFormatName = ''PADS'', SimulatorCommand = '' ngspice -b '',
            SpiceAjustPassiveValues = True,
            NetListerCommand = ''xsltproc \"p/pads.asc.xsl\"''\<rparr>"
    unfolding par ac sample_dialog_marked s(5) by (simp add: ctrl_text_def)
  from keys [rule_format, of 0] keys [rule_format, of 1] keys [rule_format, of 2]
    keys [rule_format, of 7]
  have cfg: "m_config d' ''CustomNetlistTitle1'' = Some ''PADS''"
    "m_config d' ''CustomNetlistCommand1'' = Some ''xsltproc \"p/pads.asc.xsl\"''"
    "m_config d' ''CustomNetlistTitle2'' = Some []"
    "m_config d' ''CustomNetlistTitle3'' = Some []"
    "m_config d' ''CustomNetlistTitle8'' = Some []"
    unfolding sample_keys8 sample_dialog_titled
    by (simp_all add: CUSTOMPANEL_COUNTMAX_def ctrl_text_def s(5,6))
  have cl: "calls d' =
           [FileDialog title path fullname wildcard, ClearMsgPanel, CreateNetlist,
            MessageBox ''Schematic netlist not available'', EndModal wxID_OK]"
    using r(2) unfolding e by simp
  show ?thesis
    using sample_dialog_ok c fd e(2) s(1) r(1) cl cfg frame
    by (intro conjI exI [of _ d'] exI [of _ title] exI [of _ path] exI [of _ fullname]
        exI [of _ wildcard])
qed

text \<open>
  When the file dialog is cancelled, \<open>GenNetlist\<close> makes no call after it, and the
  configuration keeps its stale entry.
\<close>

theorem GenNetlist_cancelled:
  "map_option calls
     (GenNetlist sample_decls (sample_env\<lparr>FileDialog_result := None\<rparr>) sample_dialog) =
     Some [FileDialog ''PADS Export'' ''/proj'' ''board.asc'' ''*'']
   \<and> map_option m_config
     (GenNetlist sample_decls (sample_env\<lparr>FileDialog_result := None\<rparr>) sample_dialog) =
     Some sample_config"
proof -
  let ?e = "sample_env\<lparr>FileDialog_result := None\<rparr>"
  have c: "GetCurrentPage sample_dialog = Some 4"
    by (simp add: GetCurrentPage_def sample_dialog_def)
  have f: "GetPath (SetExt ''asc'' (RootFileName sample_env)) = ''/proj''"
    "GetFullName (SetExt ''asc'' (RootFileName sample_env)) = ''board.asc''"
    by (simp_all add: GetPath_def GetFullName_def SetExt_def sample_env_def)
  have w: "snd (snd (FilenamePrms sample_decls (m_IdNetType (m_NoteBook sample_dialog ! 4))
                       (Some []) (Some []))) = Some ''*''"
    by (simp add: FilenamePrms_def sample_dialog_def sample_decls_def Let_def)
  from GenNetlist_result [OF sample_dialog_ok c sample_switch, of ?e]
  obtain d' fn2 wildcard where r:
    "GenNetlist sample_decls ?e sample_dialog = Some d'"
    "fn2 = (if GetPath (SetExt ''asc'' (RootFileName ?e)) = []
              then SetPath (ProjectPath ?e) (SetExt ''asc'' (RootFileName ?e))
              else SetExt ''asc'' (RootFileName ?e))"
    "snd (snd (FilenamePrms sample_decls (m_IdNetType (m_NoteBook sample_dialog ! 4))
                 (Some []) (Some []))) = Some wildcard"
    "calls d' = calls sample_dialog @
         FileDialog ''PADS Export'' (GetPath fn2) (GetFullName fn2) wildcard #
         (case FileDialog_result ?e of
            None \<Rightarrow> []
          | Some fullpath \<Rightarrow>
              [ClearMsgPanel, CreateNetlist,
               (case CreateNetlist_result ?e of
                  None \<Rightarrow> MessageBox ''Schematic netlist not available''
                | Some netlist \<Rightarrow>
                    WriteNetListFile (Some netlist) (m_IdNetType (m_NoteBook sample_dialog ! 4))
                      fullpath 0),
               EndModal wxID_OK])"
    "FileDialog_result ?e = None \<longrightarrow> m_config d' = m_config sample_dialog"
    by (elim exE conjE) (rule that)
  have fn: "GetPath fn2 = ''/proj''" "GetFullName fn2 = ''board.asc''"
    unfolding r(2) by (simp_all add: f)
  have wc: "wildcard = ''*''" using r(3) w by simp
  show ?thesis
    unfolding r(1) using r(4,5) unfolding fn wc by (simp add: sample_dialog_def)
qed

text \<open>
  C1. When \<open>GenNetlist\<close> runs with a custom page current, \<open>FilenamePrms\<close> gives the empty
  extension, and the extension of the file name proposed in the file dialog comes from
  matching the pattern against the command string of the page: when it matches, the
  extension is the group, three or four alphanumeric characters that the command has
  between a dot and \<open>.xsl"\<close> or \<open>.xslt"\<close>; when the command has no such part, there is no
  match and the extension stays empty.
\<close>

theorem GenNetlist_custom_extension:
  assumes "dialog_ok x d" and "GetCurrentPage d = Some p"
    and "is_custom_id x (m_IdNetType (m_NoteBook d ! p))"
  shows "\<exists>d' command titleString fileExt fn2.
       m_CommandStringCtrl (m_NoteBook d ! p) = Some command
     \<and> m_TitleStringCtrl (m_NoteBook d ! p) = Some titleString
     \<and> FilenamePrms x (m_IdNetType (m_NoteBook d ! p)) (Some []) (Some []) =
         (False, Some [], Some (AllFilesWildcard x))
     \<and> fileExt = (case Matches extRE command of Some m \<Rightarrow> m | None \<Rightarrow> [])
     \<and> (\<forall>m. Matches extRE command = Some m \<longrightarrow> pattern_form command m)
     \<and> (Matches extRE command = None \<longrightarrow> (\<forall>g. \<not> pattern_form command g))
     \<and> fn2 = (if GetPath (SetExt fileExt (RootFileName e)) = []
              then SetPath (ProjectPath e) (SetExt fileExt (RootFileName e))
              else SetExt fileExt (RootFileName e))
     \<and> fn_ext fn2 = fileExt
     \<and> GenNetlist x e d = Some d'
     \<and> calls d' ! length (calls d) =
         FileDialog (titleString @ '' Export'') (GetPath fn2) (GetFullName fn2) (AllFilesWildcard x)"
proof -
  let ?pg = "m_NoteBook d ! p"
  have pv: "p < length (m_NoteBook d)"
    using assms(2) by (simp add: GetCurrentPage_iff)
  have tp: "typed_pages x d" using assms(1) by (simp add: dialog_ok_def)
  from typed_pagesD [OF tp pv] assms(3)
  obtain titleString command where ct: "m_TitleStringCtrl ?pg = Some titleString"
    "m_CommandStringCtrl ?pg = Some command"
    by blast
  have fp: "FilenamePrms x (m_IdNetType ?pg) (Some []) (Some []) =
              (False, Some [], Some (AllFilesWildcard x))"
    using assms(3) by (simp add: FilenamePrms_def is_custom_id_def)
  define fileExt where "fileExt = (case Matches extRE command of Some m \<Rightarrow> m | None \<Rightarrow> [])"
  define fn2 where "fn2 = (if GetPath (SetExt fileExt (RootFileName e)) = []
              then SetPath (ProjectPath e) (SetExt fileExt (RootFileName e))
              else SetExt fileExt (RootFileName e))"
  have sw: "GenNetlist_switch x ?pg
               (case fst (snd (FilenamePrms x (m_IdNetType ?pg) (Some []) (Some [])))
                of Some v \<Rightarrow> v | None \<Rightarrow> [])
               ''Save Netlist File'' = Some (0, fileExt, titleString @ '' Export'')"
    using assms(3) ct unfolding fp
    by (simp add: GenNetlist_switch_def is_custom_id_def fileExt_def)
  from GenNetlist_result [OF assms(1,2) sw, of e]
  obtain d' fn2' wildcard where r: "GenNetlist x e d = Some d'"
    "fn2' = (if GetPath (SetExt fileExt (RootFileName e)) = []
              then SetPath (ProjectPath e) (SetExt fileExt (RootFileName e))
              else SetExt fileExt (RootFileName e))"
    "snd (snd (FilenamePrms x (m_IdNetType ?pg) (Some []) (Some []))) = Some wildcard"
    "calls d' = calls d @ FileDialog (titleString @ '' Export'') (GetPath fn2') (GetFullName fn2') wildcard #
         (case FileDialog_result e of
            None \<Rightarrow> []
          | Some fullpath \<Rightarrow>
              [ClearMsgPanel, CreateNetlist,
               (case CreateNetlist_result e of
                  None \<Rightarrow> MessageBox ''Schematic netlist not available''
                | Some netlist \<Rightarrow>
                    WriteNetListFile (Some netlist) (m_IdNetType ?pg) fullpath 0),
               EndModal wxID_OK])"
    by (elim exE conjE) (rule that)
  have w: "wildcard = AllFilesWildcard x" using r(3) unfolding fp by simp
  have f2: "fn2' = fn2" using r(2) by (simp add: fn2_def)
  have cl: "calls d' ! length (calls d) =
         FileDialog (titleString @ '' Export'') (GetPath fn2) (GetFullName fn2) (AllFilesWildcard x)"
    unfolding r(4) w f2 by simp
  have ext: "fn_ext fn2 = fileExt"
    by (simp add: fn2_def SetExt_def SetPath_def)
  have snd: "\<forall>m. Matches extRE command = Some m \<longrightarrow> pattern_form command m"
    using extRE_sound by blast
  have non: "Matches extRE command = None \<longrightarrow> (\<forall>g. \<not> pattern_form command g)"
    using extRE_None by blast
  show ?thesis
    using ct fp fileExt_def snd non fn2_def ext r(1) cl
    by (intro exI [of _ d'] exI [of _ command] exI [of _ titleString] exI [of _ fileExt]
        exI [of _ fn2] conjI)
qed

theorem GenNetlist_custom_extension_witness:
  "dialog_ok sample_decls sample_dialog
   \<and> GetCurrentPage sample_dialog = Some 4
   \<and> is_custom_id sample_decls (m_IdNetType (m_NoteBook sample_dialog ! 4))
   \<and> m_CommandStringCtrl (m_NoteBook sample_dialog ! 4) = Some ''xsltproc \"p/pads.asc.xsl\"''
   \<and> Matches extRE ''xsltproc \"p/pads.asc.xsl\"'' = Some ''asc''
   \<and> pattern_form ''xsltproc \"p/pads.asc.xsl\"'' ''asc''
   \<and> (\<exists>d'. GenNetlist sample_decls sample_env sample_dialog = Some d'
         \<and> calls d' ! 0 = FileDialog ''PADS Export'' ''/proj'' ''board.asc'' ''*'')"
proof -
  have c: "GetCurrentPage sample_dialog = Some 4"
    by (simp add: GetCurrentPage_def sample_dialog_def)
  have i: "is_custom_id sample_decls (m_IdNetType (m_NoteBook sample_dialog ! 4))"
    by (simp add: is_custom_id_def sample_dialog_def sample_decls_def)
  have s: "m_CommandStringCtrl (m_NoteBook sample_dialog ! 4) = Some ''xsltproc \"p/pads.asc.xsl\"''"
    "m_TitleStringCtrl (m_NoteBook sample_dialog ! 4) = Some ''PADS''"
    "calls sample_dialog = []" "AllFilesWildcard sample_decls = ''*''"
    by (simp_all add: sample_dialog_def sample_decls_def)
  have f: "GetPath (SetExt ''asc'' (RootFileName sample_env)) = ''/proj''"
    "GetFullName (SetExt ''asc'' (RootFileName sample_env)) = ''board.asc''"
    by (simp_all add: GetPath_def GetFullName_def SetExt_def sample_env_def)
  from GenNetlist_custom_extension [OF sample_dialog_ok c i, of sample_env]
  obtain d' command titleString fileExt fn2 where r:
    "m_CommandStringCtrl (m_NoteBook sample_dialog ! 4) = Some command"
    "m_TitleStringCtrl (m_NoteBook sample_dialog ! 4) = Some titleString"
    "fileExt = (case Matches extRE command of Some m \<Rightarrow> m | None \<Rightarrow> [])"
    "\<forall>m. Matches extRE command = Some m \<longrightarrow> pattern_form command m"
    "fn2 = (if GetPath (SetExt fileExt (RootFileName sample_env)) = []
              then SetPath (ProjectPath sample_env) (SetExt fileExt (RootFileName sample_env))
              else SetExt fileExt (RootFileName sample_env))"
    "GenNetlist sample_decls sample_env sample_dialog = Some d'"
    "calls d' ! length (calls sample_dialog) =
         FileDialog (titleString @ '' Export'') (GetPath fn2) (GetFullName fn2)
           (AllFilesWildcard sample_decls)"
    by (elim exE conjE) (rule that)
  have cmd: "command = ''xsltproc \"p/pads.asc.xsl\"''" "titleString = ''PADS''"
    using r(1,2) s by simp_all
  have fe: "fileExt = ''asc''" unfolding r(3) cmd sample_match by simp
  have fn: "GetPath fn2 = ''/proj''" "GetFullName fn2 = ''board.asc''"
    unfolding r(5) fe by (simp_all add: f)
  have pf: "pattern_form ''xsltproc \"p/pads.asc.xsl\"'' ''asc''"
    using r(4) sample_match unfolding cmd by blast
  have "calls d' ! 0 = FileDialog ''PADS Export'' ''/proj'' ''board.asc'' ''*''"
    using r(7) unfolding s fn cmd by simp
  with r(6) sample_dialog_ok c i s(1) sample_match pf show ?thesis by blast
qed

text \<open>
  C7. \<open>RunSimulator\<close> takes the command text of the Spice page, trimmed of white space
  at both ends; the executable is the part before its first space and the arguments the
  part after it (the whole text and nothing when it has no space); the arguments are
  followed by a space and, in double quotes, the full path of the schematic's file with
  the extension \<open>cir\<close>. The netlist file is written through the parent frame, and
  \<open>ExecuteFile\<close> is called only when \<open>WriteNetListFile\<close> succeeds.
\<close>

theorem RunSimulator_command:
  assumes "dialog_ok x d" and "GetCurrentPage d = Some p"
  shows "\<exists>d' spice cmdtext tmp l r fn netlist_opt.
       m_PanelNetType d PANELSPICE = Some spice
     \<and> m_CommandStringCtrl (m_NoteBook d ! spice) = Some cmdtext
     \<and> tmp = Trim True (Trim False cmdtext)
     \<and> cmdtext = l @ tmp @ r \<and> list_all wxIsspace l \<and> list_all wxIsspace r
     \<and> (tmp \<noteq> [] \<longrightarrow> \<not> wxIsspace (hd tmp) \<and> \<not> wxIsspace (last tmp))
     \<and> (CHR '' '' \<in> set tmp \<longrightarrow>
          tmp = BeforeFirst CHR '' '' tmp @ '' '' @ AfterFirst CHR '' '' tmp)
     \<and> (CHR '' '' \<notin> set tmp \<longrightarrow>
          BeforeFirst CHR '' '' tmp = tmp \<and> AfterFirst CHR '' '' tmp = [])
     \<and> CHR '' '' \<notin> set (BeforeFirst CHR '' '' tmp)
     \<and> fn = (RootFileName e)\<lparr>fn_ext := ''cir'', fn_hasExt := True\<rparr>
     \<and> GetFullName fn = fn_name (RootFileName e) @ ''.cir''
     \<and> netlist_opt = (if m_SpiceAjustPassiveValues (m_NoteBook d ! p) = Some True
                        then NET_ADJUST_PASSIVE_VALS x else 0)
     \<and> RunSimulator x e d = Some d'
     \<and> SimulatorCommand (m_Parent d') = tmp
     \<and> calls d' = calls d @
           [CreateNetlist,
            WriteNetListFile (CreateNetlist_result e) (m_IdNetType (m_NoteBook d ! p))
              (GetFullPath fn) netlist_opt] @
           (if WriteNetListFile_result e
            then [ExecuteFile (BeforeFirst CHR '' '' tmp)
                    (AfterFirst CHR '' '' tmp @ '' '' @ [dquote] @ GetFullPath fn @ [dquote])]
            else [])"
proof -
  from assms(1) have shape: "panels_valid d" "spice_ctrls d"
    by (simp_all add: dialog_ok_def)
  have pv: "p < length (m_NoteBook d)" and sel: "m_NoteBook_selection d = Some p"
    using assms(2) by (simp_all add: GetCurrentPage_iff)
  from spice_ctrlsD [OF shape(2)]
  obtain spice a cmdtext where s: "m_PanelNetType d PANELSPICE = Some spice"
    "m_SpiceAjustPassiveValues (m_NoteBook d ! spice) = Some a"
    "m_CommandStringCtrl (m_NoteBook d ! spice) = Some cmdtext"
    by blast
  have sv: "spice < length (m_NoteBook d)"
    using panels_validD [OF shape(1) _ s(1)] by (simp add: PANELSPICE_def)
  from NetlistUpdateOpt_result [OF shape]
  obtain P1 where P1: "NetlistUpdateOpt d = Some (d\<lparr>m_Parent := P1\<rparr>)" by blast
  define tmp where "tmp = Trim True (Trim False cmdtext)"
  define fn where "fn = (RootFileName e)\<lparr>fn_ext := ''cir'', fn_hasExt := True\<rparr>"
  define netlist_opt :: "32 word" where "netlist_opt =
       (if (case m_SpiceAjustPassiveValues (m_NoteBook d ! p) of None \<Rightarrow> False | Some v \<Rightarrow> v)
        then 0 OR NET_ADJUST_PASSIVE_VALS x else 0)"
  define cs where "cs = calls d @
           [CreateNetlist,
            WriteNetListFile (CreateNetlist_result e) (m_IdNetType (m_NoteBook d ! p))
              (GetFullPath fn) netlist_opt] @
           (if WriteNetListFile_result e
            then [ExecuteFile (BeforeFirst CHR '' '' tmp)
                    (AfterFirst CHR '' '' tmp @ '' '' @ [dquote] @ GetFullPath fn @ [dquote])]
            else [])"
  define d' where "d' = d\<lparr>m_Parent := P1\<lparr>SimulatorCommand := tmp\<rparr>, calls := cs\<rparr>"
  have fneq: "SetExt ''cir'' (RootFileName e) = fn"
    by (simp add: SetExt_def fn_def)
  have run: "RunSimulator x e d = Some d'"
    unfolding RunSimulator_def P1
    using s sv pv sel
    by (simp add: page_at_def GetCurrentPage_def SetSimulatorCommand_def do_call_def Let_def
        fneq tmp_def [symmetric] netlist_opt_def [symmetric] d'_def cs_def)
  from Trim_both [of cmdtext] obtain l r where tr: "cmdtext = l @ tmp @ r" "list_all wxIsspace l"
    "list_all wxIsspace r" "tmp \<noteq> [] \<longrightarrow> \<not> wxIsspace (hd tmp) \<and> \<not> wxIsspace (last tmp)"
    unfolding tmp_def by blast
  note fs = First_split [of "CHR '' ''" tmp]
  have f1: "CHR '' '' \<in> set tmp \<longrightarrow>
          tmp = BeforeFirst CHR '' '' tmp @ '' '' @ AfterFirst CHR '' '' tmp"
    using fs by simp
  have f2: "CHR '' '' \<notin> set tmp \<longrightarrow>
          BeforeFirst CHR '' '' tmp = tmp \<and> AfterFirst CHR '' '' tmp = []"
    using fs by simp
  have f3: "CHR '' '' \<notin> set (BeforeFirst CHR '' '' tmp)"
    using fs by simp
  have gn: "GetFullName fn = fn_name (RootFileName e) @ ''.cir''"
    by (simp add: GetFullName_def fn_def)
  have sc: "SimulatorCommand (m_Parent d') = tmp" by (simp add: d'_def)
  have no: "netlist_opt = (if m_SpiceAjustPassiveValues (m_NoteBook d ! p) = Some True
                        then NET_ADJUST_PASSIVE_VALS x else 0)"
    by (simp add: netlist_opt_def split: option.splits)
  have cl: "calls d' = cs" by (simp add: d'_def)
  show ?thesis
    using s(1,3) tmp_def tr f1 f2 f3 fn_def gn no run sc cl [unfolded cs_def]
    by (intro exI [of _ d'] exI [of _ spice] exI [of _ cmdtext] exI [of _ tmp] exI [of _ l]
        exI [of _ r] exI [of _ fn] exI [of _ netlist_opt] conjI)
qed

theorem RunSimulator_command_witness:
  "dialog_ok sample_decls (sample_dialog\<lparr>m_NoteBook_selection := Some 3\<rparr>)
   \<and> GetCurrentPage (sample_dialog\<lparr>m_NoteBook_selection := Some 3\<rparr>) = Some 3
   \<and> m_CommandStringCtrl (m_NoteBook sample_dialog ! 3) = Some '' ngspice -b ''
   \<and> WriteNetListFile_result sample_env
   \<and> (\<exists>d'. RunSimulator sample_decls sample_env (sample_dialog\<lparr>m_NoteBook_selection := Some 3\<rparr>)
              = Some d'
         \<and> SimulatorCommand (m_Parent d') = ''ngspice -b''
         \<and> calls d' =
             [CreateNetlist, WriteNetListFile None 4 ''/proj/board.cir'' 1,
              ExecuteFile ''ngspice'' (''-b '' @ [dquote] @ ''/proj/board.cir'' @ [dquote])])"
proof -
  let ?D = "sample_dialog\<lparr>m_NoteBook_selection := Some 3\<rparr>"
  have ok: "dialog_ok sample_decls ?D" using sample_dialog_ok by simp
  have c: "GetCurrentPage ?D = Some 3"
    by (simp add: GetCurrentPage_def sample_dialog_def)
  have s: "m_PanelNetType ?D PANELSPICE = Some 3"
    "m_CommandStringCtrl (m_NoteBook ?D ! 3) = Some '' ngspice -b ''"
    "m_SpiceAjustPassiveValues (m_NoteBook ?D ! 3) = Some True"
    "m_IdNetType (m_NoteBook ?D ! 3) = 4" "calls ?D = []"
    "NET_ADJUST_PASSIVE_VALS sample_decls = 1"
    by (simp_all add: sample_dialog_def PANELSPICE_def sample_decls_def)
  have e: "WriteNetListFile_result sample_env" "CreateNetlist_result sample_env = None"
    "GetFullPath ((RootFileName sample_env)\<lparr>fn_ext := ''cir'', fn_hasExt := True\<rparr>) = ''/proj/board.cir''"
    by (simp_all add: sample_env_def GetFullPath_def GetFullName_def)
  from RunSimulator_command [OF ok c, of sample_env]
  obtain d' spice cmdtext tmp fn netlist_opt where r:
    "m_PanelNetType ?D PANELSPICE = Some spice"
    "m_CommandStringCtrl (m_NoteBook ?D ! spice) = Some cmdtext"
    "tmp = Trim True (Trim False cmdtext)"
    "fn = (RootFileName sample_env)\<lparr>fn_ext := ''cir'', fn_hasExt := True\<rparr>"
    "netlist_opt = (if m_SpiceAjustPassiveValues (m_NoteBook ?D ! 3) = Some True
                        then NET_ADJUST_PASSIVE_VALS sample_decls else 0)"
    "RunSimulator sample_decls sample_env ?D = Some d'"
    "SimulatorCommand (m_Parent d') = tmp"
    "calls d' = calls ?D @
           [CreateNetlist,
            WriteNetListFile (CreateNetlist_result sample_env) (m_IdNetType (m_NoteBook ?D ! 3))
              (GetFullPath fn) netlist_opt] @
           (if WriteNetListFile_result sample_env
            then [ExecuteFile (BeforeFirst CHR '' '' tmp)
                    (AfterFirst CHR '' '' tmp @ '' '' @ [dquote] @ GetFullPath fn @ [dquote])]
            else [])"
    by (elim exE conjE) (rule that)
  have sp: "spice = 3" "cmdtext = '' ngspice -b ''" using r(1,2) s(1,2) by simp_all
  have t: "tmp = ''ngspice -b''" unfolding r(3) sp sample_command ..
  have n: "netlist_opt = 1" unfolding r(5) s by simp
  have "calls d' =
             [CreateNetlist, WriteNetListFile None 4 ''/proj/board.cir'' 1,
              ExecuteFile ''ngspice'' (''-b '' @ [dquote] @ ''/proj/board.cir'' @ [dquote])]"
    unfolding r(8) r(4) e t n s sample_command using e(1) by simp
  with r(6,7) t ok c s(2) e(1) show ?thesis by simp
qed

text \<open>
  C10. \<open>InvokeDialogNetList\<close> always sets the format name of the calling frame to the
  \<open>m_DefaultNetFmtName\<close> the dialog ends with, whatever happened while the dialog was
  open, and calls \<open>SaveProjectSettings\<close> exactly when that name differs from the format
  name the frame had when the dialog was opened.
\<close>

theorem InvokeDialogNetList_saves_on_change:
  "\<exists>dlg. NETLIST_DIALOG_ctor x aCaller cfg idx = Some dlg
      \<and> NetListFormatName (m_Parent dlg) = NetListFormatName aCaller
      \<and> (\<forall>ret dlg1. ShowModal dlg = Some (ret, dlg1) \<longrightarrow>
            (\<exists>frame cs.
                InvokeDialogNetList x ShowModal aCaller cfg idx = Some (ret, frame, m_config dlg1, cs)
              \<and> frame = (m_Parent dlg1)\<lparr>NetListFormatName := m_DefaultNetFmtName dlg1\<rparr>
              \<and> NetListFormatName frame = m_DefaultNetFmtName dlg1
              \<and> cs = calls dlg1 @
                    (if m_DefaultNetFmtName dlg1 \<noteq> NetListFormatName aCaller
                     then [SaveProjectSettings] else [])))"
proof -
  from ctor_result [of x aCaller cfg idx]
  obtain dlg where c: "NETLIST_DIALOG_ctor x aCaller cfg idx = Some dlg" "m_Parent dlg = aCaller"
    by blast
  have "\<forall>ret dlg1. ShowModal dlg = Some (ret, dlg1) \<longrightarrow>
            (\<exists>frame cs.
                InvokeDialogNetList x ShowModal aCaller cfg idx = Some (ret, frame, m_config dlg1, cs)
              \<and> frame = (m_Parent dlg1)\<lparr>NetListFormatName := m_DefaultNetFmtName dlg1\<rparr>
              \<and> NetListFormatName frame = m_DefaultNetFmtName dlg1
              \<and> cs = calls dlg1 @
                    (if m_DefaultNetFmtName dlg1 \<noteq> NetListFormatName aCaller
                     then [SaveProjectSettings] else []))"
    by (auto simp add: InvokeDialogNetList_def c SetNetListFormatName_def do_call_def Let_def)
  with c show ?thesis by (intro exI [of _ dlg]) simp
qed

theorem InvokeDialogNetList_saves_on_change_witness:
  "(\<exists>frame cs. InvokeDialogNetList sample_decls (\<lambda>dlg. Some (wxID_CANCEL, dlg))
                  sample_frame sample_config 0 = Some (wxID_CANCEL, frame, sample_config, cs)
       \<and> NetListFormatName frame = ''PADS'' \<and> cs = [])
   \<and> (\<exists>frame cs. InvokeDialogNetList sample_decls (\<lambda>dlg. Some (wxID_CANCEL, dlg))
                  (sample_frame\<lparr>NetListFormatName := ''Gone''\<rparr>) sample_config 0
                  = Some (wxID_CANCEL, frame, sample_config, cs)
       \<and> NetListFormatName frame = ''Pcbnew'' \<and> cs = [SaveProjectSettings])"
proof -
  let ?S = "\<lambda>dlg :: NETLIST_DIALOG. Some (wxID_CANCEL, dlg)"
  from sample_dialog_ctor
  obtain d1 where d1: "NETLIST_DIALOG_ctor sample_decls sample_frame sample_config 0 = Some d1"
    "m_DefaultNetFmtName d1 = ''PADS''" "m_config d1 = sample_config" "calls d1 = []"
    by (auto simp: sample_dialog_def)
  let ?G = "sample_frame\<lparr>NetListFormatName := ''Gone''\<rparr>"
  from ctor_result [of sample_decls ?G sample_config 0]
  obtain d2 where d2: "NETLIST_DIALOG_ctor sample_decls ?G sample_config 0 = Some d2"
    "m_DefaultNetFmtName d2 = ''Pcbnew''" "m_config d2 = sample_config" "calls d2 = []"
    using sample_gone_pages by auto
  have n: "NetListFormatName sample_frame = ''PADS''" by (simp add: sample_frame_def)
  from InvokeDialogNetList_saves_on_change [of sample_decls sample_frame sample_config 0 ?S]
  have 1: "\<exists>frame cs. InvokeDialogNetList sample_decls ?S sample_frame sample_config 0
                  = Some (wxID_CANCEL, frame, sample_config, cs)
       \<and> NetListFormatName frame = ''PADS'' \<and> cs = []"
    unfolding d1(1) using d1(2-4) n by auto
  from InvokeDialogNetList_saves_on_change [of sample_decls ?G sample_config 0 ?S]
  have 2: "\<exists>frame cs. InvokeDialogNetList sample_decls ?S ?G sample_config 0
                  = Some (wxID_CANCEL, frame, sample_config, cs)
       \<and> NetListFormatName frame = ''Pcbnew'' \<and> cs = [SaveProjectSettings]"
    unfolding d2(1) using d2(2-4) by auto
  from 1 2 show ?thesis by blast
qed

text \<open>
  C8. A generator is added only with a command string and a title that are not empty,
  and with a title that is not the format name of an installed custom page. The OK
  handler of the add-generator dialog ends the dialog only when both fields are filled
  (otherwise it shows a message and the dialog stays open), so the dialog ends with
  \<open>wxID_OK\<close> only then. When the title is the name of an installed custom page,
  \<open>OnAddGenerator\<close> shows "This plugin already exists. Abort" and changes nothing else:
  pages, \<open>m_PanelNetType\<close> and the configuration stay as they were. Otherwise the page is
  added in the first free custom slot (the last one when all are taken), the setup is
  written and the dialog ends with \<open>NET_PLUGIN_CHANGE\<close>.
\<close>

theorem OnAddGenerator_checks:
  assumes "dialog_ok x d"
  shows "(EndModal wxID_OK \<in> set (OnOKClick g) \<longleftrightarrow>
            m_textCtrlCommand g \<noteq> [] \<and> m_textCtrlName g \<noteq> [])
     \<and> (m_textCtrlCommand g = [] \<or> m_textCtrlName g = [] \<longrightarrow>
            (\<exists>msg. OnOKClick g = [MessageBox msg]))
     \<and> (\<exists>d' ret dlg cs slot.
           ADD_GENERATOR_ShowModal evs \<lparr>m_textCtrlName = [], m_textCtrlCommand = []\<rparr> = (ret, dlg, cs)
         \<and> OnAddGenerator evs d = Some d'
         \<and> (ret = wxID_OK \<longrightarrow> m_textCtrlName dlg \<noteq> [] \<and> m_textCtrlCommand dlg \<noteq> [])
         \<and> (ret \<noteq> wxID_OK \<longrightarrow> d' = d)
         \<and> (ret = wxID_OK
              \<and> m_textCtrlName dlg \<in> set (map m_pageNetFmtName (installed_custom d 0)) \<longrightarrow>
                d' = do_call (MessageBox ''This plugin already exists. Abort'') d)
         \<and> slot = (if length (installed_custom d 0) < 8
                    then PANELCUSTOMBASE + length (installed_custom d 0)
                    else PANELCUSTOMBASE + 7)
         \<and> (ret = wxID_OK
              \<and> m_textCtrlName dlg \<notin> set (map m_pageNetFmtName (installed_custom d 0)) \<longrightarrow>
                m_NoteBook d' = m_NoteBook d @
                  [\<lparr>m_IdNetType = int slot,
                    m_IsCurrentFormat = (m_textCtrlName dlg = m_DefaultNetFmtName d),
                    m_SpiceAjustPassiveValues = None,
                    m_CommandStringCtrl = Some (m_textCtrlCommand dlg),
                    m_TitleStringCtrl = Some (m_textCtrlName dlg),
                    m_pageNetFmtName = m_textCtrlName dlg\<rparr>]
              \<and> m_PanelNetType d' = (m_PanelNetType d)(slot := Some (length (m_NoteBook d)))
              \<and> calls d' = calls d @ [EndModal NET_PLUGIN_CHANGE])
         \<and> (m_NoteBook d' \<noteq> m_NoteBook d \<or> m_PanelNetType d' \<noteq> m_PanelNetType d
              \<or> m_config d' \<noteq> m_config d \<longrightarrow>
                m_textCtrlName dlg \<noteq> [] \<and> m_textCtrlCommand dlg \<noteq> []
              \<and> m_textCtrlName dlg \<notin> set (map m_pageNetFmtName (installed_custom d 0))))"
proof (intro conjI)
  show "EndModal wxID_OK \<in> set (OnOKClick g) \<longleftrightarrow>
            m_textCtrlCommand g \<noteq> [] \<and> m_textCtrlName g \<noteq> []"
    by (rule OnOKClick_ends)
  show "m_textCtrlCommand g = [] \<or> m_textCtrlName g = [] \<longrightarrow>
            (\<exists>msg. OnOKClick g = [MessageBox msg])"
    by (auto simp add: OnOKClick_def)
next
  from assms have ok: "panels_valid d" "contiguous d" "custom_ctrls d" "spice_ctrls d"
    by (simp_all add: dialog_ok_def)
  obtain ret dlg cs where sm:
    "ADD_GENERATOR_ShowModal evs \<lparr>m_textCtrlName = [], m_textCtrlCommand = []\<rparr> = (ret, dlg, cs)"
    by (cases "ADD_GENERATOR_ShowModal evs \<lparr>m_textCtrlName = [], m_textCtrlCommand = []\<rparr>") auto
  define title where "title = m_textCtrlName dlg"
  define cmd where "cmd = m_textCtrlCommand dlg"
  define names where "names = set (map m_pageNetFmtName (installed_custom d 0))"
  define slot where "slot = (if length (installed_custom d 0) < 8
                    then PANELCUSTOMBASE + length (installed_custom d 0)
                    else PANELCUSTOMBASE + 7)"
  define pg where "pg = \<lparr>m_IdNetType = int slot,
                    m_IsCurrentFormat = (title = m_DefaultNetFmtName d),
                    m_SpiceAjustPassiveValues = None,
                    m_CommandStringCtrl = Some cmd,
                    m_TitleStringCtrl = Some title,
                    m_pageNetFmtName = title\<rparr>"
  have filled: "ret = wxID_OK \<longrightarrow> title \<noteq> [] \<and> cmd \<noteq> []"
    using ADD_GENERATOR_ShowModal_OK [of evs _ dlg cs] sm by (auto simp: title_def cmd_def)
  have search: "OnAddGenerator_from title 0 PANELCUSTOMBASE d =
                  Some (if title \<in> names then Inl () else Inr slot)"
    using OnAddGenerator_from_result [OF ok(1,2), of title 0 PANELCUSTOMBASE]
    by (auto simp add: names_def slot_def)
  have "\<exists>d'. OnAddGenerator evs d = Some d'
         \<and> (ret \<noteq> wxID_OK \<longrightarrow> d' = d)
         \<and> (ret = wxID_OK \<and> title \<in> names \<longrightarrow>
                d' = do_call (MessageBox ''This plugin already exists. Abort'') d)
         \<and> (ret = wxID_OK \<and> title \<notin> names \<longrightarrow>
                m_NoteBook d' = m_NoteBook d @ [pg]
              \<and> m_PanelNetType d' = (m_PanelNetType d)(slot := Some (length (m_NoteBook d)))
              \<and> calls d' = calls d @ [EndModal NET_PLUGIN_CHANGE])"
  proof (cases "ret = wxID_OK")
    case False
    then have "OnAddGenerator evs d = Some d"
      by (simp add: OnAddGenerator_def sm)
    with False show ?thesis by simp
  next
    case True
    show ?thesis
    proof (cases "title \<in> names")
      case dup: True
      have "OnAddGenerator evs d = Some (do_call (MessageBox ''This plugin already exists. Abort'') d)"
        using True dup search
        by (simp add: OnAddGenerator_def sm GetGeneratorTitle_def title_def [symmetric])
      with True dup show ?thesis by simp
    next
      case new: False
      define d2 where "d2 = d\<lparr>m_NoteBook := m_NoteBook d @ [pg],
             m_NoteBook_selection :=
               (if title = m_DefaultNetFmtName d \<or> m_NoteBook_selection d = None
                then Some (length (m_NoteBook d)) else m_NoteBook_selection d),
             m_asFormatSelected := (title = m_DefaultNetFmtName d \<or> m_asFormatSelected d)\<rparr>"
      have add: "AddOneCustomPage title cmd (int slot) d = Some (length (m_NoteBook d), d2)"
        by (simp add: AddOneCustomPage_eq d2_def pg_def)
      define d3 where "d3 = set_panel slot (Some (length (m_NoteBook d))) d2"
      have d3f: "m_NoteBook d3 = m_NoteBook d @ [pg]"
        "m_PanelNetType d3 = (m_PanelNetType d)(slot := Some (length (m_NoteBook d)))"
        "calls d3 = calls d"
        by (simp_all add: d3_def d2_def set_panel_def)
      have pgc: "m_TitleStringCtrl pg \<noteq> None" "m_CommandStringCtrl pg \<noteq> None"
        by (simp_all add: pg_def)
      note ok3 = shape_added [OF ok slot_def pgc d3f(1,2)]
      from WriteCurrentNetlistSetup_frame [OF ok3]
      obtain d4 where d4: "WriteCurrentNetlistSetup d3 = Some d4"
        "m_NoteBook d4 = m_NoteBook d3" "m_PanelNetType d4 = m_PanelNetType d3"
        "calls d4 = calls d3"
        by blast
      have run: "OnAddGenerator evs d = Some (do_call (EndModal NET_PLUGIN_CHANGE) d4)"
        using True new search add d4(1)
        by (simp add: OnAddGenerator_def sm GetGeneratorTitle_def GetGeneratorTCommandLine_def
            title_def [symmetric] cmd_def [symmetric] d3_def [symmetric])
      show ?thesis
        using True new run d4(2-4) d3f
        by (intro exI [of _ "do_call (EndModal NET_PLUGIN_CHANGE) d4"]) (simp add: do_call_def)
    qed
  qed
  then obtain d' where r: "OnAddGenerator evs d = Some d'"
    "ret \<noteq> wxID_OK \<longrightarrow> d' = d"
    "ret = wxID_OK \<and> title \<in> names \<longrightarrow>
                d' = do_call (MessageBox ''This plugin already exists. Abort'') d"
    "ret = wxID_OK \<and> title \<notin> names \<longrightarrow>
                m_NoteBook d' = m_NoteBook d @ [pg]
              \<and> m_PanelNetType d' = (m_PanelNetType d)(slot := Some (length (m_NoteBook d)))
              \<and> calls d' = calls d @ [EndModal NET_PLUGIN_CHANGE]"
    by blast
  have only: "m_NoteBook d' \<noteq> m_NoteBook d \<or> m_PanelNetType d' \<noteq> m_PanelNetType d
              \<or> m_config d' \<noteq> m_config d \<longrightarrow>
                title \<noteq> [] \<and> cmd \<noteq> [] \<and> title \<notin> names"
  proof (cases "ret = wxID_OK \<and> title \<notin> names")
    case True
    with filled show ?thesis by simp
  next
    case False
    then have "d' = d \<or> d' = do_call (MessageBox ''This plugin already exists. Abort'') d"
      using r(2,3) by blast
    then show ?thesis by (auto simp add: do_call_def)
  qed
  show "\<exists>d' ret dlg cs slot.
           ADD_GENERATOR_ShowModal evs \<lparr>m_textCtrlName = [], m_textCtrlCommand = []\<rparr> = (ret, dlg, cs)
         \<and> OnAddGenerator evs d = Some d'
         \<and> (ret = wxID_OK \<longrightarrow> m_textCtrlName dlg \<noteq> [] \<and> m_textCtrlCommand dlg \<noteq> [])
         \<and> (ret \<noteq> wxID_OK \<longrightarrow> d' = d)
         \<and> (ret = wxID_OK
              \<and> m_textCtrlName dlg \<in> set (map m_pageNetFmtName (installed_custom d 0)) \<longrightarrow>
                d' = do_call (MessageBox ''This plugin already exists. Abort'') d)
         \<and> slot = (if length (installed_custom d 0) < 8
                    then PANELCUSTOMBASE + length (installed_custom d 0)
                    else PANELCUSTOMBASE + 7)
         \<and> (ret = wxID_OK
              \<and> m_textCtrlName dlg \<notin> set (map m_pageNetFmtName (installed_custom d 0)) \<longrightarrow>
                m_NoteBook d' = m_NoteBook d @
                  [\<lparr>m_IdNetType = int slot,
                    m_IsCurrentFormat = (m_textCtrlName dlg = m_DefaultNetFmtName d),
                    m_SpiceAjustPassiveValues = None,
                    m_CommandStringCtrl = Some (m_textCtrlCommand dlg),
                    m_TitleStringCtrl = Some (m_textCtrlName dlg),
                    m_pageNetFmtName = m_textCtrlName dlg\<rparr>]
              \<and> m_PanelNetType d' = (m_PanelNetType d)(slot := Some (length (m_NoteBook d)))
              \<and> calls d' = calls d @ [EndModal NET_PLUGIN_CHANGE])
         \<and> (m_NoteBook d' \<noteq> m_NoteBook d \<or> m_PanelNetType d' \<noteq> m_PanelNetType d
              \<or> m_config d' \<noteq> m_config d \<longrightarrow>
                m_textCtrlName dlg \<noteq> [] \<and> m_textCtrlCommand dlg \<noteq> []
              \<and> m_textCtrlName dlg \<notin> set (map m_pageNetFmtName (installed_custom d 0)))"
    using sm r filled only slot_def
    unfolding title_def cmd_def names_def pg_def
    by (intro exI [of _ d'] exI [of _ ret] exI [of _ dlg] exI [of _ cs] exI [of _ slot] conjI)
qed

theorem OnAddGenerator_checks_witness:
  "dialog_ok sample_decls sample_dialog
   \<and> OnOKClick \<lparr>m_textCtrlName = ''PADS'', m_textCtrlCommand = []\<rparr> =
       [MessageBox ''Error. You must provide a command String'']
   \<and> OnAddGenerator [TypeName ''PADS'', ClickOK, TypeCommand ''x'', ClickOK] sample_dialog =
       Some (do_call (MessageBox ''This plugin already exists. Abort'') sample_dialog)
   \<and> (\<exists>d'. OnAddGenerator [TypeName ''BOM'', TypeCommand ''python bom.py'', ClickOK] sample_dialog
              = Some d'
         \<and> m_PanelNetType d' 5 = Some 5
         \<and> m_pageNetFmtName (m_NoteBook d' ! 5) = ''BOM''
         \<and> m_CommandStringCtrl (m_NoteBook d' ! 5) = Some ''python bom.py''
         \<and> calls d' = [EndModal NET_PLUGIN_CHANGE])"
proof -
  let ?e1 = "[TypeName ''PADS'', ClickOK, TypeCommand ''x'', ClickOK]"
  let ?e2 = "[TypeName ''BOM'', TypeCommand ''python bom.py'', ClickOK]"
  have len: "length (installed_custom sample_dialog 0) = 1"
    using arg_cong [OF sample_installed, of length] by simp
  have nb: "length (m_NoteBook sample_dialog) = 5" "calls sample_dialog = []"
    by (simp_all add: sample_dialog_def)
  from OnAddGenerator_checks [OF sample_dialog_ok,
      of "\<lparr>m_textCtrlName = ''PADS'', m_textCtrlCommand = []\<rparr>" ?e1]
  have ok: "\<exists>msg. OnOKClick \<lparr>m_textCtrlName = ''PADS'', m_textCtrlCommand = []\<rparr> = [MessageBox msg]"
    and 1: "OnAddGenerator ?e1 sample_dialog =
              Some (do_call (MessageBox ''This plugin already exists. Abort'') sample_dialog)"
    unfolding sample_add_events sample_installed by auto
  from OnAddGenerator_checks [OF sample_dialog_ok, of _ ?e2]
  obtain d' where 2: "OnAddGenerator ?e2 sample_dialog = Some d'"
    "m_NoteBook d' = m_NoteBook sample_dialog @
                  [\<lparr>m_IdNetType = int (PANELCUSTOMBASE + 1),
                    m_IsCurrentFormat = (''BOM'' = m_DefaultNetFmtName sample_dialog),
                    m_SpiceAjustPassiveValues = None,
                    m_CommandStringCtrl = Some ''python bom.py'',
                    m_TitleStringCtrl = Some ''BOM'',
                    m_pageNetFmtName = ''BOM''\<rparr>]"
    "m_PanelNetType d' = (m_PanelNetType sample_dialog)(PANELCUSTOMBASE + 1 := Some 5)"
    "calls d' = [EndModal NET_PLUGIN_CHANGE]"
    unfolding sample_add_events sample_installed len nb by auto
  have "m_PanelNetType d' 5 = Some 5" "m_pageNetFmtName (m_NoteBook d' ! 5) = ''BOM''"
    "m_CommandStringCtrl (m_NoteBook d' ! 5) = Some ''python bom.py''"
    unfolding 2 using nb(1) by (simp_all add: PANELCUSTOMBASE_def nth_append)
  moreover have "OnOKClick \<lparr>m_textCtrlName = ''PADS'', m_textCtrlCommand = []\<rparr> =
       [MessageBox ''Error. You must provide a command String'']"
    using ok by (simp add: OnOKClick_def)
  ultimately show ?thesis
    using sample_dialog_ok 1 2(1,4) by blast
qed

end
